(* ===== verification/Prelude.thy ===== *)
theory Prelude
  imports Main "HOL-Library.Sublist" "HOL-Library.Multiset"
begin

text \<open>
  Shared vocabulary of the development: the names of the model's basic types, the
  theorem collections the component theories fill, and the JavaScript value coercions
  that the TypeScript sources use (\<open>x || null\<close>, \<open>x || []\<close>) written out as HOL
  functions, with the generic list lemmas the components share.
\<close>

section \<open>Theorem collections\<close>

named_theorems store_defs "definitions of the MemStorage operations, unfolded together"
named_theorems jsmap_simps "characteristic equations of the JavaScript Map model"

section \<open>Basic types\<close>

text \<open>
  Identifiers are the strings produced by \<open>crypto.randomUUID()\<close>; a \<open>Date\<close> is read
  through \<open>getTime()\<close> as milliseconds since the epoch. A \<open>stamp\<close> is what one call of
  \<open>randomUUID()\<close> together with one \<open>new Date()\<close> supplies to an insertion.
\<close>

type_synonym uuid = string
type_synonym timestamp = nat
type_synonym stamp = "uuid \<times> timestamp"

section \<open>JavaScript coercions\<close>

text \<open>
  \<open>s || null\<close> on a value of type \<open>string | null | undefined\<close>: the empty string is
  falsy, so it is replaced by \<open>null\<close> as well (\<open>None\<close> models both \<open>null\<close> and
  \<open>undefined\<close>).
\<close>

definition js_or_null :: "string option \<Rightarrow> string option" where
  "js_or_null x = (case x of None \<Rightarrow> None | Some s \<Rightarrow> (if s = [] then None else Some s))"

text \<open>
  \<open>xs || []\<close> on an array that may be \<open>null\<close> or \<open>undefined\<close>: every array, the
  empty one included, is truthy, so only a missing array is replaced.
\<close>

definition js_or_nil :: "'a list option \<Rightarrow> 'a list" where
  "js_or_nil x = (case x of None \<Rightarrow> [] | Some xs \<Rightarrow> xs)"

lemma js_or_null_simps [simp]:
  "js_or_null None = None"
  "js_or_null (Some []) = None"
  "s \<noteq> [] \<Longrightarrow> js_or_null (Some s) = Some s"
  by (simp_all add: js_or_null_def)

lemma js_or_null_idem [simp]: "js_or_null (js_or_null x) = js_or_null x"
  by (simp add: js_or_null_def split: option.splits)

lemma js_or_null_not_empty [simp]: "js_or_null x \<noteq> Some []"
  by (simp add: js_or_null_def split: option.splits)

lemma js_or_nil_simps [simp]:
  "js_or_nil None = []"
  "js_or_nil (Some xs) = xs"
  by (simp_all add: js_or_nil_def)

section \<open>Lists\<close>

lemma filter_map_snd:
  "filter P (map snd xs) = map snd (filter (\<lambda>e. P (snd e)) xs)"
  by (induction xs) auto

lemma length_filter_append_single [simp]:
  "length (filter P (xs @ [x])) = length (filter P xs) + (if P x then 1 else 0)"
  by simp

lemma mset_filter_append_single:
  "mset (filter P (xs @ [x])) = mset (filter P xs) + (if P x then {#x#} else {#})"
  by simp

text \<open>
  A list sorted descending by a natural-number key whose keys are \<open>a, \<dots>, b - 1\<close>
  (as a multiset) has the keys \<open>b - 1, \<dots>, a\<close> in this order.
\<close>

lemma desc_sorted_mset_upt:
  assumes "sorted (map (\<lambda>x. - int (g x)) xs)" and "mset (map g xs) = mset [a..<b]"
  shows "map g xs = rev [a..<b]"
proof -
  have "sorted_wrt (\<lambda>x y. y \<le> x) (map g xs)"
    using assms(1) by (simp add: sorted_wrt_map)
  then have srt: "sorted (rev (map g xs))"
    by (simp add: sorted_wrt_rev)
  have "mset (rev (map g xs)) = mset [a..<b]" using assms(2) by simp
  then have "sort [a..<b] = rev (map g xs)"
    using srt by (rule properties_for_sort)
  then show ?thesis by simp
qed

lemma mset_eq_upt_distinct: "mset xs = mset [a..<b] \<Longrightarrow> distinct xs"
  by (metis distinct_upt mset_eq_imp_distinct_iff)

text \<open>Appending an element whose key is below all others puts it first after a stable sort.\<close>

lemma sort_key_snoc_least:
  fixes f :: "'a \<Rightarrow> 'b::linorder"
  assumes less: "\<forall>y\<in>set xs. f x < f y"
  shows "sort_key f (xs @ [x]) = x # sort_key f xs"
proof (rule properties_for_sort_key)
  show "mset (x # sort_key f xs) = mset (xs @ [x])" by simp
next
  fix k
  have stab: "filter (\<lambda>y. f k = f y) (sort_key f xs) = filter (\<lambda>y. f k = f y) xs"
    using sort_key_stable [of f "f k" xs] by (simp only: eq_commute)
  show "filter (\<lambda>y. f k = f y) (x # sort_key f xs) = filter (\<lambda>y. f k = f y) (xs @ [x])"
  proof (cases "f k = f x")
    case True
    have "filter (\<lambda>y. f k = f y) xs = []"
      unfolding filter_empty_conv using less True by fastforce
    with stab True show ?thesis by simp
  next
    case False
    with stab show ?thesis by simp
  qed
next
  show "sorted (map f (x # sort_key f xs))"
    using less by (simp add: less_imp_le)
qed

lemma map_eq_self_iff: "map f xs = xs \<longleftrightarrow> (\<forall>x\<in>set xs. f x = x)"
  using map_eq_conv [of f xs id] by simp

end
