(* ===== verification/JsMap.thy ===== *)
theory JsMap
  imports Prelude
begin

text \<open>
  The JavaScript \<open>Map\<close> that \<open>MemStorage\<close> keeps its four tables in
  (src/unnamed/part\_004, lines 28--38). A \<open>Map\<close> iterates in insertion order,
  \<open>set\<close> on a present key replaces the value in place and \<open>set\<close> on a new key
  appends; so the model is an association list, not a HOL map. Its abstraction to a
  HOL map is \<open>map_of\<close>, and the lemmas below show that each operation refines the
  corresponding map operation. The loop idiom of \<open>deleteDocument\<close> (iterate over a
  snapshot \<open>Array.from(m.entries())\<close> and delete the matching entries) is
  \<open>jm_delete_where\<close>, proved equal to a filter.
\<close>

type_synonym ('k, 'v) jsmap = "('k \<times> 'v) list"

definition jm_empty :: "('k, 'v) jsmap" where
  "jm_empty = []"

definition jm_get :: "('k, 'v) jsmap \<Rightarrow> 'k \<Rightarrow> 'v option" where
  "jm_get m = map_of m"

definition jm_keys :: "('k, 'v) jsmap \<Rightarrow> 'k list" where
  "jm_keys m = map fst m"

definition jm_values :: "('k, 'v) jsmap \<Rightarrow> 'v list" where
  "jm_values m = map snd m"

definition jm_set :: "('k, 'v) jsmap \<Rightarrow> 'k \<Rightarrow> 'v \<Rightarrow> ('k, 'v) jsmap" where
  "jm_set m k v =
     (if k \<in> set (map fst m)
      then map (\<lambda>p. if fst p = k then (k, v) else p) m
      else m @ [(k, v)])"

definition jm_delete :: "('k, 'v) jsmap \<Rightarrow> 'k \<Rightarrow> ('k, 'v) jsmap" where
  "jm_delete m k = filter (\<lambda>(k', _). k' \<noteq> k) m"

text \<open>
  \<^verbatim>\<open>for (const [key, value] of Array.from(m.entries())) { if (P(value)) m.delete(key); }\<close>
  The first argument is the snapshot the loop iterates over, the last the map it
  mutates.
\<close>

fun jm_delete_where :: "('k \<times> 'v) list \<Rightarrow> ('v \<Rightarrow> bool) \<Rightarrow> ('k, 'v) jsmap \<Rightarrow> ('k, 'v) jsmap" where
  "jm_delete_where [] P m = m"
| "jm_delete_where ((k, v) # es) P m = jm_delete_where es P (if P v then jm_delete m k else m)"

text \<open>Well-formedness: the keys of the association list are distinct.\<close>

definition jm_wf :: "('k, 'v) jsmap \<Rightarrow> bool" where
  "jm_wf m \<longleftrightarrow> distinct (map fst m)"

section \<open>Refinement of HOL maps\<close>

lemma map_of_replace_at:
  "map_of (map (\<lambda>p. if fst p = k then (k, v) else p) m) x =
   (if x = k \<and> k \<in> set (map fst m) then Some v else map_of m x)"
  by (induction m) force+

lemma map_of_snoc_new:
  assumes "k \<notin> set (map fst m)"
  shows "map_of (m @ [(k, v)]) = (map_of m)(k \<mapsto> v)"
proof -
  have "dom [k \<mapsto> v] \<inter> dom (map_of m) = {}"
    using assms by (auto simp: dom_map_of_conv_image_fst)
  then have "[k \<mapsto> v] ++ map_of m = map_of m ++ [k \<mapsto> v]"
    by (rule map_add_comm)
  then show ?thesis by simp
qed

lemma jm_get_set [simp, jsmap_simps]: "jm_get (jm_set m k v) = (jm_get m)(k \<mapsto> v)"
proof (rule ext)
  fix x
  show "jm_get (jm_set m k v) x = ((jm_get m)(k \<mapsto> v)) x"
  proof (cases "k \<in> set (map fst m)")
    case True
    then show ?thesis by (simp add: jm_get_def jm_set_def map_of_replace_at)
  next
    case False
    then show ?thesis by (simp add: jm_get_def jm_set_def map_of_snoc_new del: map_of_append)
  qed
qed

lemma map_of_filter_key: "map_of (filter (\<lambda>(k', _). k' \<noteq> k) m) = (map_of m)(k := None)"
  by (induction m) auto

lemma jm_get_delete [simp, jsmap_simps]: "jm_get (jm_delete m k) = (jm_get m)(k := None)"
  by (simp add: jm_get_def jm_delete_def map_of_filter_key)

lemma jm_get_empty [simp, jsmap_simps]: "jm_get jm_empty k = None"
  by (simp add: jm_get_def jm_empty_def)

section \<open>Well-formedness\<close>

lemma jm_wf_empty [simp, jsmap_simps]: "jm_wf jm_empty"
  by (simp add: jm_wf_def jm_empty_def)

lemma map_fst_replace: "map fst (map (\<lambda>p. if fst p = k then (k, v) else p) m) = map fst m"
  by (induction m) auto

lemma jm_keys_set_old: "k \<in> set (jm_keys m) \<Longrightarrow> jm_keys (jm_set m k v) = jm_keys m"
  by (simp add: jm_keys_def jm_set_def map_fst_replace)

lemma jm_wf_set [simp, jsmap_simps]:
  assumes "jm_wf m"
  shows "jm_wf (jm_set m k v)"
proof (cases "k \<in> set (jm_keys m)")
  case True
  with assms show ?thesis
    using jm_keys_set_old [OF True, of v] by (simp add: jm_wf_def jm_keys_def)
next
  case False
  with assms show ?thesis
    by (simp add: jm_wf_def jm_set_def jm_keys_def)
qed

lemma jm_wf_delete [simp, jsmap_simps]: "jm_wf m \<Longrightarrow> jm_wf (jm_delete m k)"
  by (simp add: jm_wf_def jm_delete_def distinct_map_filter)

section \<open>Contents\<close>

lemma jm_set_subset: "set (jm_set m k v) \<subseteq> insert (k, v) (set m)"
  by (auto simp: jm_set_def split: if_splits)

lemma jm_delete_subset: "set (jm_delete m k) \<subseteq> set m"
  by (auto simp: jm_delete_def)

lemma jm_set_new [jsmap_simps]: "k \<notin> set (jm_keys m) \<Longrightarrow> jm_set m k v = m @ [(k, v)]"
  by (simp add: jm_set_def jm_keys_def)

lemma jm_values_set_new [jsmap_simps]:
  "k \<notin> set (jm_keys m) \<Longrightarrow> jm_values (jm_set m k v) = jm_values m @ [v]"
  by (simp add: jm_set_new jm_values_def)

lemma jm_keys_set_new:
  "k \<notin> set (jm_keys m) \<Longrightarrow> jm_keys (jm_set m k v) = jm_keys m @ [k]"
  by (simp add: jm_set_new jm_keys_def)

lemma jm_get_None_keys: "jm_get m k = None \<longleftrightarrow> k \<notin> set (jm_keys m)"
  by (simp add: jm_get_def jm_keys_def map_of_eq_None_iff)

lemma jm_get_Some_keys: "jm_get m k = Some v \<Longrightarrow> k \<in> set (jm_keys m)"
  using jm_get_None_keys [of m k] by auto

lemma jm_get_in_values: "jm_get m k = Some v \<Longrightarrow> v \<in> set (jm_values m)"
  by (force simp: jm_get_def jm_values_def dest: map_of_SomeD)

lemma jm_wf_get_iff: "jm_wf m \<Longrightarrow> jm_get m k = Some v \<longleftrightarrow> (k, v) \<in> set m"
  by (simp add: jm_wf_def jm_get_def)

lemma jm_wf_mem_set:
  assumes "jm_wf m"
  shows "(x \<in> set (jm_set m k v)) = (x = (k, v) \<or> (fst x \<noteq> k \<and> x \<in> set m))"
proof -
  obtain a b where x: "x = (a, b)" by (cases x)
  have wf': "jm_wf (jm_set m k v)" using assms by simp
  have "(x \<in> set (jm_set m k v)) = (jm_get (jm_set m k v) a = Some b)"
    using jm_wf_get_iff [OF wf', of a b] by (simp only: x)
  also have "\<dots> = (x = (k, v) \<or> (fst x \<noteq> k \<and> x \<in> set m))"
    by (auto simp: x jm_wf_get_iff [OF assms, symmetric])
  finally show ?thesis .
qed

lemma jm_wf_mem_delete:
  "(x \<in> set (jm_delete m k)) = (fst x \<noteq> k \<and> x \<in> set m)"
  by (auto simp: jm_delete_def)

lemma jm_keys_delete: "set (jm_keys (jm_delete m k)) = set (jm_keys m) - {k}"
  by (auto simp: jm_keys_def jm_delete_def)

section \<open>The delete loop\<close>

text \<open>The loop deletes exactly the keys of the snapshot entries whose value matches.\<close>

lemma jm_delete_where_filter:
  "jm_delete_where es P m = filter (\<lambda>e. fst e \<notin> fst ` {e \<in> set es. P (snd e)}) m"
proof (induction es arbitrary: m)
  case Nil
  then show ?case by simp
next
  case (Cons e es)
  obtain k v where e: "e = (k, v)" by (cases e)
  have set_eq: "fst ` {e \<in> set ((k, v) # es). P (snd e)} =
      (if P v then insert k (fst ` {e \<in> set es. P (snd e)}) else fst ` {e \<in> set es. P (snd e)})"
    by (auto simp: image_iff)
  show ?case
  proof (cases "P v")
    case True
    have "jm_delete_where (e # es) P m = filter (\<lambda>e. fst e \<notin> fst ` {e \<in> set es. P (snd e)})
        (filter (\<lambda>(k', _). k' \<noteq> k) m)"
      by (simp add: e True Cons.IH jm_delete_def)
    also have "\<dots> = filter (\<lambda>e. fst e \<notin> insert k (fst ` {e \<in> set es. P (snd e)})) m"
      by (auto simp: case_prod_unfold intro!: filter_cong)
    finally show ?thesis using set_eq True by (simp only: e if_True)
  next
    case False
    then show ?thesis using set_eq by (simp only: e if_False jm_delete_where.simps Cons.IH)
  qed
qed

text \<open>
  Run over a snapshot of the map it mutates, the loop is the reference filter on
  values: an entry survives iff its value does not match. This needs distinct keys,
  since the loop deletes by key.
\<close>

lemma jm_delete_where_self [jsmap_simps]:
  assumes "jm_wf m"
  shows "jm_delete_where m P m = filter (\<lambda>(_, v). \<not> P v) m"
proof -
  have key: "(k \<notin> fst ` {e \<in> set m. P (snd e)}) = (\<not> P v)" if "(k, v) \<in> set m" for k v
  proof
    assume "k \<notin> fst ` {e \<in> set m. P (snd e)}"
    with that show "\<not> P v" by force
  next
    assume "\<not> P v"
    with that assms show "k \<notin> fst ` {e \<in> set m. P (snd e)}"
      by (auto simp: jm_wf_def dest: eq_key_imp_eq_value)
  qed
  show ?thesis
    unfolding jm_delete_where_filter
  proof (rule filter_cong [OF refl])
    fix e
    assume "e \<in> set m"
    moreover obtain k v where "e = (k, v)" by (cases e)
    ultimately show "(fst e \<notin> fst ` {e \<in> set m. P (snd e)}) = (case e of (_, v) \<Rightarrow> \<not> P v)"
      using key [of k v] by simp
  qed
qed

lemma jm_delete_where_self_removes:
  "e \<in> set (jm_delete_where m P m) \<Longrightarrow> \<not> P (snd e)"
  by (auto simp: jm_delete_where_filter)

lemma jm_delete_where_self_values:
  "v \<in> set (jm_values (jm_delete_where m P m)) \<Longrightarrow> \<not> P v"
  by (auto simp: jm_values_def dest: jm_delete_where_self_removes)

lemma jm_wf_filter [simp, jsmap_simps]: "jm_wf m \<Longrightarrow> jm_wf (filter P m)"
  by (simp add: jm_wf_def distinct_map_filter)

lemma jm_values_filter: "jm_values (filter (\<lambda>(_, v). P v) m) = filter P (jm_values m)"
  by (induction m) (auto simp: jm_values_def)

end
