(* ===== verification/Schema.thy ===== *)
theory Schema
  imports Prelude
begin

text \<open>
  The data model of src/shared/schema.ts: the four tables \<open>users\<close>,
  \<open>documents\<close>, \<open>document_versions\<close> and \<open>activities\<close> as records (their
  inferred select types \<open>User\<close>, \<open>Document\<close>, \<open>DocumentVersion\<close>,
  \<open>Activity\<close>), the insert types the storage accepts, and the partial update type
  \<open>Partial<InsertDocument>\<close>. A nullable column is an \<open>option\<close>; a field that a
  partial update may omit is an \<open>option\<close> around the column's own type, so that an
  omitted field (\<open>None\<close>) differs from an explicit \<open>null\<close> (\<open>Some None\<close>).
  Field names carry the table's prefix (\<open>u_\<close>, \<open>d_\<close>, \<open>v_\<close>, \<open>a_\<close>), since
  record fields share one name space.
\<close>

section \<open>Users\<close>

record user =
  u_id :: uuid
  u_email :: string
  u_password :: string
  u_name :: string
  u_role :: string
  u_createdAt :: timestamp
  u_updatedAt :: timestamp

text \<open>\<open>InsertUser\<close>: the role column has a default, so the insert type may omit it.\<close>

record insert_user =
  iu_email :: string
  iu_password :: string
  iu_name :: string
  iu_role :: "string option"

section \<open>Documents\<close>

record document =
  d_id :: uuid
  d_title :: string
  d_content :: string
  d_summary :: "string option"
  d_tags :: "string list option"
  d_createdBy :: uuid
  d_createdAt :: timestamp
  d_updatedAt :: timestamp
  d_version :: nat

text \<open>
  \<open>InsertDocument\<close> omits \<open>id\<close>, \<open>createdBy\<close>, the timestamps and \<open>version\<close>;
  \<open>summary\<close> and \<open>tags\<close> are nullable and optional.
\<close>

record insert_document =
  ins_title :: string
  ins_content :: string
  ins_summary :: "string option"
  ins_tags :: "string list option"

text \<open>\<open>Partial<InsertDocument>\<close>: every field may be omitted.\<close>

record document_update =
  upd_title :: "string option"
  upd_content :: "string option"
  upd_summary :: "string option option"
  upd_tags :: "string list option option"

definition no_update :: document_update where
  "no_update = \<lparr>upd_title = None, upd_content = None, upd_summary = None, upd_tags = None\<rparr>"

section \<open>Document versions\<close>

record document_version =
  v_id :: uuid
  v_documentId :: uuid
  v_title :: string
  v_content :: string
  v_summary :: "string option"
  v_tags :: "string list option"
  v_version :: nat
  v_createdBy :: uuid
  v_createdAt :: timestamp
  v_changeDescription :: "string option"

record insert_document_version =
  iv_documentId :: uuid
  iv_title :: string
  iv_content :: string
  iv_summary :: "string option"
  iv_tags :: "string list option"
  iv_version :: nat
  iv_createdBy :: uuid
  iv_changeDescription :: "string option"

section \<open>Activities\<close>

text \<open>
  The \<open>type\<close> column is text holding one of \<open>'created'\<close>, \<open>'updated'\<close>,
  \<open>'deleted'\<close> (the comment of the schema); the model makes it an enumeration.
\<close>

datatype activity_type = Created | Updated | Deleted

record activity =
  a_id :: uuid
  a_type :: activity_type
  a_documentId :: "uuid option"
  a_userId :: uuid
  a_description :: string
  a_createdAt :: timestamp

record insert_activity =
  ia_type :: activity_type
  ia_documentId :: "uuid option"
  ia_userId :: uuid
  ia_description :: string

section \<open>Joined results\<close>

text \<open>
  \<open>DocumentWithUser\<close> replaces the \<open>createdBy\<close> id by the author's record; the
  model pairs the document with the resolved user. \<open>DocumentWithDetails\<close> adds the
  version list.
\<close>

type_synonym document_with_user = "document \<times> user"
type_synonym document_with_details = "document \<times> user \<times> document_version list"

section \<open>Auth schemas\<close>

text \<open>\<open>loginSchema\<close>: an e-mail address (zod's \<open>email()\<close>, the parameter
  \<open>is_email\<close>) and a password of at least six characters.\<close>

definition loginSchema :: "(string \<Rightarrow> bool) \<Rightarrow> string \<Rightarrow> string \<Rightarrow> bool" where
  "loginSchema is_email email password \<longleftrightarrow> is_email email \<and> 6 \<le> length password"

text \<open>\<open>registerSchema\<close>: \<open>insertUserSchema\<close>, whose \<open>email\<close> is any string (a
  \<open>text\<close> column), extended by a password of at least six characters.\<close>

definition registerSchema :: "insert_user \<Rightarrow> bool" where
  "registerSchema data \<longleftrightarrow> 6 \<le> length (iu_password data)"

end
