(* ===== verification/Storage.thy ===== *)
theory Storage
  imports JsMap Schema
begin

text \<open>
  The versioned document store: class \<open>MemStorage\<close> of src/unnamed/part\_004
  (the server's storage module). Its state is four JavaScript \<open>Map\<close>s, modelled by
  \<open>JsMap\<close>; every method becomes a function that takes the state and returns its
  result together with the new state. The values a method draws from its environment,
  \<open>randomUUID()\<close> and \<open>new Date()\<close>, are arguments (\<open>stamp\<close>s), one per call
  in the source. Every method of \<open>MemStorage\<close> is in this theory except
  \<open>searchDocuments\<close>, which is in theory \<open>Search\<close>.

  Within one HTTP request handler every \<open>await\<close> of this store waits on an already
  settled promise, so the whole handler runs in one drain of the microtask queue and no
  other request runs in between; each method is therefore one atomic step of the state.
\<close>

record mem_storage =
  users :: "(uuid, user) jsmap"
  documents :: "(uuid, document) jsmap"
  documentVersions :: "(uuid, document_version) jsmap"
  activities :: "(uuid, activity) jsmap"

definition init_storage :: mem_storage where
  "init_storage = \<lparr>users = jm_empty, documents = jm_empty,
     documentVersions = jm_empty, activities = jm_empty\<rparr>"

section \<open>Users\<close>

definition getUser :: "mem_storage \<Rightarrow> uuid \<Rightarrow> user option" where
  "getUser s uid = jm_get (users s) uid"

definition getUserByEmail :: "mem_storage \<Rightarrow> string \<Rightarrow> user option" where
  "getUserByEmail s e = find (\<lambda>u. u_email u = e) (jm_values (users s))"

text \<open>\<open>role: insertUser.role || "user"\<close>: a missing or empty role becomes \<open>"user"\<close>.\<close>

definition createUser :: "mem_storage \<Rightarrow> insert_user \<Rightarrow> stamp \<Rightarrow> user \<times> mem_storage" where
  "createUser s iu k =
     (let (uid, now) = k;
          u = \<lparr>u_id = uid, u_email = iu_email iu, u_password = iu_password iu,
               u_name = iu_name iu,
               u_role = (case iu_role iu of None \<Rightarrow> ''user''
                         | Some r \<Rightarrow> if r = [] then ''user'' else r),
               u_createdAt = now, u_updatedAt = now\<rparr>
      in (u, s\<lparr>users := jm_set (users s) uid u\<rparr>))"

section \<open>Versions and activities\<close>

definition getDocumentVersions :: "mem_storage \<Rightarrow> uuid \<Rightarrow> document_version list" where
  "getDocumentVersions s docId =
     sort_key (\<lambda>v. - int (v_version v))
       (filter (\<lambda>v. v_documentId v = docId) (jm_values (documentVersions s)))"

definition createDocumentVersion ::
  "mem_storage \<Rightarrow> insert_document_version \<Rightarrow> stamp \<Rightarrow> document_version \<times> mem_storage" where
  "createDocumentVersion s iv k =
     (let (vid, now) = k;
          v = \<lparr>v_id = vid, v_documentId = iv_documentId iv, v_title = iv_title iv,
               v_content = iv_content iv, v_summary = js_or_null (iv_summary iv),
               v_tags = Some (js_or_nil (iv_tags iv)), v_version = iv_version iv,
               v_createdBy = iv_createdBy iv, v_createdAt = now,
               v_changeDescription = js_or_null (iv_changeDescription iv)\<rparr>
      in (v, s\<lparr>documentVersions := jm_set (documentVersions s) vid v\<rparr>))"

definition createActivity :: "mem_storage \<Rightarrow> insert_activity \<Rightarrow> stamp \<Rightarrow> activity \<times> mem_storage" where
  "createActivity s ia k =
     (let (aid, now) = k;
          a = \<lparr>a_id = aid, a_type = ia_type ia, a_documentId = js_or_null (ia_documentId ia),
               a_userId = ia_userId ia, a_description = ia_description ia, a_createdAt = now\<rparr>
      in (a, s\<lparr>activities := jm_set (activities s) aid a\<rparr>))"

text \<open>The template literal \<open>`Created document "${title}"`\<close>.\<close>

definition quoted :: "string \<Rightarrow> string" where
  "quoted t = CHR 0x22 # t @ [CHR 0x22]"

text \<open>
  \<open>getRecentActivities(limit)\<close>: newest first (a stable sort on \<open>createdAt\<close>,
  descending), the first \<open>limit\<close> of them, each joined with its user and, when its
  document reference is truthy, with the document; an activity whose user is missing is
  dropped after the cut, so fewer than \<open>limit\<close> may be returned.
\<close>

definition getRecentActivities ::
  "mem_storage \<Rightarrow> nat \<Rightarrow> (activity \<times> user \<times> document option) list" where
  "getRecentActivities s limit =
     List.map_filter
       (\<lambda>a. case getUser s (a_userId a) of
              None \<Rightarrow> None
            | Some u \<Rightarrow> Some (a, u, (case a_documentId a of
                                       None \<Rightarrow> None
                                     | Some d \<Rightarrow> if d = [] then None else jm_get (documents s) d)))
       (take limit (sort_key (\<lambda>a. - int (a_createdAt a)) (jm_values (activities s))))"

section \<open>Documents\<close>

text \<open>
  \<open>getDocuments()\<close>: the documents in insertion order, each joined with its author
  (dropped when the author is missing), then sorted by \<open>updatedAt\<close> descending.
  \<open>Array.prototype.sort\<close> is stable, and so is \<open>sort_key\<close>.
\<close>

definition getDocuments :: "mem_storage \<Rightarrow> document_with_user list" where
  "getDocuments s =
     sort_key (\<lambda>du. - int (d_updatedAt (fst du)))
       (List.map_filter (\<lambda>d. map_option (\<lambda>u. (d, u)) (getUser s (d_createdBy d)))
          (jm_values (documents s)))"

definition getDocument :: "mem_storage \<Rightarrow> uuid \<Rightarrow> document_with_details option" where
  "getDocument s did =
     (case jm_get (documents s) did of
        None \<Rightarrow> None
      | Some doc \<Rightarrow>
          (case getUser s (d_createdBy doc) of
             None \<Rightarrow> None
           | Some u \<Rightarrow> Some (doc, u, getDocumentVersions s did)))"

definition createDocument ::
  "mem_storage \<Rightarrow> insert_document \<Rightarrow> uuid \<Rightarrow> stamp \<Rightarrow> stamp \<Rightarrow> stamp \<Rightarrow> document \<times> mem_storage" where
  "createDocument s ins createdBy k kv ka =
     (let (did, now) = k;
          doc = \<lparr>d_id = did, d_title = ins_title ins, d_content = ins_content ins,
                 d_summary = js_or_null (ins_summary ins), d_tags = Some (js_or_nil (ins_tags ins)),
                 d_createdBy = createdBy, d_createdAt = now, d_updatedAt = now, d_version = 1\<rparr>;
          s1 = s\<lparr>documents := jm_set (documents s) did doc\<rparr>;
          s2 = snd (createDocumentVersion s1
                 \<lparr>iv_documentId = did, iv_title = d_title doc, iv_content = d_content doc,
                  iv_summary = d_summary doc, iv_tags = d_tags doc, iv_version = 1,
                  iv_createdBy = createdBy, iv_changeDescription = Some ''Initial version''\<rparr> kv);
          s3 = snd (createActivity s2
                 \<lparr>ia_type = Created, ia_documentId = Some did, ia_userId = createdBy,
                  ia_description = ''Created document '' @ quoted (d_title doc)\<rparr> ka)
      in (doc, s3))"

text \<open>The object spread \<open>{...doc, ...updates}\<close>: a field present in the update wins.\<close>

definition merge_update :: "document \<Rightarrow> document_update \<Rightarrow> document" where
  "merge_update doc upd =
     doc\<lparr>d_title := (case upd_title upd of None \<Rightarrow> d_title doc | Some t \<Rightarrow> t),
         d_content := (case upd_content upd of None \<Rightarrow> d_content doc | Some c \<Rightarrow> c),
         d_summary := (case upd_summary upd of None \<Rightarrow> d_summary doc | Some sm \<Rightarrow> sm),
         d_tags := (case upd_tags upd of None \<Rightarrow> d_tags doc | Some tg \<Rightarrow> tg)\<rparr>"

definition updateDocument ::
  "mem_storage \<Rightarrow> uuid \<Rightarrow> document_update \<Rightarrow> uuid \<Rightarrow> timestamp \<Rightarrow> stamp \<Rightarrow> stamp
     \<Rightarrow> document option \<times> mem_storage" where
  "updateDocument s did updates updatedBy now kv ka =
     (case jm_get (documents s) did of
        None \<Rightarrow> (None, s)
      | Some doc \<Rightarrow>
          (let newVersion = d_version doc + 1;
               updated = (merge_update doc updates)\<lparr>d_updatedAt := now, d_version := newVersion\<rparr>;
               s1 = s\<lparr>documents := jm_set (documents s) did updated\<rparr>;
               s2 = snd (createDocumentVersion s1
                      \<lparr>iv_documentId = did, iv_title = d_title updated,
                       iv_content = d_content updated, iv_summary = d_summary updated,
                       iv_tags = d_tags updated, iv_version = newVersion,
                       iv_createdBy = updatedBy, iv_changeDescription = Some ''Document updated''\<rparr> kv);
               s3 = snd (createActivity s2
                      \<lparr>ia_type = Updated, ia_documentId = Some did, ia_userId = updatedBy,
                       ia_description = ''Updated document '' @ quoted (d_title updated)\<rparr> ka)
           in (Some updated, s3)))"

definition deleteDocument :: "mem_storage \<Rightarrow> uuid \<Rightarrow> bool \<times> mem_storage" where
  "deleteDocument s did =
     (case jm_get (documents s) did of
        None \<Rightarrow> (False, s)
      | Some _ \<Rightarrow>
          (let s1 = s\<lparr>documentVersions :=
                        jm_delete_where (documentVersions s) (\<lambda>v. v_documentId v = did)
                          (documentVersions s)\<rparr>;
               s2 = s1\<lparr>activities :=
                        jm_delete_where (activities s1) (\<lambda>a. a_documentId a = Some did)
                          (activities s1)\<rparr>;
               s3 = s2\<lparr>documents := jm_delete (documents s2) did\<rparr>
           in (True, s3)))"

declare createUser_def [store_defs] createDocumentVersion_def [store_defs]
  createActivity_def [store_defs] createDocument_def [store_defs]
  updateDocument_def [store_defs] deleteDocument_def [store_defs]

end
