(* ===== verification/StoreInv.thy ===== *)
theory StoreInv
  imports Storage
begin

text \<open>
  The invariant of the versioned document store and its proof. \<open>store_inv\<close> says
  that the four maps have distinct keys, that no version row and no activity refers to a
  deleted document, and that each document with current version \<open>N\<close> has version
  rows numbered exactly \<open>1..N\<close>, a newest row equal to its current fields (after the
  coercions of \<open>createDocumentVersion\<close>) and \<open>N\<close> activities. The runs of the
  store are the inductive relation \<open>store_step\<close> (one mutating method call with fresh
  UUIDs per step) and \<open>reachable\<close>; the invariant holds in every reachable state
  (\<open>reachable_inv\<close>, by rule induction, one preservation lemma per method).
\<close>

section \<open>Views of the state per document\<close>

definition doc_versions :: "mem_storage \<Rightarrow> uuid \<Rightarrow> document_version list" where
  "doc_versions s d = filter (\<lambda>v. v_documentId v = d) (jm_values (documentVersions s))"

definition doc_activities :: "mem_storage \<Rightarrow> uuid \<Rightarrow> activity list" where
  "doc_activities s d = filter (\<lambda>a. a_documentId a = Some d) (jm_values (activities s))"

definition matches_snapshot :: "document \<Rightarrow> document_version \<Rightarrow> bool" where
  "matches_snapshot doc v \<longleftrightarrow>
     v_title v = d_title doc \<and> v_content v = d_content doc \<and>
     v_summary v = js_or_null (d_summary doc) \<and> v_tags v = Some (js_or_nil (d_tags doc))"

section \<open>The store invariant\<close>

text \<open>
  Per document with current version \<open>N\<close>: its version rows are numbered
  \<open>1, \<dots>, N\<close>, each number once; one row numbered \<open>N\<close> is a snapshot of the
  current fields (as \<open>createDocumentVersion\<close> stores them, after its coercions);
  and it has exactly \<open>N\<close> activities (one \<open>created\<close>, then one \<open>updated\<close> per
  update).
\<close>

definition doc_ok :: "document \<Rightarrow> document_version list \<Rightarrow> activity list \<Rightarrow> bool" where
  "doc_ok doc vs as \<longleftrightarrow>
     mset (map v_version vs) = mset [1..<Suc (d_version doc)] \<and>
     (\<exists>v\<in>set vs. v_version v = d_version doc \<and> matches_snapshot doc v) \<and>
     length as = d_version doc"

definition maps_wf :: "mem_storage \<Rightarrow> bool" where
  "maps_wf s \<longleftrightarrow> jm_wf (users s) \<and> jm_wf (documents s) \<and> jm_wf (documentVersions s) \<and>
     jm_wf (activities s)"

text \<open>Every version and every activity with a document reference points to a stored document.\<close>

definition no_orphans :: "mem_storage \<Rightarrow> bool" where
  "no_orphans s \<longleftrightarrow>
     (\<forall>v\<in>set (jm_values (documentVersions s)). v_documentId v \<in> set (jm_keys (documents s))) \<and>
     (\<forall>a\<in>set (jm_values (activities s)). set_option (a_documentId a) \<subseteq> set (jm_keys (documents s)))"

definition store_inv :: "mem_storage \<Rightarrow> bool" where
  "store_inv s \<longleftrightarrow> maps_wf s \<and> no_orphans s \<and> [] \<notin> set (jm_keys (documents s)) \<and>
     (\<forall>(d, doc)\<in>set (documents s). doc_ok doc (doc_versions s d) (doc_activities s d))"

section \<open>Runs of the store\<close>

text \<open>
  One step is one call of a mutating method of \<open>MemStorage\<close>, with the identifiers
  that \<open>randomUUID()\<close> draws fresh (not already a key of the map they are stored in,
  and non-empty). The author and editor ids are arbitrary: the store does not check
  them. Reading methods do not change the state and are not steps.
\<close>

inductive store_step :: "mem_storage \<Rightarrow> mem_storage \<Rightarrow> bool" where
  create_user: "store_step s (snd (createUser s iu k))"
| create_document:
    "\<lbrakk>did \<notin> set (jm_keys (documents s)); did \<noteq> [];
      vid \<notin> set (jm_keys (documentVersions s)); aid \<notin> set (jm_keys (activities s))\<rbrakk> \<Longrightarrow>
     store_step s (snd (createDocument s ins editor (did, t) (vid, tv) (aid, ta)))"
| update_document:
    "\<lbrakk>vid \<notin> set (jm_keys (documentVersions s)); aid \<notin> set (jm_keys (activities s))\<rbrakk> \<Longrightarrow>
     store_step s (snd (updateDocument s did upd editor t (vid, tv) (aid, ta)))"
| delete_document: "store_step s (snd (deleteDocument s did))"

inductive reachable :: "mem_storage \<Rightarrow> bool" where
  init: "reachable init_storage"
| step: "reachable s \<Longrightarrow> store_step s s' \<Longrightarrow> reachable s'"

section \<open>An example run\<close>

text \<open>
  The scenario of the specification: user \<open>A\<close> creates a document titled
  \<open>Onboarding\<close> with tag \<open>beta\<close>, then retitles it; a third step sets the summary
  to the empty string, as the editor form sends an empty summary field.
\<close>

definition ex_insert :: insert_document where
  "ex_insert = \<lparr>ins_title = ''Onboarding'', ins_content = ''Welcome'', ins_summary = None,
     ins_tags = Some [''beta'']\<rparr>"

definition ex_s1 :: mem_storage where
  "ex_s1 = snd (createDocument init_storage ex_insert ''A'' (''d1'', 5) (''v1'', 5) (''a1'', 5))"

definition ex_s2 :: mem_storage where
  "ex_s2 = snd (updateDocument ex_s1 ''d1'' (no_update\<lparr>upd_title := Some ''Onboarding Guide''\<rparr>)
     ''A'' 7 (''v2'', 7) (''a2'', 7))"

definition ex_s3 :: mem_storage where
  "ex_s3 = snd (updateDocument ex_s2 ''d1'' (no_update\<lparr>upd_summary := Some (Some [])\<rparr>)
     ''A'' 9 (''v3'', 9) (''a3'', 9))"

section \<open>Effect of the mutating operations\<close>

lemma createDocument_eq:
  "\<exists>ver act. createDocument s ins editor (did, t) (vid, tv) (aid, ta) =
     (doc, s\<lparr>documents := jm_set (documents s) did doc,
            documentVersions := jm_set (documentVersions s) vid ver,
            activities := jm_set (activities s) aid act\<rparr>) \<and>
     v_documentId ver = did \<and> v_version ver = 1 \<and> matches_snapshot doc ver \<and>
     v_createdBy ver = editor \<and> v_changeDescription ver = Some ''Initial version'' \<and>
     a_type act = Created \<and> a_documentId act = js_or_null (Some did) \<and> a_userId act = editor"
  if "doc = \<lparr>d_id = did, d_title = ins_title ins, d_content = ins_content ins,
             d_summary = js_or_null (ins_summary ins), d_tags = Some (js_or_nil (ins_tags ins)),
             d_createdBy = editor, d_createdAt = t, d_updatedAt = t, d_version = 1\<rparr>"
  using that
  apply (simp add: createDocument_def createDocumentVersion_def createActivity_def Let_def)
  apply (rule exI, rule exI, rule conjI, rule refl)
  apply (simp add: matches_snapshot_def)
  done

lemma updateDocument_eq:
  "\<exists>ver act. updateDocument s did upd editor t (vid, tv) (aid, ta) =
     (Some doc', s\<lparr>documents := jm_set (documents s) did doc',
            documentVersions := jm_set (documentVersions s) vid ver,
            activities := jm_set (activities s) aid act\<rparr>) \<and>
     v_documentId ver = did \<and> v_version ver = d_version doc' \<and> matches_snapshot doc' ver \<and>
     v_createdBy ver = editor \<and> v_changeDescription ver = Some ''Document updated'' \<and>
     a_type act = Updated \<and> a_documentId act = js_or_null (Some did) \<and> a_userId act = editor"
  if "jm_get (documents s) did = Some doc"
    and "doc' = (merge_update doc upd)\<lparr>d_updatedAt := t, d_version := d_version doc + 1\<rparr>"
  using that
  apply (simp add: updateDocument_def createDocumentVersion_def createActivity_def Let_def)
  apply (rule exI, rule exI, rule conjI, rule refl)
  apply (simp add: matches_snapshot_def)
  done

lemma updateDocument_None:
  "jm_get (documents s) did = None \<Longrightarrow> updateDocument s did upd editor t kv ka = (None, s)"
  by (simp add: updateDocument_def)

lemma deleteDocument_eq:
  assumes "jm_get (documents s) did = Some doc"
    and "jm_wf (documentVersions s)" and "jm_wf (activities s)"
  shows "deleteDocument s did =
     (True, s\<lparr>documentVersions := filter (\<lambda>(_, v). v_documentId v \<noteq> did) (documentVersions s),
              activities := filter (\<lambda>(_, a). a_documentId a \<noteq> Some did) (activities s),
              documents := jm_delete (documents s) did\<rparr>)"
  using assms by (simp add: deleteDocument_def jm_delete_where_self Let_def)

section \<open>Preservation\<close>

lemma doc_ok_first:
  "d_version doc = 1 \<Longrightarrow> v_version ver = 1 \<Longrightarrow> matches_snapshot doc ver \<Longrightarrow>
   doc_ok doc [ver] [act]"
  by (simp add: doc_ok_def)

lemma doc_ok_next:
  assumes "doc_ok doc vs as"
    and "d_version doc' = Suc (d_version doc)" and "v_version ver = d_version doc'"
    and "matches_snapshot doc' ver"
  shows "doc_ok doc' (vs @ [ver]) (as @ [act])"
  using assms by (simp add: doc_ok_def)

lemma doc_versions_snoc:
  "documentVersions s' = documentVersions s @ [(vid, ver)] \<Longrightarrow>
   doc_versions s' d = doc_versions s d @ (if v_documentId ver = d then [ver] else [])"
  by (simp add: doc_versions_def jm_values_def)

lemma doc_activities_snoc:
  "activities s' = activities s @ [(aid, act)] \<Longrightarrow>
   doc_activities s' d = doc_activities s d @ (if a_documentId act = Some d then [act] else [])"
  by (simp add: doc_activities_def jm_values_def)

lemma store_inv_docE:
  assumes "store_inv s" and "jm_get (documents s) d = Some doc"
  shows "doc_ok doc (doc_versions s d) (doc_activities s d)"
  using assms by (auto simp: store_inv_def maps_wf_def jm_wf_get_iff)

lemma updateDocument_inv:
  assumes inv: "store_inv s"
    and fresh_v: "vid \<notin> set (jm_keys (documentVersions s))"
    and fresh_a: "aid \<notin> set (jm_keys (activities s))"
  shows "store_inv (snd (updateDocument s did upd editor t (vid, tv) (aid, ta)))"
proof (cases "jm_get (documents s) did")
  case None
  then show ?thesis using inv by (simp add: updateDocument_None)
next
  case (Some doc)
  define doc' where "doc' = (merge_update doc upd)\<lparr>d_updatedAt := t, d_version := d_version doc + 1\<rparr>"
  obtain ver act where eq: "updateDocument s did upd editor t (vid, tv) (aid, ta) =
       (Some doc', s\<lparr>documents := jm_set (documents s) did doc',
            documentVersions := jm_set (documentVersions s) vid ver,
            activities := jm_set (activities s) aid act\<rparr>)"
    and ver: "v_documentId ver = did" "v_version ver = d_version doc'" "matches_snapshot doc' ver"
    and act: "a_documentId act = js_or_null (Some did)"
    using updateDocument_eq [OF Some doc'_def] by blast
  define s' where "s' = s\<lparr>documents := jm_set (documents s) did doc',
            documentVersions := jm_set (documentVersions s) vid ver,
            activities := jm_set (activities s) aid act\<rparr>"
  from inv have wf: "maps_wf s" and orph: "no_orphans s" and keys: "[] \<notin> set (jm_keys (documents s))"
    and docs: "\<forall>(d, doc)\<in>set (documents s). doc_ok doc (doc_versions s d) (doc_activities s d)"
    by (simp_all add: store_inv_def)
  have did_key: "did \<in> set (jm_keys (documents s))"
    using Some by (rule jm_get_Some_keys)
  with keys have "did \<noteq> []" by auto
  with act have act_doc: "a_documentId act = Some did" by simp
  have vers': "documentVersions s' = documentVersions s @ [(vid, ver)]"
    using fresh_v by (simp add: s'_def jm_set_new)
  have acts': "activities s' = activities s @ [(aid, act)]"
    using fresh_a by (simp add: s'_def jm_set_new)
  have keys': "jm_keys (documents s') = jm_keys (documents s)"
    using did_key by (simp add: s'_def jm_keys_set_old)
  have "maps_wf s'"
    using wf by (simp add: s'_def maps_wf_def)
  moreover have "no_orphans s'"
    using orph did_key ver act_doc unfolding no_orphans_def keys'
    by (simp add: vers' acts' jm_values_def)
  moreover have "[] \<notin> set (jm_keys (documents s'))"
    using keys by (simp add: keys')
  moreover have "doc_ok dc (doc_versions s' d) (doc_activities s' d)"
    if mem: "(d, dc) \<in> set (documents s')" for d dc
  proof -
    have vs: "doc_versions s' d = doc_versions s d @ (if did = d then [ver] else [])"
      using doc_versions_snoc [OF vers'] ver by simp
    have as: "doc_activities s' d = doc_activities s d @ (if did = d then [act] else [])"
      using doc_activities_snoc [OF acts'] act_doc by simp
    from mem wf have "(d, dc) = (did, doc') \<or> (d \<noteq> did \<and> (d, dc) \<in> set (documents s))"
      by (simp add: s'_def maps_wf_def jm_wf_mem_set)
    then show ?thesis
    proof
      assume "(d, dc) = (did, doc')"
      moreover have "doc_ok doc (doc_versions s did) (doc_activities s did)"
        using inv Some by (rule store_inv_docE)
      ultimately show ?thesis
        using ver vs as by (auto simp: doc'_def intro: doc_ok_next)
    next
      assume "d \<noteq> did \<and> (d, dc) \<in> set (documents s)"
      with docs vs as show ?thesis by auto
    qed
  qed
  ultimately have "store_inv s'"
    by (auto simp: store_inv_def)
  then show ?thesis by (simp add: eq s'_def)
qed

lemma no_orphans_fresh_doc:
  assumes "no_orphans s" and "did \<notin> set (jm_keys (documents s))"
  shows "doc_versions s did = []" and "doc_activities s did = []"
  using assms by (force simp: no_orphans_def doc_versions_def doc_activities_def filter_empty_conv)+

lemma createDocument_inv:
  assumes inv: "store_inv s"
    and fresh_d: "did \<notin> set (jm_keys (documents s))" and nonempty: "did \<noteq> []"
    and fresh_v: "vid \<notin> set (jm_keys (documentVersions s))"
    and fresh_a: "aid \<notin> set (jm_keys (activities s))"
  shows "store_inv (snd (createDocument s ins editor (did, t) (vid, tv) (aid, ta)))"
proof -
  define doc where "doc = \<lparr>d_id = did, d_title = ins_title ins, d_content = ins_content ins,
             d_summary = js_or_null (ins_summary ins), d_tags = Some (js_or_nil (ins_tags ins)),
             d_createdBy = editor, d_createdAt = t, d_updatedAt = t, d_version = 1\<rparr>"
  obtain ver act where eq: "createDocument s ins editor (did, t) (vid, tv) (aid, ta) =
       (doc, s\<lparr>documents := jm_set (documents s) did doc,
            documentVersions := jm_set (documentVersions s) vid ver,
            activities := jm_set (activities s) aid act\<rparr>)"
    and ver: "v_documentId ver = did" "v_version ver = 1" "matches_snapshot doc ver"
    and act: "a_documentId act = js_or_null (Some did)"
    using createDocument_eq [OF doc_def] by blast
  define s' where "s' = s\<lparr>documents := jm_set (documents s) did doc,
            documentVersions := jm_set (documentVersions s) vid ver,
            activities := jm_set (activities s) aid act\<rparr>"
  from inv have wf: "maps_wf s" and orph: "no_orphans s" and keys: "[] \<notin> set (jm_keys (documents s))"
    and docs: "\<forall>(d, doc)\<in>set (documents s). doc_ok doc (doc_versions s d) (doc_activities s d)"
    by (simp_all add: store_inv_def)
  from act nonempty have act_doc: "a_documentId act = Some did" by simp
  have docs': "documents s' = documents s @ [(did, doc)]"
    using fresh_d by (simp add: s'_def jm_set_new)
  have vers': "documentVersions s' = documentVersions s @ [(vid, ver)]"
    using fresh_v by (simp add: s'_def jm_set_new)
  have acts': "activities s' = activities s @ [(aid, act)]"
    using fresh_a by (simp add: s'_def jm_set_new)
  have keys': "jm_keys (documents s') = jm_keys (documents s) @ [did]"
    by (simp add: docs' jm_keys_def)
  have "maps_wf s'"
    using wf by (simp add: s'_def maps_wf_def)
  moreover have "no_orphans s'"
    using orph ver act_doc unfolding no_orphans_def keys'
    by (auto simp: vers' acts' jm_values_def split: option.splits)
  moreover have "[] \<notin> set (jm_keys (documents s'))"
    using keys nonempty by (simp add: keys')
  moreover have "doc_ok dc (doc_versions s' d) (doc_activities s' d)"
    if mem: "(d, dc) \<in> set (documents s')" for d dc
  proof -
    have vs: "doc_versions s' d = doc_versions s d @ (if did = d then [ver] else [])"
      using doc_versions_snoc [OF vers'] ver by simp
    have as: "doc_activities s' d = doc_activities s d @ (if did = d then [act] else [])"
      using doc_activities_snoc [OF acts'] act_doc by simp
    from mem have "(d, dc) = (did, doc) \<or> (d, dc) \<in> set (documents s)"
      by (simp add: docs')
    then show ?thesis
    proof
      assume "(d, dc) = (did, doc)"
      then show ?thesis
        using ver vs as no_orphans_fresh_doc [OF orph fresh_d]
        by (auto simp: doc_def intro: doc_ok_first)
    next
      assume old: "(d, dc) \<in> set (documents s)"
      with fresh_d have "d \<noteq> did" by (force simp: jm_keys_def)
      with old docs vs as show ?thesis by auto
    qed
  qed
  ultimately have "store_inv s'"
    by (auto simp: store_inv_def)
  then show ?thesis by (simp add: eq s'_def)
qed

lemma deleteDocument_inv:
  assumes inv: "store_inv s"
  shows "store_inv (snd (deleteDocument s did))"
proof (cases "jm_get (documents s) did")
  case None
  then show ?thesis using inv by (simp add: deleteDocument_def)
next
  case (Some doc)
  define s' where "s' = s\<lparr>documentVersions := filter (\<lambda>(_, v). v_documentId v \<noteq> did) (documentVersions s),
              activities := filter (\<lambda>(_, a). a_documentId a \<noteq> Some did) (activities s),
              documents := jm_delete (documents s) did\<rparr>"
  from inv have wf: "maps_wf s" and orph: "no_orphans s" and keys: "[] \<notin> set (jm_keys (documents s))"
    and docs: "\<forall>(d, doc)\<in>set (documents s). doc_ok doc (doc_versions s d) (doc_activities s d)"
    by (simp_all add: store_inv_def)
  have eq: "deleteDocument s did = (True, s')"
    using Some wf by (simp add: s'_def maps_wf_def deleteDocument_eq)
  have keys': "set (jm_keys (documents s')) = set (jm_keys (documents s)) - {did}"
    by (simp add: s'_def jm_keys_delete)
  have "maps_wf s'"
    using wf by (simp add: s'_def maps_wf_def)
  moreover have "no_orphans s'"
    using orph unfolding no_orphans_def keys'
    by (auto simp: s'_def jm_values_def split: option.splits)
  moreover have "[] \<notin> set (jm_keys (documents s'))"
    using keys by (simp add: keys')
  moreover have "doc_ok dc (doc_versions s' d) (doc_activities s' d)"
    if mem: "(d, dc) \<in> set (documents s')" for d dc
  proof -
    from mem have old: "(d, dc) \<in> set (documents s)" and ne: "d \<noteq> did"
      by (simp_all add: s'_def jm_wf_mem_delete)
    have "doc_versions s' d = doc_versions s d"
      using ne by (auto simp: s'_def doc_versions_def jm_values_def filter_map_snd case_prod_unfold
          intro!: arg_cong [where f = "map snd"] filter_cong)
    moreover have "doc_activities s' d = doc_activities s d"
      using ne by (auto simp: s'_def doc_activities_def jm_values_def filter_map_snd case_prod_unfold
          intro!: arg_cong [where f = "map snd"] filter_cong)
    ultimately show ?thesis using old docs by auto
  qed
  ultimately have "store_inv s'"
    by (auto simp: store_inv_def)
  then show ?thesis by (simp add: eq)
qed

lemma createUser_inv:
  "store_inv s \<Longrightarrow> store_inv (snd (createUser s iu k))"
  by (auto simp: createUser_def Let_def store_inv_def maps_wf_def no_orphans_def doc_versions_def
      doc_activities_def split: prod.splits)

lemma init_storage_inv: "store_inv init_storage"
  by (simp add: init_storage_def store_inv_def maps_wf_def no_orphans_def jm_empty_def
      jm_keys_def jm_values_def jm_wf_def)

lemma store_step_inv: "store_step s s' \<Longrightarrow> store_inv s \<Longrightarrow> store_inv s'"
  by (induction rule: store_step.induct)
    (simp_all add: createUser_inv createDocument_inv updateDocument_inv deleteDocument_inv)

lemma reachable_inv: "reachable s \<Longrightarrow> store_inv s"
proof (induction rule: reachable.induct)
  case init
  show ?case by (rule init_storage_inv)
next
  case (step s s')
  then show ?case by (blast intro: store_step_inv)
qed

section \<open>Consequences for the reading methods\<close>

lemma doc_ok_versions_desc:
  assumes "doc_ok doc (doc_versions s d) as"
  shows "map v_version (getDocumentVersions s d) = rev [1..<Suc (d_version doc)]"
proof (rule desc_sorted_mset_upt)
  show "sorted (map (\<lambda>x. - int (v_version x)) (getDocumentVersions s d))"
    by (simp add: getDocumentVersions_def)
  have "mset (getDocumentVersions s d) = mset (doc_versions s d)"
    by (simp add: getDocumentVersions_def doc_versions_def)
  then show "mset (map v_version (getDocumentVersions s d)) = mset [1..<Suc (d_version doc)]"
    using assms by (metis doc_ok_def mset_map)
qed

lemma doc_ok_newest:
  assumes ok: "doc_ok doc (doc_versions s d) as"
  shows "\<exists>v vs. getDocumentVersions s d = v # vs \<and> v_version v = d_version doc \<and>
           matches_snapshot doc v"
proof -
  let ?gv = "getDocumentVersions s d"
  have desc: "map v_version ?gv = rev [1..<Suc (d_version doc)]"
    using ok by (rule doc_ok_versions_desc)
  have set_eq: "set ?gv = set (doc_versions s d)"
    by (simp add: getDocumentVersions_def doc_versions_def)
  obtain w where w: "w \<in> set (doc_versions s d)" "v_version w = d_version doc"
    "matches_snapshot doc w"
    using ok by (auto simp: doc_ok_def)
  then have "?gv \<noteq> []" using set_eq by auto
  then obtain v vs where gv: "?gv = v # vs" by (cases ?gv) auto
  have vv: "v_version v = d_version doc"
    using desc gv by (cases "d_version doc") auto
  have "distinct (map v_version ?gv)"
    using desc by simp
  moreover have "v \<in> set ?gv" "w \<in> set ?gv" using gv w(1) set_eq by auto
  ultimately have "v = w"
    using vv w(2) by (metis distinct_map inj_on_def)
  with gv vv w(3) show ?thesis by blast
qed

section \<open>The example run is a run\<close>

lemmas ex_unfold = ex_s1_def ex_s2_def ex_s3_def ex_insert_def no_update_def init_storage_def
  createDocument_def updateDocument_def createDocumentVersion_def createActivity_def
  merge_update_def jm_empty_def jm_set_def jm_get_def jm_keys_def Let_def

lemma ex_reachable: "reachable ex_s1" "reachable ex_s2" "reachable ex_s3"
proof -
  show s1: "reachable ex_s1"
    unfolding ex_s1_def
    by (rule reachable.step [OF reachable.init], rule store_step.create_document)
      (simp_all add: init_storage_def jm_empty_def jm_keys_def)
  show s2: "reachable ex_s2"
    unfolding ex_s2_def
    by (rule reachable.step [OF s1], rule store_step.update_document) (simp_all add: ex_unfold)
  show "reachable ex_s3"
    unfolding ex_s3_def
    by (rule reachable.step [OF s2], rule store_step.update_document) (simp_all add: ex_unfold)
qed

section \<open>Properties of the version log\<close>

text \<open>
  C1. In every reachable state, a document with current version \<open>N\<close> has exactly
  \<open>N\<close> version rows, numbered \<open>N, N - 1, \<dots>, 1\<close> in the order
  \<open>getDocumentVersions\<close> returns them (newest first): the log is contiguous, starts
  at 1 and never skips.
\<close>

theorem versions_numbered_newest_first:
  assumes "reachable s" and "jm_get (documents s) d = Some doc"
  shows "map v_version (getDocumentVersions s d) = rev [1..<Suc (d_version doc)]"
proof -
  have "store_inv s" using assms(1) by (rule reachable_inv)
  then have "doc_ok doc (doc_versions s d) (doc_activities s d)"
    using assms(2) by (rule store_inv_docE)
  then show ?thesis by (rule doc_ok_versions_desc)
qed

theorem versions_numbered_newest_first_witness:
  "\<exists>doc. jm_get (documents ex_s2) ''d1'' = Some doc \<and> d_version doc = 2 \<and>
     map v_version (getDocumentVersions ex_s2 ''d1'') = [2, 1]"
proof -
  obtain doc where g: "jm_get (documents ex_s2) ''d1'' = Some doc" and v: "d_version doc = 2"
    by (simp add: ex_unfold)
  have "map v_version (getDocumentVersions ex_s2 ''d1'') = rev [1..<Suc (d_version doc)]"
    using versions_numbered_newest_first [OF ex_reachable(2) g] .
  with g v show ?thesis by (simp add: upt_rec)
qed

lemma getDocumentVersions_doc_versions:
  "getDocumentVersions s d = sort_key (\<lambda>v. - int (v_version v)) (doc_versions s d)"
  by (simp add: getDocumentVersions_def doc_versions_def)

text \<open>
  The effect of a successful update on the version list and the activities of the
  updated document, in a state of the invariant.
\<close>

lemma updateDocument_views:
  assumes inv: "store_inv s" and get: "jm_get (documents s) d = Some doc"
    and fresh_v: "vid \<notin> set (jm_keys (documentVersions s))"
    and fresh_a: "aid \<notin> set (jm_keys (activities s))"
    and res: "updateDocument s d upd editor t (vid, tv) (aid, ta) = (r, s')"
  shows "\<exists>v a. r = Some ((merge_update doc upd)\<lparr>d_updatedAt := t, d_version := Suc (d_version doc)\<rparr>) \<and>
           getDocumentVersions s' d = v # getDocumentVersions s d \<and>
           v_version v = Suc (d_version doc) \<and> matches_snapshot (the r) v \<and>
           v_createdBy v = editor \<and> v_changeDescription v = Some ''Document updated'' \<and>
           doc_activities s' d = doc_activities s d @ [a] \<and> a_type a = Updated \<and> a_userId a = editor"
proof -
  define doc' where "doc' = (merge_update doc upd)\<lparr>d_updatedAt := t, d_version := d_version doc + 1\<rparr>"
  obtain ver act where eq: "updateDocument s d upd editor t (vid, tv) (aid, ta) =
       (Some doc', s\<lparr>documents := jm_set (documents s) d doc',
            documentVersions := jm_set (documentVersions s) vid ver,
            activities := jm_set (activities s) aid act\<rparr>)"
    and ver: "v_documentId ver = d" "v_version ver = d_version doc'" "matches_snapshot doc' ver"
      "v_createdBy ver = editor" "v_changeDescription ver = Some ''Document updated''"
    and act: "a_type act = Updated" "a_documentId act = js_or_null (Some d)" "a_userId act = editor"
    using updateDocument_eq [OF get doc'_def] by blast
  have ok: "doc_ok doc (doc_versions s d) (doc_activities s d)"
    using inv get by (rule store_inv_docE)
  have "d \<noteq> []"
    using inv jm_get_Some_keys [OF get] by (auto simp: store_inv_def)
  with act have act_doc: "a_documentId act = Some d" by simp
  from res eq have r: "r = Some doc'" and s': "s' = s\<lparr>documents := jm_set (documents s) d doc',
            documentVersions := jm_set (documentVersions s) vid ver,
            activities := jm_set (activities s) aid act\<rparr>" by simp_all
  have vs: "doc_versions s' d = doc_versions s d @ [ver]"
    using doc_versions_snoc [of s' s vid ver d] fresh_v ver by (simp add: s' jm_set_new)
  have as: "doc_activities s' d = doc_activities s d @ [act]"
    using doc_activities_snoc [of s' s aid act d] fresh_a act_doc by (simp add: s' jm_set_new)
  have "\<forall>y\<in>set (doc_versions s d). v_version y \<le> d_version doc"
  proof
    fix y
    assume "y \<in> set (doc_versions s d)"
    then have "v_version y \<in> set [1..<Suc (d_version doc)]"
      using ok by (metis doc_ok_def image_eqI set_map set_mset_mset)
    then show "v_version y \<le> d_version doc" by auto
  qed
  then have "\<forall>y\<in>set (doc_versions s d). - int (v_version ver) < - int (v_version y)"
    using ver(2) by (auto simp: doc'_def)
  then have "getDocumentVersions s' d = ver # getDocumentVersions s d"
    by (simp add: getDocumentVersions_doc_versions vs sort_key_snoc_least)
  then show ?thesis
    using r ver act as by (auto simp: doc'_def)
qed

text \<open>
  C2. In every reachable state the first row \<open>getDocumentVersions\<close> returns for a
  document is numbered with its current version and holds its current title and content,
  its summary after \<open>|| null\<close> and its tags after \<open>|| []\<close>: the newest row is a
  snapshot of the current state.
\<close>

theorem newest_version_is_snapshot:
  assumes "reachable s" and "jm_get (documents s) d = Some doc"
  shows "\<exists>v vs. getDocumentVersions s d = v # vs \<and> v_version v = d_version doc \<and>
           v_title v = d_title doc \<and> v_content v = d_content doc \<and>
           v_summary v = js_or_null (d_summary doc) \<and> v_tags v = Some (js_or_nil (d_tags doc))"
proof -
  have "store_inv s" using assms(1) by (rule reachable_inv)
  then have "doc_ok doc (doc_versions s d) (doc_activities s d)"
    using assms(2) by (rule store_inv_docE)
  then show ?thesis
    by (auto simp: matches_snapshot_def dest!: doc_ok_newest)
qed

theorem newest_version_is_snapshot_witness:
  "\<exists>v vs. getDocumentVersions ex_s2 ''d1'' = v # vs \<and> v_version v = 2 \<and>
     v_title v = ''Onboarding Guide'' \<and> v_content v = ''Welcome'' \<and> v_tags v = Some [''beta'']"
proof -
  obtain doc where g: "jm_get (documents ex_s2) ''d1'' = Some doc" and
    f: "d_version doc = 2" "d_title doc = ''Onboarding Guide''" "d_content doc = ''Welcome''"
       "d_tags doc = Some [''beta'']"
    by (simp add: ex_unfold)
  show ?thesis
    using newest_version_is_snapshot [OF ex_reachable(2) g] f by auto
qed



text \<open>
  C4. In every reachable state the four maps have distinct keys and no version row and
  no activity refers to a document that is not stored (deletion leaves no orphans).
\<close>

theorem reachable_no_orphans:
  assumes "reachable s"
  shows "maps_wf s \<and> no_orphans s"
  using reachable_inv [OF assms] by (simp add: store_inv_def)

theorem reachable_no_orphans_witness: "maps_wf ex_s2 \<and> no_orphans ex_s2"
  by (rule reachable_no_orphans [OF ex_reachable(2)])

text \<open>
  C5. In every reachable state a document with current version \<open>N\<close> has exactly
  \<open>N\<close> activities referring to it.
\<close>

theorem activities_count_versions:
  assumes "reachable s" and "jm_get (documents s) d = Some doc"
  shows "length (doc_activities s d) = d_version doc"
  using store_inv_docE [OF reachable_inv [OF assms(1)] assms(2)] by (simp add: doc_ok_def)

theorem activities_count_versions_witness: "length (doc_activities ex_s2 ''d1'') = 2"
proof -
  obtain doc where g: "jm_get (documents ex_s2) ''d1'' = Some doc" and v: "d_version doc = 2"
    by (simp add: ex_unfold)
  show ?thesis using activities_count_versions [OF ex_reachable(2) g] v by simp
qed

text \<open>
  C6. \<open>updateDocument\<close> on a stored document (in a reachable state, with fresh
  UUIDs) returns the merged document with its version incremented by exactly one, puts
  exactly one new row in front of the version list, numbered with the new version and a
  snapshot of the post-merge state, made by the editor with description
  \<open>Document updated\<close>, and appends one \<open>updated\<close> activity by the editor.
\<close>

theorem update_increments_and_logs:
  assumes "reachable s" and "jm_get (documents s) d = Some doc"
    and "vid \<notin> set (jm_keys (documentVersions s))" and "aid \<notin> set (jm_keys (activities s))"
    and "updateDocument s d upd editor t (vid, tv) (aid, ta) = (r, s')"
  shows "\<exists>doc' v a. r = Some doc' \<and> doc' = (merge_update doc upd)\<lparr>d_updatedAt := t,
             d_version := Suc (d_version doc)\<rparr> \<and>
           getDocumentVersions s' d = v # getDocumentVersions s d \<and>
           v_version v = d_version doc' \<and> v_title v = d_title doc' \<and> v_content v = d_content doc' \<and>
           v_summary v = js_or_null (d_summary doc') \<and> v_tags v = Some (js_or_nil (d_tags doc')) \<and>
           v_createdBy v = editor \<and> v_changeDescription v = Some ''Document updated'' \<and>
           doc_activities s' d = doc_activities s d @ [a] \<and> a_type a = Updated \<and> a_userId a = editor"
  using updateDocument_views [OF reachable_inv [OF assms(1)] assms(2-5)]
  by (auto simp: matches_snapshot_def)

theorem update_increments_and_logs_witness:
  "\<exists>v. getDocumentVersions ex_s2 ''d1'' = v # getDocumentVersions ex_s1 ''d1'' \<and>
     v_version v = 2 \<and> v_title v = ''Onboarding Guide'' \<and> v_content v = ''Welcome''"
proof -
  let ?u = "no_update\<lparr>upd_title := Some ''Onboarding Guide''\<rparr>"
  obtain doc where g: "jm_get (documents ex_s1) ''d1'' = Some doc" and
    f: "d_version doc = 1" "d_content doc = ''Welcome''"
    by (simp add: ex_unfold)
  have fv: "''v2'' \<notin> set (jm_keys (documentVersions ex_s1))"
    and fa: "''a2'' \<notin> set (jm_keys (activities ex_s1))"
    by (simp_all add: ex_unfold)
  have res: "updateDocument ex_s1 ''d1'' ?u ''A'' 7 (''v2'', 7) (''a2'', 7) =
      (fst (updateDocument ex_s1 ''d1'' ?u ''A'' 7 (''v2'', 7) (''a2'', 7)), ex_s2)"
    by (simp add: ex_s2_def)
  show ?thesis
    using update_increments_and_logs [OF ex_reachable(1) g fv fa res] f
    by (auto simp: merge_update_def no_update_def)
qed

text \<open>
  C7. An update with no fields still increments the version and adds a row whose title,
  content, summary and tags equal those of the previous newest row.
\<close>

theorem empty_update_repeats_newest_row:
  assumes "reachable s" and "jm_get (documents s) d = Some doc"
    and "vid \<notin> set (jm_keys (documentVersions s))" and "aid \<notin> set (jm_keys (activities s))"
    and "updateDocument s d no_update editor t (vid, tv) (aid, ta) = (r, s')"
  shows "\<exists>doc' v w ws. r = Some doc' \<and> d_version doc' = Suc (d_version doc) \<and>
           getDocumentVersions s d = w # ws \<and> getDocumentVersions s' d = v # w # ws \<and>
           v_title v = v_title w \<and> v_content v = v_content w \<and>
           v_summary v = v_summary w \<and> v_tags v = v_tags w"
proof -
  have inv: "store_inv s" using assms(1) by (rule reachable_inv)
  obtain w ws where old: "getDocumentVersions s d = w # ws" "matches_snapshot doc w"
    using doc_ok_newest [OF store_inv_docE [OF inv assms(2)]] by blast
  from updateDocument_views [OF inv assms(2-5)] obtain v where
    new: "r = Some ((merge_update doc no_update)\<lparr>d_updatedAt := t, d_version := Suc (d_version doc)\<rparr>)"
      "getDocumentVersions s' d = v # getDocumentVersions s d" "matches_snapshot (the r) v"
    by blast
  then show ?thesis
    using old by (auto simp: matches_snapshot_def merge_update_def no_update_def)
qed

theorem empty_update_repeats_newest_row_witness:
  "\<exists>v w ws. getDocumentVersions ex_s1 ''d1'' = w # ws \<and>
     getDocumentVersions (snd (updateDocument ex_s1 ''d1'' no_update ''B'' 6 (''v9'', 6) (''a9'', 6))) ''d1''
       = v # w # ws \<and> v_title v = v_title w \<and> v_content v = v_content w"
proof -
  obtain doc where g: "jm_get (documents ex_s1) ''d1'' = Some doc"
    by (simp add: ex_unfold)
  have fv: "''v9'' \<notin> set (jm_keys (documentVersions ex_s1))"
    and fa: "''a9'' \<notin> set (jm_keys (activities ex_s1))"
    by (simp_all add: ex_unfold)
  show ?thesis
    using empty_update_repeats_newest_row [OF ex_reachable(1) g fv fa prod.collapse [symmetric],
        where editor = "''B''" and t = 6 and tv = 6 and ta = 6]
    by auto
qed

end
