(* ===== verification/StoreTyping.thy ===== *)
theory StoreTyping
  imports StoreInv
begin

text \<open>
  The typing of the store's tables: every record is stored under its own id (the key of
  \<open>users.set(id, user)\<close> and its siblings is the \<open>id\<close> field of the value), and every
  document has a version of at least 1. \<open>MemStorage\<close> never checks this; it holds
  because each method builds the record with the id it stores it under, and
  \<open>updateDocument\<close>'s spread \<open>{...existing, ...updates}\<close> never replaces \<open>id\<close>
  (\<open>Partial<InsertDocument>\<close> has no \<open>id\<close>). Typing is preserved by every step of
  \<open>store_step\<close>, as a state typing is by a small step in a type-soundness proof.
\<close>

definition keyed :: "('k \<times> 'v) list \<Rightarrow> ('v \<Rightarrow> 'k) \<Rightarrow> bool" where
  "keyed m key \<longleftrightarrow> (\<forall>(k, v)\<in>set m. key v = k)"

definition store_typed :: "mem_storage \<Rightarrow> bool" where
  "store_typed s \<longleftrightarrow>
     keyed (users s) u_id \<and> keyed (documents s) d_id \<and>
     keyed (documentVersions s) v_id \<and> keyed (activities s) a_id \<and>
     (\<forall>d\<in>set (jm_values (documents s)). 1 \<le> d_version d)"

text \<open>An example run: user \<open>A\<close> registers, then creates the document of StoreInv.thy.\<close>

definition ex_user_A :: insert_user where
  "ex_user_A = \<lparr>iu_email = ''a@example.org'', iu_password = ''secret1'', iu_name = ''Ann'', iu_role = None\<rparr>"

definition ex_typed :: mem_storage where
  "ex_typed = snd (createDocument (snd (createUser init_storage ex_user_A (''A'', 0))) ex_insert ''A''
     (''d1'', 5) (''v1'', 5) (''a1'', 5))"

section \<open>Keyed maps\<close>

lemma keyed_Nil [simp]: "keyed [] key"
  by (simp add: keyed_def)

lemma keyed_set [simp]: "keyed m key \<Longrightarrow> key v = k \<Longrightarrow> keyed (jm_set m k v) key"
  using jm_set_subset [of m k v] by (auto simp: keyed_def)

lemma keyed_filter [simp]: "keyed m key \<Longrightarrow> keyed (filter P m) key"
  by (auto simp: keyed_def)

lemma keyed_delete [simp]: "keyed m key \<Longrightarrow> keyed (jm_delete m k) key"
  by (simp add: jm_delete_def)

lemma keyed_get: "keyed m key \<Longrightarrow> jm_get m k = Some v \<Longrightarrow> key v = k"
  by (auto simp: keyed_def jm_get_def dest: map_of_SomeD)

section \<open>Preservation\<close>

lemma createUser_typed: "store_typed s \<Longrightarrow> store_typed (snd (createUser s iu k))"
  by (auto simp: createUser_def Let_def store_typed_def split: prod.splits)

lemma createDocument_typed: "store_typed s \<Longrightarrow> store_typed (snd (createDocument s ins editor k kv ka))"
  using jm_set_subset [of "documents s" "fst k"]
  by (fastforce simp: createDocument_def createDocumentVersion_def createActivity_def Let_def
      store_typed_def jm_values_def split: prod.splits)

lemma updateDocument_typed: "store_typed s \<Longrightarrow> store_typed (snd (updateDocument s did upd editor t kv ka))"
proof (cases "jm_get (documents s) did")
  case None
  then show "store_typed s \<Longrightarrow> ?thesis" by (simp add: updateDocument_None)
next
  case (Some doc)
  assume typed: "store_typed s"
  then have "d_id doc = did"
    using Some by (auto simp: store_typed_def intro: keyed_get)
  then show ?thesis
    using typed Some jm_set_subset [of "documents s" did]
    by (fastforce simp: updateDocument_def createDocumentVersion_def createActivity_def Let_def
        merge_update_def store_typed_def jm_values_def split: prod.splits)
qed

lemma deleteDocument_typed: "store_typed s \<Longrightarrow> store_typed (snd (deleteDocument s did))"
  using jm_delete_subset [of "documents s" did]
  by (fastforce simp: deleteDocument_def jm_delete_where_filter Let_def store_typed_def jm_values_def
      split: option.splits)

lemma store_step_typed: "store_step s s' \<Longrightarrow> store_typed s \<Longrightarrow> store_typed s'"
  by (induction rule: store_step.induct)
    (simp_all add: createUser_typed createDocument_typed updateDocument_typed deleteDocument_typed)

lemma reachable_typed: "reachable s \<Longrightarrow> store_typed s"
proof (induction rule: reachable.induct)
  case init
  then show ?case by (simp add: store_typed_def init_storage_def jm_empty_def jm_values_def)
next
  case (step s s')
  then show ?case by (blast intro: store_step_typed)
qed

section \<open>Listing and reading agree\<close>

lemma in_getDocuments:
  "du \<in> set (getDocuments s) \<longleftrightarrow>
     fst du \<in> set (jm_values (documents s)) \<and> getUser s (d_createdBy (fst du)) = Some (snd du)"
  by (cases du) (force simp: getDocuments_def map_filter_def)

lemma typed_listed_document:
  assumes "store_typed s" and "jm_wf (documents s)" and "du \<in> set (getDocuments s)"
  shows "getDocument s (d_id (fst du)) = Some (fst du, snd du, getDocumentVersions s (d_id (fst du)))"
proof -
  obtain k where kd: "(k, fst du) \<in> set (documents s)" and u: "getUser s (d_createdBy (fst du)) = Some (snd du)"
    using assms(3) by (auto simp: in_getDocuments jm_values_def)
  then have "k = d_id (fst du)"
    using assms(1) by (auto simp: store_typed_def keyed_def)
  then have "jm_get (documents s) (d_id (fst du)) = Some (fst du)"
    using kd jm_wf_get_iff [OF assms(2)] by simp
  then show ?thesis
    using u by (simp add: getDocument_def)
qed

section \<open>Properties\<close>

text \<open>
  C10. In every reachable state each table is keyed by the ids of its records: the
  user, document, version or activity stored under key \<open>k\<close> has id \<open>k\<close>. Hence every
  document \<open>GET /api/documents\<close> lists has version at least 1, and
  \<open>GET /api/documents/:id\<close> with its id returns that same document, its author and its
  versions.
\<close>

theorem reachable_store_typed:
  assumes "reachable s"
  shows "(\<forall>(k, u)\<in>set (users s). u_id u = k) \<and> (\<forall>(k, d)\<in>set (documents s). d_id d = k) \<and>
         (\<forall>(k, v)\<in>set (documentVersions s). v_id v = k) \<and> (\<forall>(k, a)\<in>set (activities s). a_id a = k) \<and>
         (\<forall>du\<in>set (getDocuments s). 1 \<le> d_version (fst du) \<and>
            getDocument s (d_id (fst du)) = Some (fst du, snd du, getDocumentVersions s (d_id (fst du))))"
proof -
  have typed: "store_typed s"
    using reachable_typed [OF assms] .
  have wf: "jm_wf (documents s)"
    using reachable_inv [OF assms] by (simp add: store_inv_def maps_wf_def)
  have "\<forall>du\<in>set (getDocuments s). 1 \<le> d_version (fst du)"
    using typed by (auto simp: in_getDocuments store_typed_def)
  then show ?thesis
    using typed typed_listed_document [OF typed wf] by (simp add: store_typed_def keyed_def)
qed

lemma ex_typed_reachable: "reachable ex_typed"
proof -
  have r0: "reachable (snd (createUser init_storage ex_user_A (''A'', 0)))"
    by (rule reachable.step [OF reachable.init store_step.create_user])
  have "store_step (snd (createUser init_storage ex_user_A (''A'', 0))) ex_typed"
    unfolding ex_typed_def
    by (rule store_step.create_document)
      (simp_all add: createUser_def Let_def init_storage_def jm_empty_def jm_set_def jm_keys_def)
  with r0 show ?thesis
    by (rule reachable.step)
qed

theorem reachable_store_typed_witness:
  "getDocument ex_typed ''d1'' = Some (fst (hd (getDocuments ex_typed)), snd (hd (getDocuments ex_typed)),
     getDocumentVersions ex_typed ''d1'')"
proof -
  have h: "hd (getDocuments ex_typed) \<in> set (getDocuments ex_typed)"
    and i: "d_id (fst (hd (getDocuments ex_typed))) = ''d1''"
    by code_simp+
  show ?thesis
    using reachable_store_typed [OF ex_typed_reachable] h i by fastforce
qed

end
