(* ===== verification/Search.thy ===== *)
theory Search
  imports StoreTyping
begin

text \<open>
  The search facade: the literal search \<open>MemStorage.searchDocuments\<close>
  (src/unnamed/part\_004, lines 182--192) and the semantic search
  \<open>performSemanticSearch\<close> of src/server/services/gemini.ts (lines 67--130), whose
  relevance ranking comes from the external model and is an input here; what the code
  does with that ranking, and its literal fallback when the call or the JSON parse
  fails, is modelled. JavaScript's \<open>toLowerCase\<close> is modelled on ASCII letters
  (HOL characters are bytes; other characters are left unchanged), and
  \<open>String.prototype.includes\<close> is the executable \<open>js_includes\<close>, proved equal to
  the library's contiguous-sublist relation.
\<close>

section \<open>Strings\<close>

definition js_lower_char :: "char \<Rightarrow> char" where
  "js_lower_char c =
     (let n = (of_char c :: nat) in if 65 \<le> n \<and> n \<le> 90 then char_of (n + 32) else c)"

definition js_lower :: "string \<Rightarrow> string" where
  "js_lower s = map js_lower_char s"

text \<open>\<open>s.includes(q)\<close>: \<open>q\<close> occurs at some position of \<open>s\<close>.\<close>

fun js_includes :: "string \<Rightarrow> string \<Rightarrow> bool" where
  "js_includes [] q = (q = [])"
| "js_includes (c # s) q = (prefix q (c # s) \<or> js_includes s q)"

section \<open>Literal search\<close>

text \<open>
  The filter predicate of \<open>searchDocuments\<close>, given the lower-cased query. A summary
  that is \<open>null\<close> or empty is falsy and does not match; a missing tag array does not
  match.
\<close>

definition matches_query :: "document \<Rightarrow> string \<Rightarrow> bool" where
  "matches_query doc lq \<longleftrightarrow>
     js_includes (js_lower (d_title doc)) lq \<or>
     js_includes (js_lower (d_content doc)) lq \<or>
     (case d_summary doc of None \<Rightarrow> False
      | Some sm \<Rightarrow> sm \<noteq> [] \<and> js_includes (js_lower sm) lq) \<or>
     (case d_tags doc of None \<Rightarrow> False
      | Some tg \<Rightarrow> (\<exists>t\<in>set tg. js_includes (js_lower t) lq))"

definition searchDocuments :: "mem_storage \<Rightarrow> string \<Rightarrow> document_with_user list" where
  "searchDocuments s query =
     (let lowerQuery = js_lower query
      in filter (\<lambda>du. matches_query (fst du) lowerQuery) (getDocuments s))"

section \<open>Semantic search\<close>

text \<open>
  What the model call of \<open>performSemanticSearch\<close> yields: a parsed array of
  \<open>{index, relevance}\<close> pairs, an empty response text, or a failure (the call throws,
  or \<open>JSON.parse\<close> throws on the text).
\<close>

datatype semantic_outcome = Ranked "(int \<times> int) list" | EmptyText | Failed

text \<open>
  \<open>documents[result.index]\<close>: out of range (or negative) it is \<open>undefined\<close>, and
  the spread then yields an object with the relevance only (\<open>None\<close> here).
\<close>

definition js_index :: "'a list \<Rightarrow> int \<Rightarrow> 'a option" where
  "js_index xs i = (if 0 \<le> i \<and> i < int (length xs) then Some (xs ! nat i) else None)"

definition rank_results ::
  "document_with_user list \<Rightarrow> (int \<times> int) list \<Rightarrow> (document_with_user option \<times> int) list" where
  "rank_results docs results =
     map (\<lambda>r. (js_index docs (fst r), snd r))
       (sort_key (\<lambda>r. - snd r) (filter (\<lambda>r. 30 < snd r) results))"

text \<open>The fallback of the \<open>catch\<close> block: title, content and summary only.\<close>

definition fallback_matches :: "document \<Rightarrow> string \<Rightarrow> bool" where
  "fallback_matches doc lq \<longleftrightarrow>
     js_includes (js_lower (d_title doc)) lq \<or>
     js_includes (js_lower (d_content doc)) lq \<or>
     (case d_summary doc of None \<Rightarrow> False
      | Some sm \<Rightarrow> sm \<noteq> [] \<and> js_includes (js_lower sm) lq)"

datatype semantic_result =
  RankedDocs "(document_with_user option \<times> int) list"
| FallbackDocs "document_with_user list"

definition performSemanticSearch ::
  "string \<Rightarrow> document_with_user list \<Rightarrow> semantic_outcome \<Rightarrow> semantic_result" where
  "performSemanticSearch query docs outcome =
     (case outcome of
        Ranked results \<Rightarrow> RankedDocs (rank_results docs results)
      | EmptyText \<Rightarrow> RankedDocs []
      | Failed \<Rightarrow>
          (let lowerQuery = js_lower query
           in FallbackDocs (filter (\<lambda>du. fallback_matches (fst du) lowerQuery) docs)))"

section \<open>An example store\<close>

text \<open>The specification's search scenario: a document titled \<open>Release Notes\<close> tagged \<open>beta\<close>.\<close>

definition ex_author :: user where
  "ex_author = \<lparr>u_id = ''A'', u_email = ''a@example.org'', u_password = ''h'', u_name = ''Ann'',
     u_role = ''user'', u_createdAt = 0, u_updatedAt = 0\<rparr>"

definition ex_search_store :: mem_storage where
  "ex_search_store = snd (createDocument (init_storage\<lparr>users := [(''A'', ex_author)]\<rparr>)
     \<lparr>ins_title = ''Release Notes'', ins_content = ''Changes'', ins_summary = None,
      ins_tags = Some [''beta'']\<rparr> ''A'' (''d1'', 1) (''v1'', 1) (''a1'', 1))"

section \<open>Library\<close>

lemma js_includes_sublist: "js_includes s q \<longleftrightarrow> sublist q s"
  by (induction s) (auto simp: sublist_Cons_right)

lemma js_lower_append [simp]: "js_lower (xs @ ys) = js_lower xs @ js_lower ys"
  by (simp add: js_lower_def)

lemma length_js_lower [simp]: "length (js_lower s) = length s"
  by (simp add: js_lower_def)

lemma js_lower_char_idem [simp]: "js_lower_char (js_lower_char c) = js_lower_char c"
  by (simp add: js_lower_char_def Let_def)

lemma js_lower_idem [simp]: "js_lower (js_lower s) = js_lower s"
  by (simp add: js_lower_def comp_def)

section \<open>Properties of the literal search\<close>

text \<open>
  \<open>js_includes s q\<close>, the model of \<open>s.includes(q)\<close>, holds exactly when
  \<open>s\<close> splits as \<open>ps @ q @ ss\<close>.
\<close>

lemma js_includes_iff_split: "js_includes s q \<longleftrightarrow> (\<exists>ps ss. s = ps @ q @ ss)"
  by (simp add: js_includes_sublist sublist_def)

text \<open>
  C9. Literal search is case-insensitive (the result for a query equals the result for
  its lower-case form), returns a sub-list of \<open>getDocuments\<close> in the same order, and
  returns exactly the listed documents whose lower-cased title, content, non-empty
  summary or some tag contains the lower-cased query.
\<close>

theorem search_case_insensitive_subset:
  "searchDocuments s q = searchDocuments s (js_lower q) \<and>
   subseq (searchDocuments s q) (getDocuments s) \<and>
   set (searchDocuments s q) =
     {du \<in> set (getDocuments s).
        sublist (js_lower q) (js_lower (d_title (fst du))) \<or>
        sublist (js_lower q) (js_lower (d_content (fst du))) \<or>
        (\<exists>sm. d_summary (fst du) = Some sm \<and> sm \<noteq> [] \<and> sublist (js_lower q) (js_lower sm)) \<or>
        (\<exists>tg. d_tags (fst du) = Some tg \<and> (\<exists>t\<in>set tg. sublist (js_lower q) (js_lower t)))}"
proof (intro conjI)
  show "searchDocuments s q = searchDocuments s (js_lower q)"
    by (simp add: searchDocuments_def)
  show "subseq (searchDocuments s q) (getDocuments s)"
    by (simp add: searchDocuments_def Let_def)
  show "set (searchDocuments s q) =
     {du \<in> set (getDocuments s).
        sublist (js_lower q) (js_lower (d_title (fst du))) \<or>
        sublist (js_lower q) (js_lower (d_content (fst du))) \<or>
        (\<exists>sm. d_summary (fst du) = Some sm \<and> sm \<noteq> [] \<and> sublist (js_lower q) (js_lower sm)) \<or>
        (\<exists>tg. d_tags (fst du) = Some tg \<and> (\<exists>t\<in>set tg. sublist (js_lower q) (js_lower t)))}"
    by (auto simp: searchDocuments_def Let_def matches_query_def js_includes_sublist
        split: option.splits)
qed

text \<open>
  The specification's example: in a store holding a document titled
  \<open>Release Notes\<close> with tag \<open>beta\<close>, searching \<open>BETA\<close> and searching
  \<open>release\<close> both return it, and searching \<open>gamma\<close> returns nothing.
\<close>

lemma search_example:
  "map (d_title \<circ> fst) (searchDocuments ex_search_store ''BETA'') = [''Release Notes''] \<and>
   map (d_title \<circ> fst) (searchDocuments ex_search_store ''release'') = [''Release Notes''] \<and>
   searchDocuments ex_search_store ''gamma'' = []"
  by code_simp

section \<open>Properties of the semantic search\<close>

lemma rank_results_relevances:
  "mset (map snd (rank_results docs results)) = mset (filter (\<lambda>v. 30 < v) (map snd results))"
  by (simp add: rank_results_def comp_def filter_map mset_map[symmetric])

lemma rank_results_set:
  "set (rank_results docs results) = (\<lambda>r. (js_index docs (fst r), snd r)) ` {r \<in> set results. 30 < snd r}"
  by (auto simp: rank_results_def)

lemma fallback_matches_query: "fallback_matches d lq \<Longrightarrow> matches_query d lq"
  by (auto simp: fallback_matches_def matches_query_def)

text \<open>
  C11. The ranked semantic results are sorted by descending relevance and carry
  exactly the relevances above 30 that the model returned, each as often as it was
  returned; an answer with a relevance above 30 and an index in range appears with the
  document at exactly that index of the list passed in, and every document shown is the
  one at the index of an answer with its relevance.
\<close>

theorem semantic_ranking_exact:
  "sorted (map (\<lambda>r. - snd r) (rank_results docs results)) \<and>
   mset (map snd (rank_results docs results)) = mset (filter (\<lambda>v. 30 < v) (map snd results)) \<and>
   (\<forall>(i, v)\<in>set results. 30 < v \<and> 0 \<le> i \<and> i < int (length docs) \<longrightarrow>
      (Some (docs ! nat i), v) \<in> set (rank_results docs results)) \<and>
   (\<forall>r\<in>set (rank_results docs results). \<forall>du. fst r = Some du \<longrightarrow>
      (\<exists>i. (i, snd r) \<in> set results \<and> 0 \<le> i \<and> du = docs ! nat i))"
proof (intro conjI)
  show "sorted (map (\<lambda>r. - snd r) (rank_results docs results))"
    by (simp add: rank_results_def comp_def)
  show "mset (map snd (rank_results docs results)) = mset (filter (\<lambda>v. 30 < v) (map snd results))"
    by (rule rank_results_relevances)
  show "\<forall>(i, v)\<in>set results. 30 < v \<and> 0 \<le> i \<and> i < int (length docs) \<longrightarrow>
      (Some (docs ! nat i), v) \<in> set (rank_results docs results)"
    unfolding rank_results_set by (force simp: js_index_def)
  show "\<forall>r\<in>set (rank_results docs results). \<forall>du. fst r = Some du \<longrightarrow>
      (\<exists>i. (i, snd r) \<in> set results \<and> 0 \<le> i \<and> du = docs ! nat i)"
    unfolding rank_results_set by (force simp: js_index_def split: if_splits)
qed

theorem semantic_ranking_exact_witness:
  "(Some (hd (getDocuments ex_search_store)), 40) \<in>
     set (rank_results (getDocuments ex_search_store) [(0, 40), (1, 90), (0, 10)]) \<and>
   mset (map snd (rank_results (getDocuments ex_search_store) [(0, 40), (1, 90), (0, 10)])) = {#90, 40#}"
proof -
  have len: "length (getDocuments ex_search_store) = 1"
    by code_simp
  then obtain d where d: "getDocuments ex_search_store = [d]"
    by (cases "getDocuments ex_search_store") auto
  show ?thesis
    using semantic_ranking_exact [of "[d]" "[(0, 40), (1, 90), (0, 10)]"]
    by (simp add: d)
qed

text \<open>
  C12. When the model call fails, \<open>performSemanticSearch\<close> falls back to the literal
  search without its tag clause: over the listed documents, the fallback returns a
  sub-list of what \<open>searchDocuments\<close> returns, in its order, and leaves out exactly the
  documents that literal search finds through a tag only, the lower-cased query
  occurring in none of the title, the content and a non-empty summary.
\<close>

theorem semantic_fallback_drops_tag_matches:
  assumes "performSemanticSearch q (getDocuments s) Failed = FallbackDocs fs"
  shows "subseq fs (searchDocuments s q) \<and>
    (\<forall>du\<in>set (searchDocuments s q). du \<notin> set fs \<longleftrightarrow>
       \<not> sublist (js_lower q) (js_lower (d_title (fst du))) \<and>
       \<not> sublist (js_lower q) (js_lower (d_content (fst du))) \<and>
       (\<forall>sm. d_summary (fst du) = Some sm \<longrightarrow> sm = [] \<or> \<not> sublist (js_lower q) (js_lower sm)))"
proof -
  have fs: "fs = filter (\<lambda>du. fallback_matches (fst du) (js_lower q)) (getDocuments s)"
    using assms by (simp add: performSemanticSearch_def)
  have "fs = filter (\<lambda>du. fallback_matches (fst du) (js_lower q)) (searchDocuments s q)"
    using fallback_matches_query
    by (simp add: fs searchDocuments_def conj_commute cong: filter_cong) (metis (mono_tags, lifting))
  then show ?thesis
    by (auto simp: fallback_matches_def js_includes_sublist split: option.splits)
qed

theorem semantic_fallback_drops_tag_matches_witness:
  "\<exists>fs. performSemanticSearch ''beta'' (getDocuments ex_search_store) Failed = FallbackDocs fs \<and>
     subseq fs (searchDocuments ex_search_store ''beta'')"
proof -
  obtain fs where fs: "performSemanticSearch ''beta'' (getDocuments ex_search_store) Failed = FallbackDocs fs"
    by (simp add: performSemanticSearch_def)
  then show ?thesis
    using semantic_fallback_drops_tag_matches [OF fs] by blast
qed

text \<open>In the example store the query \<open>beta\<close>, the document's tag, finds it literally
  and the fallback returns nothing.\<close>

lemma semantic_fallback_example:
  "map (d_title \<circ> fst) (searchDocuments ex_search_store ''beta'') = [''Release Notes''] \<and>
   performSemanticSearch ''beta'' (getDocuments ex_search_store) Failed = FallbackDocs []"
  by code_simp

end
