(* ===== verification/Auth.thy ===== *)
theory Auth
  imports Schema
begin

text \<open>
  The request guards of src/server/services/auth.ts. Signing and verifying tokens
  (\<open>jsonwebtoken\<close>) and hashing passwords (\<open>bcryptjs\<close>) are library calls: the
  verifier is a parameter \<open>verify\<close> that returns the token's payload or \<open>None\<close>
  where \<open>jwt.verify\<close> throws. \<open>authenticateToken\<close> reads the token as the second
  space-separated word of the \<open>Authorization\<close> header (\<open>split(" ")[1]\<close>), which
  is modelled by \<open>js_split\<close>, JavaScript's \<open>String.prototype.split\<close> on one
  character.
\<close>

text \<open>The payload that \<open>generateToken\<close> signs and \<open>authenticateToken\<close> puts in \<open>req.user\<close>.\<close>

record auth_user =
  au_id :: uuid
  au_email :: string
  au_name :: string
  au_role :: string

text \<open>The payload the register and login routes sign: the user without password and
  timestamps.\<close>

definition token_payload :: "user \<Rightarrow> auth_user" where
  "token_payload u = \<lparr>au_id = u_id u, au_email = u_email u, au_name = u_name u, au_role = u_role u\<rparr>"

text \<open>\<open>generateToken\<close>: \<open>jwt.sign(user, JWT_SECRET, { expiresIn: "7d" })\<close>; the
  signature with the server's secret is the parameter \<open>sign\<close>. \<open>jwt.verify\<close>
  returns the payload with the registered claims \<open>iat\<close> and \<open>exp\<close> added; the
  model reads the four payload fields only.\<close>

definition generateToken :: "(auth_user \<Rightarrow> string) \<Rightarrow> auth_user \<Rightarrow> string" where
  "generateToken sign user = sign user"

text \<open>The body \<open>{ token, user }\<close> of a successful register or login response.\<close>

type_synonym session = "string \<times> auth_user"

definition issue_session :: "(auth_user \<Rightarrow> string) \<Rightarrow> user \<Rightarrow> session" where
  "issue_session sign u = (generateToken sign (token_payload u), token_payload u)"

text \<open>\<open>s.split(c)\<close>: the pieces between occurrences of \<open>c\<close>; never empty.\<close>

fun js_split :: "char \<Rightarrow> string \<Rightarrow> string list" where
  "js_split c [] = [[]]"
| "js_split c (x # xs) =
     (if x = c then [] # js_split c xs
      else (case js_split c xs of [] \<Rightarrow> [[x]] | w # ws \<Rightarrow> (x # w) # ws))"

text \<open>\<open>ws.join(sep)\<close>.\<close>

fun js_join :: "string \<Rightarrow> string list \<Rightarrow> string" where
  "js_join sep [] = []"
| "js_join sep [w] = w"
| "js_join sep (w # ws) = w @ sep @ js_join sep ws"

text \<open>\<open>authHeader && authHeader.split(" ")[1]\<close>, then the falsy test \<open>!token\<close>.\<close>

definition bearer_token :: "string option \<Rightarrow> string option" where
  "bearer_token authHeader =
     (case authHeader of
        None \<Rightarrow> None
      | Some h \<Rightarrow>
          (if h = [] then None
           else (case js_split CHR '' '' h of
                   _ # t # _ \<Rightarrow> if t = [] then None else Some t
                 | _ \<Rightarrow> None)))"

datatype auth_result = AuthFail nat | AuthOk auth_user

definition authenticateToken :: "(string \<Rightarrow> auth_user option) \<Rightarrow> string option \<Rightarrow> auth_result" where
  "authenticateToken verify authHeader =
     (case bearer_token authHeader of
        None \<Rightarrow> AuthFail 401
      | Some token \<Rightarrow> (case verify token of None \<Rightarrow> AuthFail 403 | Some u \<Rightarrow> AuthOk u))"

text \<open>\<open>requireAdmin\<close>: \<open>None\<close> lets the request through, \<open>Some 403\<close> rejects it.\<close>

definition requireAdmin :: "auth_user option \<Rightarrow> nat option" where
  "requireAdmin u = (case u of Some v \<Rightarrow> if au_role v = ''admin'' then None else Some 403 | None \<Rightarrow> Some 403)"

section \<open>Splitting\<close>

lemma js_split_not_Nil [simp]: "js_split c s \<noteq> []"
  by (induction s) (auto split: list.splits)

lemma js_join_Cons: "ws \<noteq> [] \<Longrightarrow> js_join sep (w # ws) = w @ sep @ js_join sep ws"
  by (cases ws) simp_all

lemma js_join_Cons_hd: "js_join sep ((x # w) # ws) = x # js_join sep (w # ws)"
  by (cases ws) simp_all

lemma js_split_pieces: "w \<in> set (js_split c s) \<Longrightarrow> c \<notin> set w"
proof (induction s arbitrary: w)
  case Nil
  then show ?case by simp
next
  case (Cons x xs)
  then show ?case
    by (auto split: if_splits list.splits)
qed

lemma js_split_no_sep: "c \<notin> set w \<Longrightarrow> js_split c w = [w]"
  by (induction w) auto

lemma js_split_sep: "c \<notin> set w \<Longrightarrow> js_split c (w @ c # r) = w # js_split c r"
  by (induction w) auto

lemma authenticate_bearer_word:
  "t \<noteq> [] \<Longrightarrow> CHR '' '' \<notin> set t \<Longrightarrow>
   authenticateToken verify (Some (''Bearer '' @ t)) =
     (case verify t of None \<Rightarrow> AuthFail 403 | Some u \<Rightarrow> AuthOk u)"
proof -
  assume "t \<noteq> []" and "CHR '' '' \<notin> set t"
  moreover have "''Bearer '' @ t = ''Bearer'' @ CHR '' '' # t"
    by simp
  ultimately show ?thesis
    by (simp only:) (simp add: authenticateToken_def bearer_token_def js_split_sep js_split_no_sep)
qed

section \<open>Properties\<close>

text \<open>
  Splitting on a character and joining with it again gives back the string:
  \<open>s.split(c).join(c) === s\<close>.
\<close>

theorem split_join_roundtrip: "js_join [c] (js_split c s) = s"
proof (induction s)
  case Nil
  then show ?case by simp
next
  case (Cons x xs)
  show ?case
  proof (cases "x = c")
    case True
    then show ?thesis
      using Cons.IH by (simp add: js_join_Cons)
  next
    case False
    then show ?thesis
      using Cons.IH by (cases "js_split c xs") (simp_all add: js_join_Cons_hd)
  qed
qed

text \<open>
  C19. \<open>authenticateToken\<close> answers 401 when the header is missing or has no second
  word, and otherwise hands the second word to the verifier: 403 if it rejects the
  token, the payload if it accepts it.
\<close>

theorem authenticate_bearer:
  assumes "CHR '' '' \<notin> set scheme" and "scheme \<noteq> []"
    and "CHR '' '' \<notin> set t" and "t \<noteq> []"
  shows "authenticateToken verify None = AuthFail 401 \<and>
         authenticateToken verify (Some scheme) = AuthFail 401 \<and>
         authenticateToken verify (Some (scheme @ CHR '' '' # t)) =
           (case verify t of None \<Rightarrow> AuthFail 403 | Some u \<Rightarrow> AuthOk u)"
  using assms
  by (simp add: authenticateToken_def bearer_token_def js_split_sep js_split_no_sep)

theorem authenticate_bearer_witness:
  "authenticateToken (\<lambda>t. if t = ''abc'' then Some \<lparr>au_id = ''A'', au_email = ''a@x'', au_name = ''Ann'', au_role = ''user''\<rparr> else None)
     (Some ''Bearer abc'') = AuthOk \<lparr>au_id = ''A'', au_email = ''a@x'', au_name = ''Ann'', au_role = ''user''\<rparr> \<and>
   authenticateToken (\<lambda>t. if t = ''abc'' then Some \<lparr>au_id = ''A'', au_email = ''a@x'', au_name = ''Ann'', au_role = ''user''\<rparr> else None)
     (Some ''Bearer xyz'') = AuthFail 403"
proof -
  let ?v = "\<lambda>t. if t = ''abc'' then Some \<lparr>au_id = ''A'', au_email = ''a@x'', au_name = ''Ann'', au_role = ''user''\<rparr> else None"
  have a: "''Bearer abc'' = ''Bearer'' @ CHR '' '' # ''abc''" and b: "''Bearer xyz'' = ''Bearer'' @ CHR '' '' # ''xyz''"
    by simp_all
  show ?thesis
    unfolding a b
    using authenticate_bearer [of "''Bearer''" "''abc''" ?v] authenticate_bearer [of "''Bearer''" "''xyz''" ?v]
    by simp
qed

end
