(* ===== verification/Routes.thy ===== *)
theory Routes
  imports Search Auth
begin

text \<open>
  The HTTP API of src/unnamed/part\_003 (\<open>registerRoutes\<close>). Each route handler is a
  function from the store and the parts of the request it reads to the response status,
  the response payload (\<open>None\<close> for an error message) and the new store. Every route
  but register and login runs behind \<open>authenticateToken\<close> (\<open>guarded\<close>). Zod
  validation is modelled by the shape of the input: a body the schema rejects is
  \<open>None\<close>, except for the checks the handler states itself (password length, falsy
  fields). The model calls of the AI routes are inputs (\<open>ai_call\<close>); Gemini.thy
  builds their requests and shows that the routes compose with the service functions. An uncaught exception becomes status 500 in the source; none of the
  modelled storage calls throws.
\<close>

type_synonym 'a reply = "nat \<times> 'a option \<times> mem_storage"

definition guarded ::
  "(string \<Rightarrow> auth_user option) \<Rightarrow> string option \<Rightarrow> mem_storage \<Rightarrow> (auth_user \<Rightarrow> 'a reply) \<Rightarrow> 'a reply" where
  "guarded verify authHeader s handler =
     (case authenticateToken verify authHeader of
        AuthFail code \<Rightarrow> (code, None, s)
      | AuthOk u \<Rightarrow> handler u)"

section \<open>Authentication routes\<close>

text \<open>
  \<open>POST /api/auth/register\<close>. \<open>registerSchema\<close> (Schema.thy) keeps the \<open>role\<close>
  column of \<open>insertUserSchema\<close>; the hash is what \<open>hashPassword\<close> returned for this
  request.
\<close>

definition route_register ::
  "(auth_user \<Rightarrow> string) \<Rightarrow> mem_storage \<Rightarrow> insert_user \<Rightarrow> string \<Rightarrow> stamp \<Rightarrow> session reply" where
  "route_register sign s data hashedPassword k =
     (if \<not> registerSchema data then (400, None, s)
      else (case getUserByEmail s (iu_email data) of
              Some _ \<Rightarrow> (400, None, s)
            | None \<Rightarrow>
                (let (u, s') = createUser s (data\<lparr>iu_password := hashedPassword\<rparr>) k
                 in (200, Some (issue_session sign u), s'))))"

text \<open>
  \<open>POST /api/auth/login\<close>: \<open>is_email\<close> is zod's e-mail check and
  \<open>comparePassword\<close> bcrypt's comparison.
\<close>

definition route_login ::
  "(auth_user \<Rightarrow> string) \<Rightarrow> (string \<Rightarrow> bool) \<Rightarrow> (string \<Rightarrow> string \<Rightarrow> bool) \<Rightarrow> mem_storage \<Rightarrow> string
     \<Rightarrow> string \<Rightarrow> session reply" where
  "route_login sign is_email comparePassword s email password =
     (if \<not> loginSchema is_email email password then (400, None, s)
      else (case getUserByEmail s email of
              None \<Rightarrow> (401, None, s)
            | Some u \<Rightarrow> if comparePassword password (u_password u) then (200, Some (issue_session sign u), s)
                        else (401, None, s)))"

definition route_me :: "mem_storage \<Rightarrow> auth_user \<Rightarrow> auth_user reply" where
  "route_me s u = (200, Some u, s)"

section \<open>Document routes\<close>

definition route_get_documents :: "mem_storage \<Rightarrow> document_with_user list reply" where
  "route_get_documents s = (200, Some (getDocuments s), s)"

definition route_get_document :: "mem_storage \<Rightarrow> uuid \<Rightarrow> document_with_details reply" where
  "route_get_document s did =
     (case getDocument s did of None \<Rightarrow> (404, None, s) | Some d \<Rightarrow> (200, Some d, s))"

definition route_post_document ::
  "mem_storage \<Rightarrow> auth_user \<Rightarrow> insert_document option \<Rightarrow> stamp \<Rightarrow> stamp \<Rightarrow> stamp \<Rightarrow> document reply" where
  "route_post_document s user body k kv ka =
     (case body of
        None \<Rightarrow> (400, None, s)
      | Some data \<Rightarrow> (let (doc, s') = createDocument s data (au_id user) k kv ka in (200, Some doc, s')))"

text \<open>The ownership check of PUT and DELETE: the author or an admin may proceed.\<close>

definition may_edit :: "user \<Rightarrow> auth_user \<Rightarrow> bool" where
  "may_edit author user \<longleftrightarrow> \<not> (u_id author \<noteq> au_id user \<and> au_role user \<noteq> ''admin'')"

definition route_put_document ::
  "mem_storage \<Rightarrow> auth_user \<Rightarrow> uuid \<Rightarrow> document_update option \<Rightarrow> timestamp \<Rightarrow> stamp \<Rightarrow> stamp
     \<Rightarrow> document reply" where
  "route_put_document s user did body now kv ka =
     (case getDocument s did of
        None \<Rightarrow> (404, None, s)
      | Some (doc, author, versions) \<Rightarrow>
          (if \<not> may_edit author user then (403, None, s)
           else (case body of
                   None \<Rightarrow> (400, None, s)
                 | Some data \<Rightarrow>
                     (let (updated, s') = updateDocument s did data (au_id user) now kv ka
                      in (200, updated, s')))))"

definition route_delete_document :: "mem_storage \<Rightarrow> auth_user \<Rightarrow> uuid \<Rightarrow> unit reply" where
  "route_delete_document s user did =
     (case getDocument s did of
        None \<Rightarrow> (404, None, s)
      | Some (doc, author, versions) \<Rightarrow>
          (if \<not> may_edit author user then (403, None, s)
           else (let (success, s') = deleteDocument s did
                 in if success then (200, Some (), s') else (500, None, s'))))"

definition route_get_versions :: "mem_storage \<Rightarrow> uuid \<Rightarrow> document_version list reply" where
  "route_get_versions s did = (200, Some (getDocumentVersions s did), s)"

section \<open>Search and AI routes\<close>

datatype search_reply = LiteralResults "document_with_user list" | SemanticResults semantic_result

text \<open>
  \<open>GET /api/search?q=..&type=..\<close>: \<open>q\<close> is \<open>None\<close> when it is missing or not a
  string; an empty \<open>q\<close> is falsy and rejected too.
\<close>

definition route_search ::
  "mem_storage \<Rightarrow> string option \<Rightarrow> string \<Rightarrow> semantic_outcome \<Rightarrow> search_reply reply" where
  "route_search s q searchType outcome =
     (case q of
        None \<Rightarrow> (400, None, s)
      | Some query \<Rightarrow>
          (if query = [] then (400, None, s)
           else if searchType = ''semantic''
           then (200, Some (SemanticResults (performSemanticSearch query (getDocuments s) outcome)), s)
           else (200, Some (LiteralResults (searchDocuments s query)), s)))"

text \<open>
  What one model call did: returned a response whose \<open>text\<close> may be missing, or
  threw.
\<close>

datatype ai_call = AiReturned "string option" | AiThrew

text \<open>\<open>response.text || fallback\<close>.\<close>

definition text_or :: "string option \<Rightarrow> string \<Rightarrow> string" where
  "text_or t fallback = (case t of None \<Rightarrow> fallback | Some x \<Rightarrow> if x = [] then fallback else x)"

definition route_summarize :: "mem_storage \<Rightarrow> string option \<Rightarrow> string option \<Rightarrow> ai_call \<Rightarrow> string reply" where
  "route_summarize s title content call =
     (if text_or title [] = [] \<or> text_or content [] = [] then (400, None, s)
      else (case call of
              AiThrew \<Rightarrow> (500, None, s)
            | AiReturned t \<Rightarrow> (200, Some (text_or t ''Unable to generate summary''), s)))"

text \<open>
  \<open>generateTags\<close>: an empty response gives no tags; otherwise the text is parsed as
  JSON (\<open>parse\<close>, \<open>None\<close> where \<open>JSON.parse\<close> throws, which the route reports
  as 500).
\<close>

definition route_generate_tags ::
  "(string \<Rightarrow> string list option) \<Rightarrow> mem_storage \<Rightarrow> string option \<Rightarrow> string option \<Rightarrow> ai_call
     \<Rightarrow> string list reply" where
  "route_generate_tags parse s title content call =
     (if text_or title [] = [] \<or> text_or content [] = [] then (400, None, s)
      else (case call of
              AiThrew \<Rightarrow> (500, None, s)
            | AiReturned t \<Rightarrow>
                (if text_or t [] = [] then (200, Some [], s)
                 else (case parse (the t) of None \<Rightarrow> (500, None, s) | Some tags \<Rightarrow> (200, Some tags, s)))))"

definition route_qa :: "mem_storage \<Rightarrow> string option \<Rightarrow> ai_call \<Rightarrow> string reply" where
  "route_qa s question call =
     (if text_or question [] = [] then (400, None, s)
      else (case call of
              AiThrew \<Rightarrow> (500, None, s)
            | AiReturned t \<Rightarrow>
                (200, Some (text_or t ''I'm unable to provide an answer based on the available documents.''), s)))"

definition route_activities :: "mem_storage \<Rightarrow> (activity \<times> user \<times> document option) list reply" where
  "route_activities s = (200, Some (getRecentActivities s 10), s)"

section \<open>Example requests\<close>

text \<open>
  A store holding user \<open>A\<close> (role \<open>user\<close>) and a document \<open>d1\<close> by \<open>A\<close>, and the
  token payloads of \<open>A\<close> and of another user \<open>B\<close>.
\<close>

definition ex_route_store :: mem_storage where
  "ex_route_store = snd (createDocument (init_storage\<lparr>users := [(''A'', ex_author)]\<rparr>)
     \<lparr>ins_title = ''Onboarding'', ins_content = ''Welcome'', ins_summary = None, ins_tags = None\<rparr>
     ''A'' (''d1'', 1) (''v1'', 1) (''a1'', 1))"

definition ex_token_A :: auth_user where
  "ex_token_A = \<lparr>au_id = ''A'', au_email = ''a@example.org'', au_name = ''Ann'', au_role = ''user''\<rparr>"

definition ex_token_B :: auth_user where
  "ex_token_B = \<lparr>au_id = ''B'', au_email = ''b@example.org'', au_name = ''Bob'', au_role = ''user''\<rparr>"

section \<open>Library\<close>

lemmas ex_route_unfold = ex_route_store_def ex_author_def ex_token_A_def ex_token_B_def
  init_storage_def createDocument_def createDocumentVersion_def createActivity_def
  getDocument_def getUser_def getDocumentVersions_def jm_set_def jm_get_def jm_empty_def
  jm_values_def Let_def may_edit_def

text \<open>The example store is reached by registering \<open>A\<close> and creating \<open>d1\<close>.\<close>

lemma ex_route_reachable: "reachable ex_route_store"
proof -
  have u: "init_storage\<lparr>users := [(''A'', ex_author)]\<rparr> =
      snd (createUser init_storage \<lparr>iu_email = ''a@example.org'', iu_password = ''h'', iu_name = ''Ann'',
        iu_role = None\<rparr> (''A'', 0))"
    by (simp add: createUser_def init_storage_def ex_author_def jm_set_def jm_empty_def Let_def)
  have r: "reachable (init_storage\<lparr>users := [(''A'', ex_author)]\<rparr>)"
    unfolding u by (rule reachable.step [OF reachable.init store_step.create_user])
  show ?thesis
    unfolding ex_route_store_def
    by (rule reachable.step [OF r], rule store_step.create_document) (simp_all add: init_storage_def jm_empty_def jm_keys_def)
qed

lemma getDocument_Some:
  "getDocument s did = Some (doc, author, vs) \<Longrightarrow>
   jm_get (documents s) did = Some doc \<and> getUser s (d_createdBy doc) = Some author \<and>
   vs = getDocumentVersions s did"
  by (auto simp: getDocument_def split: option.splits)

lemma getDocument_None_after_delete:
  "deleteDocument s did = (True, s') \<Longrightarrow> getDocument s' did = None"
  by (auto simp: deleteDocument_def getDocument_def Let_def split: option.splits)

lemma deleteDocument_True:
  assumes "deleteDocument s did = (True, s')"
  shows "documents s' = jm_delete (documents s) did \<and>
    documentVersions s' = jm_delete_where (documentVersions s) (\<lambda>v. v_documentId v = did) (documentVersions s) \<and>
    activities s' = jm_delete_where (activities s) (\<lambda>a. a_documentId a = Some did) (activities s)"
  using assms by (auto simp: deleteDocument_def Let_def split: option.splits)

lemma versions_gone_after_delete:
  assumes "deleteDocument s did = (True, s')"
  shows "getDocumentVersions s' did = []"
proof -
  have "\<forall>v\<in>set (jm_values (documentVersions s')). v_documentId v \<noteq> did"
    using deleteDocument_True [OF assms] by (auto dest: jm_delete_where_self_values)
  then show ?thesis by (simp add: getDocumentVersions_def filter_empty_conv)
qed

lemma activities_gone_after_delete:
  assumes "deleteDocument s did = (True, s')"
  shows "\<forall>a\<in>set (jm_values (activities s')). a_documentId a \<noteq> Some did"
  using deleteDocument_True [OF assms] by (auto dest: jm_delete_where_self_values)

lemma deleteDocument_found:
  "jm_get (documents s) did \<noteq> None \<Longrightarrow> fst (deleteDocument s did) = True"
  by (auto simp: deleteDocument_def Let_def)

lemma route_register_200:
  assumes "route_register sign s data h (uid, t) = (200, r, s')"
  shows "\<exists>u. r = Some (issue_session sign u) \<and> u_id u = uid \<and> users s' = jm_set (users s) uid u"
  using assms
  by (auto simp: route_register_def registerSchema_def createUser_def Let_def split: if_splits option.splits)

lemma put_may_edit_200:
  "getDocument s did = Some (doc, author, vs) \<Longrightarrow> may_edit author user \<Longrightarrow>
   fst (route_put_document s user did (Some upd) now kv ka) = 200"
  by (simp add: route_put_document_def split: prod.split)

lemma delete_may_edit_200:
  assumes "getDocument s did = Some (doc, author, vs)" and "may_edit author user"
  shows "fst (route_delete_document s user did) = 200"
proof -
  have "fst (deleteDocument s did) = True"
    using getDocument_Some [OF assms(1)] by (simp add: deleteDocument_found)
  then show ?thesis
    using assms by (cases "deleteDocument s did") (simp add: route_delete_document_def)
qed

lemma getUser_createDocument [simp]: "getUser (snd (createDocument s ins ed k kv ka)) = getUser s"
  by (simp add: createDocument_def createDocumentVersion_def createActivity_def getUser_def Let_def
      fun_eq_iff split: prod.split)

text \<open>\<open>GET /api/documents\<close> sends each author's stored record as \<open>createdBy\<close>,
  password hash included (so do \<open>GET /api/documents/:id\<close> and
  \<open>GET /api/activities\<close>, whose payloads carry the same records).\<close>

lemma documents_route_sends_author_record:
  "fst (snd (route_get_documents s)) = Some dus \<Longrightarrow> du \<in> set dus \<Longrightarrow>
   getUser s (d_createdBy (fst du)) = Some (snd du)"
  by (auto simp: route_get_documents_def in_getDocuments)

lemma documents_route_password_example:
  "map (u_password \<circ> snd) (the (fst (snd (route_get_documents ex_search_store)))) = [u_password ex_author]"
  by code_simp

section \<open>Properties of the document routes\<close>

text \<open>
  C13. A PUT on a document answers 200 only when the document exists (with a resolvable
  author) and the caller is its author or an admin; the store then changes exactly as
  \<open>updateDocument\<close> with the caller as editor changes it.
\<close>

theorem put_only_by_author_or_admin:
  assumes "route_put_document s user did body now kv ka = (200, r, s')"
  shows "\<exists>doc author vs upd. getDocument s did = Some (doc, author, vs) \<and>
           (u_id author = au_id user \<or> au_role user = ''admin'') \<and> body = Some upd \<and>
           (r, s') = updateDocument s did upd (au_id user) now kv ka"
  using assms
  by (auto simp: route_put_document_def may_edit_def split: option.splits if_splits prod.splits)

theorem put_only_by_author_or_admin_witness:
  "fst (route_put_document ex_route_store ex_token_A ''d1'' (Some no_update) 2 (''v2'', 2) (''a2'', 2)) = 200 \<and>
   (\<exists>doc author vs. getDocument ex_route_store ''d1'' = Some (doc, author, vs) \<and> u_id author = ''A'')"
proof -
  let ?r = "route_put_document ex_route_store ex_token_A ''d1'' (Some no_update) 2 (''v2'', 2) (''a2'', 2)"
  have st: "fst ?r = 200"
    by (simp add: ex_route_unfold route_put_document_def)
  then have "?r = (200, fst (snd ?r), snd (snd ?r))" by (metis prod.collapse)
  from put_only_by_author_or_admin [OF this] st show ?thesis
    by (auto simp: ex_token_A_def)
qed

text \<open>
  C14. Every PUT that does not answer 200 leaves the store unchanged and answers 404, 403
  or 400; it answers 403 exactly when the document is found but the caller is neither
  its author nor an admin (the ownership check comes before the body is validated).
\<close>

theorem put_errors_leave_store:
  "(fst (route_put_document s user did body now kv ka) \<noteq> 200 \<longrightarrow>
      snd (snd (route_put_document s user did body now kv ka)) = s \<and>
      fst (route_put_document s user did body now kv ka) \<in> {404, 403, 400}) \<and>
   (fst (route_put_document s user did body now kv ka) = 403 \<longleftrightarrow>
      (\<exists>doc author vs. getDocument s did = Some (doc, author, vs) \<and>
         u_id author \<noteq> au_id user \<and> au_role user \<noteq> ''admin''))"
  by (auto simp: route_put_document_def may_edit_def split: option.splits prod.splits)

theorem put_errors_leave_store_witness:
  "route_put_document ex_route_store ex_token_B ''d1'' (Some no_update) 2 (''v2'', 2) (''a2'', 2) =
     (403, None, ex_route_store) \<and>
   fst (route_put_document ex_route_store ex_token_B ''d1'' (Some no_update) 2 (''v2'', 2) (''a2'', 2)) = 403"
proof -
  have "fst (route_put_document ex_route_store ex_token_B ''d1'' (Some no_update) 2 (''v2'', 2) (''a2'', 2)) = 403"
    using put_errors_leave_store [of ex_route_store ex_token_B "''d1''" "Some no_update" 2 "(''v2'', 2)" "(''a2'', 2)"]
    by (simp add: ex_route_unfold)
  moreover have "route_put_document ex_route_store ex_token_B ''d1'' (Some no_update) 2 (''v2'', 2) (''a2'', 2) =
     (403, None, ex_route_store)"
    by (simp add: ex_route_unfold route_put_document_def)
  ultimately show ?thesis by simp
qed

text \<open>
  C15. DELETE never answers 500 (the document was found, so \<open>deleteDocument\<close>
  succeeds); when it answers 200 the caller was the author or an admin and afterwards the
  document is not found, it has no version rows and no activity refers to it; otherwise
  the store is unchanged.
\<close>

theorem delete_route_cascades:
  assumes "route_delete_document s user did = (st, r, s')"
  shows "st \<noteq> 500 \<and>
         (st = 200 \<longrightarrow> (\<exists>doc author vs. getDocument s did = Some (doc, author, vs) \<and>
                          (u_id author = au_id user \<or> au_role user = ''admin'')) \<and>
            getDocument s' did = None \<and> getDocumentVersions s' did = [] \<and>
            (\<forall>a\<in>set (jm_values (activities s')). a_documentId a \<noteq> Some did)) \<and>
         (st \<noteq> 200 \<longrightarrow> s' = s)"
proof (cases "getDocument s did")
  case None
  then show ?thesis using assms by (simp add: route_delete_document_def)
next
  case (Some d)
  obtain doc author vs where d: "d = (doc, author, vs)" by (cases d)
  have found: "jm_get (documents s) did \<noteq> None"
    using Some d getDocument_Some by fastforce
  obtain s2 where del: "deleteDocument s did = (True, s2)"
    using deleteDocument_found [OF found] by (metis prod.collapse)
  show ?thesis
  proof (cases "may_edit author user")
    case True
    with assms Some d del have "st = 200" "s' = s2"
      by (simp_all add: route_delete_document_def)
    then show ?thesis
      using True Some d del getDocument_None_after_delete versions_gone_after_delete
        activities_gone_after_delete
      by (auto simp: may_edit_def)
  next
    case False
    with assms Some d show ?thesis by (simp add: route_delete_document_def)
  qed
qed

theorem delete_route_cascades_witness:
  "fst (route_delete_document ex_route_store ex_token_A ''d1'') = 200 \<and>
   getDocumentVersions (snd (snd (route_delete_document ex_route_store ex_token_A ''d1''))) ''d1'' = []"
proof -
  let ?r = "route_delete_document ex_route_store ex_token_A ''d1''"
  have st: "fst ?r = 200"
    by (simp add: ex_route_unfold route_delete_document_def deleteDocument_def)
  have "?r = (fst ?r, fst (snd ?r), snd (snd ?r))" by simp
  from delete_route_cascades [OF this] st show ?thesis by simp
qed

section \<open>Properties of the registration route\<close>

text \<open>
  C16. Registration accepts a role from the request body: \<open>registerSchema\<close> keeps the
  \<open>role\<close> column of \<open>insertUserSchema\<close>, and \<open>createUser\<close> keeps a non-empty
  role. Whoever registers a fresh e-mail address with a valid password and role
  \<open>admin\<close> gets a 200 session for an admin account, whose user then passes the ownership
  check of PUT and DELETE on every document of every store, whoever its author.
\<close>

theorem register_grants_requested_admin:
  assumes "registerSchema data" and "getUserByEmail s (iu_email data) = None"
    and "iu_role data = Some ''admin''"
  shows "\<exists>au. route_register sign s data h k = (200, Some (sign au, au), snd (snd (route_register sign s data h k))) \<and>
     au_role au = ''admin'' \<and> au_email au = iu_email data \<and>
     (\<forall>s' did doc author vs upd now kv ka. getDocument s' did = Some (doc, author, vs) \<longrightarrow>
        fst (route_put_document s' au did (Some upd) now kv ka) = 200 \<and> fst (route_delete_document s' au did) = 200)"
proof -
  obtain uid t where k: "k = (uid, t)" by (cases k)
  let ?au = "token_payload (fst (createUser s (data\<lparr>iu_password := h\<rparr>) k))"
  have reg: "route_register sign s data h k = (200, Some (sign ?au, ?au), snd (snd (route_register sign s data h k)))"
    using assms(1,2) by (simp add: route_register_def issue_session_def generateToken_def split: prod.split)
  have role: "au_role ?au = ''admin''" "au_email ?au = iu_email data"
    using assms(3) by (simp_all add: k createUser_def token_payload_def Let_def)
  have "may_edit author ?au" for author
    using role by (simp add: may_edit_def)
  then show ?thesis
    using reg role put_may_edit_200 delete_may_edit_200 by blast
qed

theorem register_grants_requested_admin_witness:
  "\<exists>au. au_role au = ''admin'' \<and>
     fst (route_put_document ex_route_store au ''d1'' (Some no_update) 4 (''v2'', 4) (''a2'', 4)) = 200"
proof -
  let ?data = "\<lparr>iu_email = ''m@example.org'', iu_password = ''secret1'', iu_name = ''Mallory'',
      iu_role = Some ''admin''\<rparr>"
  have v: "registerSchema ?data" "getUserByEmail ex_route_store (iu_email ?data) = None"
      "iu_role ?data = Some ''admin''"
    by (simp_all add: registerSchema_def ex_route_unfold getUserByEmail_def)
  obtain doc author vs where g: "getDocument ex_route_store ''d1'' = Some (doc, author, vs)"
    by (simp add: ex_route_unfold)
  show ?thesis
    using register_grants_requested_admin [OF v, of "\<lambda>p. au_id p" "''hash''" "(''M'', 3)"] g by blast
qed

text \<open>
  C17. Registration keeps e-mail addresses unique: if they are distinct before and the
  new user id is fresh, they are distinct after any register request.
\<close>

theorem register_emails_distinct:
  assumes "distinct (map u_email (jm_values (users s)))"
    and "uid \<notin> set (jm_keys (users s))"
    and "route_register sign s data h (uid, t) = (st, r, s')"
  shows "distinct (map u_email (jm_values (users s')))"
proof (cases "st = 200")
  case False
  with assms(3) have "s' = s"
    by (auto simp: route_register_def registerSchema_def Let_def createUser_def split: if_splits option.splits)
  with assms(1) show ?thesis by simp
next
  case True
  with assms(3) have none: "getUserByEmail s (iu_email data) = None"
    and s': "users s' = jm_set (users s) uid (fst (createUser s (data\<lparr>iu_password := h\<rparr>) (uid, t)))"
    by (auto simp: route_register_def registerSchema_def Let_def createUser_def split: if_splits option.splits)
  from none have "iu_email data \<notin> set (map u_email (jm_values (users s)))"
    by (auto simp: getUserByEmail_def find_None_iff)
  with assms(1,2) s' show ?thesis
    by (simp add: jm_values_set_new createUser_def Let_def)
qed

theorem register_emails_distinct_witness:
  "distinct (map u_email (jm_values (users (snd (snd (route_register (\<lambda>p. au_id p) ex_route_store
     \<lparr>iu_email = ''b@example.org'', iu_password = ''secret1'', iu_name = ''Bob'', iu_role = None\<rparr>
     ''hash'' (''B'', 3)))))))"
proof -
  have d: "distinct (map u_email (jm_values (users ex_route_store)))"
    and f: "''B'' \<notin> set (jm_keys (users ex_route_store))"
    by (simp_all add: ex_route_unfold jm_keys_def)
  let ?r = "route_register (\<lambda>p. au_id p) ex_route_store
     \<lparr>iu_email = ''b@example.org'', iu_password = ''secret1'', iu_name = ''Bob'', iu_role = None\<rparr>
     ''hash'' (''B'', 3)"
  have "?r = (fst ?r, fst (snd ?r), snd (snd ?r))" by simp
  from register_emails_distinct [OF d f this] show ?thesis .
qed

text \<open>
  C39. The token of a successful registration authenticates its holder: when
  \<open>jwt.verify\<close> accepts what \<open>jwt.sign\<close> produced (its contract) and the token has no
  space (a JWT is base64url text), the header \<open>Bearer <token>\<close> passes
  \<open>authenticateToken\<close> with the payload of the user the request stored.
\<close>

theorem register_token_authenticates:
  assumes reg: "route_register sign s data h (uid, t) = (200, Some (tok, p), s')"
    and contract: "verify (sign p) = Some p" and ne: "sign p \<noteq> []" and sp: "CHR '' '' \<notin> set (sign p)"
  shows "authenticateToken verify (Some (''Bearer '' @ tok)) = AuthOk p \<and> au_id p = uid \<and>
         map_option token_payload (getUser s' uid) = Some p"
proof -
  obtain u where r: "Some (tok, p) = Some (issue_session sign u)" and id: "u_id u = uid"
    and us: "users s' = jm_set (users s) uid u"
    using route_register_200 [OF reg] by blast
  then have tok: "tok = sign p" and p: "p = token_payload u"
    by (simp_all add: issue_session_def generateToken_def)
  show ?thesis
    using authenticate_bearer_word [OF ne sp, of verify] contract tok p id us
    by (simp add: getUser_def token_payload_def)
qed

theorem register_token_authenticates_witness:
  "authenticateToken (\<lambda>tk. if tk = ''B'' then Some \<lparr>au_id = ''B'', au_email = ''b@example.org'',
       au_name = ''Bob'', au_role = ''user''\<rparr> else None)
     (Some (''Bearer '' @ fst (the (fst (snd (route_register (\<lambda>p. au_id p) ex_route_store
        \<lparr>iu_email = ''b@example.org'', iu_password = ''secret1'', iu_name = ''Bob'', iu_role = None\<rparr>
        ''hash'' (''B'', 3))))))) =
   AuthOk \<lparr>au_id = ''B'', au_email = ''b@example.org'', au_name = ''Bob'', au_role = ''user''\<rparr>"
proof -
  let ?r = "route_register (\<lambda>p. au_id p) ex_route_store
     \<lparr>iu_email = ''b@example.org'', iu_password = ''secret1'', iu_name = ''Bob'', iu_role = None\<rparr>
     ''hash'' (''B'', 3)"
  let ?p = "\<lparr>au_id = ''B'', au_email = ''b@example.org'', au_name = ''Bob'', au_role = ''user''\<rparr>"
  have reg: "?r = (200, Some (''B'', ?p), snd (snd ?r))"
    by (simp add: ex_route_unfold route_register_def registerSchema_def createUser_def getUserByEmail_def
        issue_session_def generateToken_def token_payload_def)
  have "authenticateToken (\<lambda>tk. if tk = ''B'' then Some ?p else None) (Some (''Bearer '' @ ''B'')) = AuthOk ?p"
    using register_token_authenticates [OF reg, of "\<lambda>tk. if tk = ''B'' then Some ?p else None"]
    by simp
  then show ?thesis
    by (subst reg) simp
qed

text \<open>
  C36. Registration and login validate the e-mail address differently: \<open>registerSchema\<close>
  takes any string while \<open>loginSchema\<close> requires an e-mail address. A registration
  with a new address that is not one succeeds and signs the user in, but every later
  login with that address is refused with 400, whatever the password.
\<close>

theorem register_non_email_locked_out:
  assumes "getUserByEmail s (iu_email data) = None" and "registerSchema data"
    and "\<not> is_email (iu_email data)"
  shows "fst (route_register sign s data h k) = 200 \<and>
         (\<forall>pw. fst (route_login sign is_email comparePassword (snd (snd (route_register sign s data h k)))
                   (iu_email data) pw) = 400)"
  using assms by (simp add: route_register_def route_login_def loginSchema_def Let_def split: prod.split)

theorem register_non_email_locked_out_witness:
  "fst (route_register (\<lambda>p. au_id p) ex_route_store
       \<lparr>iu_email = ''bob'', iu_password = ''secret1'', iu_name = ''Bob'', iu_role = None\<rparr> ''hash'' (''B'', 3)) = 200 \<and>
   fst (route_login (\<lambda>p. au_id p) (\<lambda>e. CHR ''@'' \<in> set e) (\<lambda>a b. a = b)
       (snd (snd (route_register (\<lambda>p. au_id p) ex_route_store
          \<lparr>iu_email = ''bob'', iu_password = ''secret1'', iu_name = ''Bob'', iu_role = None\<rparr> ''hash'' (''B'', 3))))
       ''bob'' ''secret1'') = 400"
proof -
  let ?d = "\<lparr>iu_email = ''bob'', iu_password = ''secret1'', iu_name = ''Bob'', iu_role = None\<rparr>"
  have h: "getUserByEmail ex_route_store (iu_email ?d) = None" "registerSchema ?d"
    "\<not> (\<lambda>e. CHR ''@'' \<in> set e) (iu_email ?d)"
    by (simp_all add: ex_route_unfold getUserByEmail_def registerSchema_def)
  show ?thesis
    using register_non_email_locked_out [of ex_route_store ?d "\<lambda>e. CHR ''@'' \<in> set e" "\<lambda>p. au_id p" "''hash''"
        "(''B'', 3)" "\<lambda>a b. a = b"] h by simp
qed

section \<open>Tokens without a stored user\<close>

text \<open>
  C18. The store does not check that the author of a new document exists. For every
  store, a POST by a token whose user is not in the store (the in-memory store is
  emptied on restart while tokens stay valid for seven days) answers 200 and stores the
  document, which \<open>getDocuments\<close> then does not list and on which GET, PUT and DELETE
  answer 404 for every user and body, leaving the store as it is: it can never be
  read, changed or deleted through the API.
\<close>

theorem orphan_author_document_unreachable:
  assumes "getUser s (au_id user) = None"
    and "route_post_document s user (Some ins) (did, t) kv ka = (code, r, s')"
  shows "code = 200 \<and>
    (\<exists>doc. r = Some doc \<and> jm_get (documents s') did = Some doc \<and> doc \<notin> fst ` set (getDocuments s') \<and>
       route_get_document s' did = (404, None, s') \<and>
       (\<forall>u b now kv' ka'. route_put_document s' u did b now kv' ka' = (404, None, s')) \<and>
       (\<forall>u. route_delete_document s' u did = (404, None, s')))"
proof -
  obtain doc where c: "createDocument s ins (au_id user) (did, t) kv ka = (doc, s')" and "code = 200" "r = Some doc"
    using assms(2) by (auto simp: route_post_document_def split: prod.splits)
  moreover have "jm_get (documents s') did = Some doc" "d_createdBy doc = au_id user"
    using c by (auto simp: createDocument_def createDocumentVersion_def createActivity_def Let_def split: prod.splits)
  moreover have "getUser s' = getUser s"
    using getUser_createDocument [of s ins "au_id user" "(did, t)" kv ka] c by simp
  ultimately show ?thesis
    using assms(1)
    by (auto simp: in_getDocuments getDocument_def route_get_document_def route_put_document_def
        route_delete_document_def)
qed
theorem orphan_author_document_unreachable_witness:
  "\<exists>r s'. route_post_document init_storage ex_token_B (Some ex_insert) (''d1'', 1) (''v1'', 1) (''a1'', 1) =
     (200, r, s') \<and> fst (route_get_document s' ''d1'') = 404 \<and> fst (route_delete_document s' ex_token_A ''d1'') = 404"
proof -
  obtain code r s' where e: "route_post_document init_storage ex_token_B (Some ex_insert) (''d1'', 1) (''v1'', 1) (''a1'', 1) =
      (code, r, s')"
    by (metis prod_cases3)
  have g: "getUser init_storage (au_id ex_token_B) = None"
    by (simp add: ex_route_unfold)
  show ?thesis
    using orphan_author_document_unreachable [OF g e] e by auto
qed

end
