(* ===== verification/Gemini.thy ===== *)
theory Gemini
  imports Routes
begin

text \<open>
  The service functions of src/server/services/gemini.ts. Each builds a prompt from its
  arguments, makes one \<open>ai.models.generateContent\<close> request and post-processes the
  response. The generative model is a parameter \<open>gen\<close> from the request (model name,
  system instruction, response schema, contents) to what the call did
  (\<open>ai_call\<close> of Routes.thy); \<open>JSON.parse\<close> is a parameter \<open>parse\<close> returning
  \<open>None\<close> where it throws. A thrown \<open>Error\<close> is \<open>Inl\<close> with its message, a
  returned value \<open>Inr\<close>. The route handlers of Routes.thy take the outcome of the
  call as input; the lemmas here show that feeding them the outcome of \<open>gen\<close> on the
  request these functions build gives the answers of the composed code.
\<close>

section \<open>Requests\<close>

datatype response_schema = StringArray | IndexRelevanceArray

text \<open>The argument of \<open>generateContent\<close>; a response schema comes with
  \<open>responseMimeType: "application/json"\<close>.\<close>

record gen_request =
  g_model :: string
  g_systemInstruction :: "string option"
  g_responseSchema :: "response_schema option"
  g_contents :: string

definition nl :: string where
  "nl = [CHR 0x0A]"

text \<open>A JavaScript number in a template literal, for the natural numbers.\<close>

fun js_nat_str :: "nat \<Rightarrow> string" where
  "js_nat_str n = (if n < 10 then [char_of (48 + n)] else js_nat_str (n div 10) @ [char_of (48 + n mod 10)])"

declare js_nat_str.simps [simp del]

section \<open>summarizeDocument\<close>

definition summary_prompt :: "string \<Rightarrow> string \<Rightarrow> string" where
  "summary_prompt title content =
     ''Please create a concise, informative summary of the following document:'' @ nl @ nl @
     ''Title: '' @ title @ nl @ nl @
     ''Content: '' @ content @ nl @ nl @
     ''Provide a summary that captures the key points and main ideas in 2-3 sentences.''"

definition summary_request :: "string \<Rightarrow> string \<Rightarrow> gen_request" where
  "summary_request title content =
     \<lparr>g_model = ''gemini-2.5-flash'', g_systemInstruction = None, g_responseSchema = None,
      g_contents = summary_prompt title content\<rparr>"

definition summarizeDocument :: "(gen_request \<Rightarrow> ai_call) \<Rightarrow> string \<Rightarrow> string \<Rightarrow> string + string" where
  "summarizeDocument gen title content =
     (case gen (summary_request title content) of
        AiThrew \<Rightarrow> Inl ''Failed to generate document summary''
      | AiReturned t \<Rightarrow> Inr (text_or t ''Unable to generate summary''))"

section \<open>generateTags\<close>

definition tags_system_prompt :: string where
  "tags_system_prompt =
     ''You are a document tagging expert. Generate relevant tags for the given document content. '' @ nl @
     ''Return only a JSON array of 3-7 relevant tags as strings. Tags should be concise, relevant, and help with categorization.'' @ nl @
     ''Example format: ['' @ [CHR 0x22] @ ''react'' @ [CHR 0x22] @ '', '' @ [CHR 0x22] @ ''frontend'' @ [CHR 0x22] @
     '', '' @ [CHR 0x22] @ ''javascript'' @ [CHR 0x22] @ '', '' @ [CHR 0x22] @ ''tutorial'' @ [CHR 0x22] @ '']''"

definition tags_prompt :: "string \<Rightarrow> string \<Rightarrow> string" where
  "tags_prompt title content =
     ''Title: '' @ title @ nl @ nl @ ''Content: '' @ content @ nl @ nl @
     ''Generate relevant tags for this document:''"

definition tags_request :: "string \<Rightarrow> string \<Rightarrow> gen_request" where
  "tags_request title content =
     \<lparr>g_model = ''gemini-2.5-flash'', g_systemInstruction = Some tags_system_prompt,
      g_responseSchema = Some StringArray, g_contents = tags_prompt title content\<rparr>"

definition generateTags ::
  "(string \<Rightarrow> string list option) \<Rightarrow> (gen_request \<Rightarrow> ai_call) \<Rightarrow> string \<Rightarrow> string
     \<Rightarrow> string + string list" where
  "generateTags parse gen title content =
     (case gen (tags_request title content) of
        AiThrew \<Rightarrow> Inl ''Failed to generate tags''
      | AiReturned rawJson \<Rightarrow>
          (if text_or rawJson [] = [] then Inr []
           else (case parse (the rawJson) of None \<Rightarrow> Inl ''Failed to generate tags'' | Some tags \<Rightarrow> Inr tags)))"

section \<open>performSemanticSearch: the request\<close>

text \<open>One entry of the document list of the prompt, for the document at 0-based
  position \<open>index\<close>; \<open>content.substring(0, 500)\<close> is \<open>take 500\<close>.\<close>

definition search_doc_block :: "nat \<Rightarrow> document_with_user \<Rightarrow> string" where
  "search_doc_block index du =
     ''Document '' @ js_nat_str (index + 1) @ '':'' @ nl @
     ''Title: '' @ d_title (fst du) @ nl @
     ''Content: '' @ take 500 (d_content (fst du)) @ ''...'' @ nl @
     ''Summary: '' @ text_or (d_summary (fst du)) ''No summary'' @ nl @
     ''Tags: '' @ text_or (map_option (js_join '', '') (d_tags (fst du))) ''No tags'' @ nl @
     ''---''"

definition search_prompt :: "string \<Rightarrow> document_with_user list \<Rightarrow> string" where
  "search_prompt query docs =
     ''Given the search query: '' @ [CHR 0x22] @ query @ [CHR 0x22] @ nl @ nl @
     ''Analyze these documents and return a relevance score (0-100) for each document based on semantic similarity to the query. Consider not just keyword matches but conceptual relevance.'' @ nl @ nl @
     ''Documents:'' @ nl @
     js_join nl (map (\<lambda>(i, du). search_doc_block i du) (zip [0..<length docs] docs)) @ nl @ nl @
     ''Return a JSON array with the document index and relevance score:'' @ nl @
     ''Format: [{'' @ [CHR 0x22] @ ''index'' @ [CHR 0x22] @ '': 0, '' @ [CHR 0x22] @ ''relevance'' @ [CHR 0x22] @
     '': 85}, {'' @ [CHR 0x22] @ ''index'' @ [CHR 0x22] @ '': 1, '' @ [CHR 0x22] @ ''relevance'' @ [CHR 0x22] @
     '': 42}, ...]''"

definition search_request :: "string \<Rightarrow> document_with_user list \<Rightarrow> gen_request" where
  "search_request query docs =
     \<lparr>g_model = ''gemini-2.5-pro'', g_systemInstruction = None,
      g_responseSchema = Some IndexRelevanceArray, g_contents = search_prompt query docs\<rparr>"

text \<open>What the \<open>try\<close> block of \<open>performSemanticSearch\<close> gets from the call: the
  parsed array, an empty text, or a failure (the call or \<open>JSON.parse\<close> throws).\<close>

definition semantic_call ::
  "(string \<Rightarrow> (int \<times> int) list option) \<Rightarrow> (gen_request \<Rightarrow> ai_call) \<Rightarrow> string
     \<Rightarrow> document_with_user list \<Rightarrow> semantic_outcome" where
  "semantic_call parse gen query docs =
     (case gen (search_request query docs) of
        AiThrew \<Rightarrow> Failed
      | AiReturned rawJson \<Rightarrow>
          (if text_or rawJson [] = [] then EmptyText
           else (case parse (the rawJson) of None \<Rightarrow> Failed | Some results \<Rightarrow> Ranked results)))"

text \<open>The whole of \<open>performSemanticSearch\<close>: the request, then the post-processing
  of Search.thy.\<close>

definition semanticSearch ::
  "(string \<Rightarrow> (int \<times> int) list option) \<Rightarrow> (gen_request \<Rightarrow> ai_call) \<Rightarrow> string
     \<Rightarrow> document_with_user list \<Rightarrow> semantic_result" where
  "semanticSearch parse gen query docs =
     performSemanticSearch query docs (semantic_call parse gen query docs)"

section \<open>answerQuestion\<close>

definition qa_doc_block :: "document_with_user \<Rightarrow> string" where
  "qa_doc_block du =
     nl @ ''Document: '' @ d_title (fst du) @ nl @
     ''Content: '' @ d_content (fst du) @ nl @
     ''Summary: '' @ text_or (d_summary (fst du)) ''No summary'' @ nl @
     ''Author: '' @ text_or (Some (u_name (snd du))) ''Unknown'' @ nl @
     ''Tags: '' @ text_or (map_option (js_join '', '') (d_tags (fst du))) ''No tags'' @ nl @
     ''---''"

definition qa_prompt :: "string \<Rightarrow> document_with_user list \<Rightarrow> string" where
  "qa_prompt question docs =
     ''You are an AI assistant helping users find information from their team's knowledge base. '' @ nl @
     ''Use the provided documents to answer the user's question accurately and helpfully.'' @ nl @ nl @
     ''Question: '' @ question @ nl @ nl @
     ''Available Documents:'' @ nl @
     js_join nl (map qa_doc_block docs) @ nl @ nl @
     ''Instructions:'' @ nl @
     ''1. Answer the question based on the provided documents'' @ nl @
     ''2. If the information is available, provide a comprehensive answer'' @ nl @
     ''3. If information is partially available, provide what you can and indicate what's missing'' @ nl @
     ''4. If no relevant information is found, clearly state that the information is not available in the knowledge base'' @ nl @
     ''5. Always cite which document(s) you're referencing in your answer'' @ nl @
     ''6. Keep your response conversational and helpful'' @ nl @ nl @
     ''Answer:''"

definition qa_request :: "string \<Rightarrow> document_with_user list \<Rightarrow> gen_request" where
  "qa_request question docs =
     \<lparr>g_model = ''gemini-2.5-pro'', g_systemInstruction = None, g_responseSchema = None,
      g_contents = qa_prompt question docs\<rparr>"

definition answerQuestion ::
  "(gen_request \<Rightarrow> ai_call) \<Rightarrow> string \<Rightarrow> document_with_user list \<Rightarrow> string + string" where
  "answerQuestion gen question docs =
     (case gen (qa_request question docs) of
        AiThrew \<Rightarrow> Inl ''Failed to generate answer''
      | AiReturned t \<Rightarrow> Inr (text_or t ''I'm unable to provide an answer based on the available documents.''))"

section \<open>Lemmas\<close>

lemma sublist_js_join: "x \<in> set ws \<Longrightarrow> sublist x (js_join sep ws)"
proof (induction sep ws rule: js_join.induct)
  case (3 sep w v vs)
  show ?case
  proof (cases "x \<in> set (v # vs)")
    case True
    then have "sublist x (js_join sep (v # vs))"
      using 3 by simp
    then have "sublist x ((w @ sep) @ js_join sep (v # vs))"
      by (rule sublist_order.order_trans [OF _ sublist_append_leftI])
    then show ?thesis
      by simp
  next
    case False
    then have "x = w" using 3 by simp
    then show ?thesis
      by (simp add: sublist_append_rightI)
  qed
qed simp_all

lemma text_or_Some [simp]: "x \<noteq> [] \<Longrightarrow> text_or (Some x) fallback = x"
  by (simp add: text_or_def)

lemma js_nat_str_small [simp]: "n < 10 \<Longrightarrow> js_nat_str n = [char_of (48 + n)]"
  by (simp add: js_nat_str.simps)

lemma qa_doc_block_fields:
  "sublist (d_title (fst du)) (qa_doc_block du) \<and> sublist (d_content (fst du)) (qa_doc_block du)"
proof -
  define rest where "rest =
     ''Summary: '' @ text_or (d_summary (fst du)) ''No summary'' @ nl @
     ''Author: '' @ text_or (Some (u_name (snd du))) ''Unknown'' @ nl @
     ''Tags: '' @ text_or (map_option (js_join '', '') (d_tags (fst du))) ''No tags'' @ nl @ ''---''"
  have t: "qa_doc_block du = (nl @ ''Document: '') @ d_title (fst du) @ (nl @ ''Content: '' @ d_content (fst du) @ nl @ rest)"
    and c: "qa_doc_block du = (nl @ ''Document: '' @ d_title (fst du) @ nl @ ''Content: '') @ d_content (fst du) @ (nl @ rest)"
    by (simp_all add: qa_doc_block_def rest_def)
  have "sublist (d_title (fst du)) (qa_doc_block du)"
    unfolding t by (rule sublist_appendI)
  moreover have "sublist (d_content (fst du)) (qa_doc_block du)"
    unfolding c by (rule sublist_appendI)
  ultimately show ?thesis ..
qed

lemma sublist_app_left: "sublist x y \<Longrightarrow> sublist x (p @ y)"
  by (rule sublist_order.order_trans [OF _ sublist_append_leftI])

lemma qa_prompt_block: "du \<in> set docs \<Longrightarrow> sublist (qa_doc_block du) (qa_prompt question docs)"
proof -
  assume "du \<in> set docs"
  then have "sublist (qa_doc_block du) (js_join nl (map qa_doc_block docs))"
    by (intro sublist_js_join) simp
  moreover have "sublist (js_join nl (map qa_doc_block docs)) (qa_prompt question docs)"
    unfolding qa_prompt_def by (rule sublist_append_rightI | rule sublist_app_left)+
  ultimately show ?thesis
    by (rule sublist_order.order_trans)
qed

lemma search_prompt_block:
  "i < length docs \<Longrightarrow> sublist (search_doc_block i (docs ! i)) (search_prompt query docs)"
proof -
  assume "i < length docs"
  then have "(i, docs ! i) \<in> set (zip [0..<length docs] docs)"
    by (metis in_set_zip fst_conv snd_conv length_upt minus_nat.diff_0 nth_upt plus_nat.add_0)
  then have "sublist (search_doc_block i (docs ! i))
               (js_join nl (map (\<lambda>(i, du). search_doc_block i du) (zip [0..<length docs] docs)))"
    by (intro sublist_js_join) force
  moreover have "sublist (js_join nl (map (\<lambda>(i, du). search_doc_block i du) (zip [0..<length docs] docs)))
                   (search_prompt query docs)"
    unfolding search_prompt_def by (rule sublist_append_rightI | rule sublist_app_left)+
  ultimately show ?thesis
    by (rule sublist_order.order_trans)
qed

section \<open>Properties\<close>

text \<open>
  C28. \<open>POST /api/ai/qa\<close> sends the model the title and the full content of every
  document the store lists, whoever asks: the question's context is the whole knowledge
  base, not the caller's documents.
\<close>

theorem qa_request_shares_every_document:
  assumes "du \<in> set (getDocuments s)"
  shows "sublist (d_title (fst du)) (g_contents (qa_request question (getDocuments s))) \<and>
         sublist (d_content (fst du)) (g_contents (qa_request question (getDocuments s)))"
  using qa_prompt_block [OF assms, of question] qa_doc_block_fields [of du]
  by (auto simp: qa_request_def intro: sublist_order.order_trans)

theorem qa_request_shares_every_document_witness:
  "sublist ''Changes'' (g_contents (qa_request ''What changed?'' (getDocuments ex_search_store)))"
proof -
  have "hd (getDocuments ex_search_store) \<in> set (getDocuments ex_search_store)"
    and "d_content (fst (hd (getDocuments ex_search_store))) = ''Changes''"
    by code_simp+
  then show ?thesis
    using qa_request_shares_every_document [of "hd (getDocuments ex_search_store)" ex_search_store "''What changed?''"]
    by simp
qed

text \<open>
  The AI routes compose with the service functions: given non-empty inputs, the
  summary, tags and question routes answer 500 exactly when \<open>summarizeDocument\<close>,
  \<open>generateTags\<close> or \<open>answerQuestion\<close> throws, and 200 with their result otherwise;
  the question is asked over \<open>getDocuments\<close>.
\<close>


lemma ai_routes_use_services:
  assumes "title \<noteq> []" and "content \<noteq> []" and "question \<noteq> []"
  shows "route_summarize s (Some title) (Some content) (gen (summary_request title content)) =
           (case summarizeDocument gen title content of Inl _ \<Rightarrow> (500, None, s) | Inr r \<Rightarrow> (200, Some r, s)) \<and>
         route_generate_tags parse s (Some title) (Some content) (gen (tags_request title content)) =
           (case generateTags parse gen title content of Inl _ \<Rightarrow> (500, None, s) | Inr r \<Rightarrow> (200, Some r, s)) \<and>
         route_qa s (Some question) (gen (qa_request question (getDocuments s))) =
           (case answerQuestion gen question (getDocuments s) of
              Inl _ \<Rightarrow> (500, None, s) | Inr r \<Rightarrow> (200, Some r, s))"
  using assms
  by (simp add: route_summarize_def summarizeDocument_def route_generate_tags_def generateTags_def
      route_qa_def answerQuestion_def split: ai_call.split option.split)

lemma ai_routes_use_services_example:
  "route_summarize init_storage (Some ''T'') (Some ''C'') ((\<lambda>r. AiReturned None) (summary_request ''T'' ''C'')) =
     (200, Some ''Unable to generate summary'', init_storage)"
proof -
  have "summarizeDocument (\<lambda>r. AiReturned None) ''T'' ''C'' = Inr ''Unable to generate summary''"
    by (simp add: summarizeDocument_def text_or_def)
  then show ?thesis
    using ai_routes_use_services [of "''T''" "''C''" "''Q''" init_storage "\<lambda>r. AiReturned None"]
    by simp
qed

text \<open>
  The semantic-search prompt numbers the documents from 1: the document at 0-based
  position \<open>i\<close> of the list appears as \<open>Document i+1\<close> with its title, while the
  model's answer is read as a 0-based index into the same list.
\<close>

theorem search_prompt_numbers_from_one:
  assumes "i < length docs"
  shows "sublist (''Document '' @ js_nat_str (Suc i) @ '':'' @ nl @ ''Title: '' @ d_title (fst (docs ! i)))
           (g_contents (search_request query docs))"
proof -
  have "sublist (''Document '' @ js_nat_str (Suc i) @ '':'' @ nl @ ''Title: '' @ d_title (fst (docs ! i)))
          (search_doc_block i (docs ! i))"
    by (rule prefix_imp_sublist) (simp add: search_doc_block_def)
  then show ?thesis
    using search_prompt_block [OF assms, of query]
    by (auto simp: search_request_def intro: sublist_order.order_trans)
qed

theorem search_prompt_numbers_from_one_witness:
  "sublist (''Document 1:'' @ nl @ ''Title: Release Notes'')
     (g_contents (search_request ''notes'' (getDocuments ex_search_store)))"
proof -
  have "0 < length (getDocuments ex_search_store)"
    by code_simp
  moreover have "''Document '' @ js_nat_str (Suc 0) @ '':'' @ nl @ ''Title: '' @
      d_title (fst (getDocuments ex_search_store ! 0)) = ''Document 1:'' @ nl @ ''Title: Release Notes''"
    by code_simp
  ultimately show ?thesis
    using search_prompt_numbers_from_one [of 0 "getDocuments ex_search_store" "''notes''"]
    by argo
qed

text \<open>
  C31. A model that answers in the prompt's numbering loses documents: when every
  index of the parsed answer is a label \<open>Document 1\<close> to \<open>Document n\<close> of the prompt,
  the first document of a list without repetitions is never among the results, and an
  answer for the last label above relevance 30 gives a result with no document (the
  spread of \<open>documents[n]\<close>, which is undefined).
\<close>

theorem semantic_search_off_by_one:
  assumes "gen (search_request query docs) = AiReturned (Some raw)" and "raw \<noteq> []"
    and "parse raw = Some results" and "distinct docs" and "docs \<noteq> []"
    and "\<forall>(i, v)\<in>set results. 1 \<le> i \<and> i \<le> int (length docs)"
  shows "\<exists>res. semanticSearch parse gen query docs = RankedDocs res \<and>
    Some (hd docs) \<notin> fst ` set res \<and>
    ((\<exists>v. (int (length docs), v) \<in> set results \<and> 30 < v) \<longrightarrow> None \<in> fst ` set res)"
proof -
  have call: "semanticSearch parse gen query docs = RankedDocs (rank_results docs results)"
    using assms(1-3) by (simp add: semanticSearch_def semantic_call_def performSemanticSearch_def text_or_def)
  have "Some (hd docs) \<noteq> js_index docs i" if "(i, v) \<in> set results" for i v
  proof
    assume e: "Some (hd docs) = js_index docs i"
    have "1 \<le> i" "i \<le> int (length docs)" using assms(6) that by auto
    then have lt: "0 < nat i" "nat i < length docs" and "hd docs = docs ! nat i"
      using e by (auto simp: js_index_def split: if_splits)
    moreover have "hd docs = docs ! 0" using assms(5) by (simp add: hd_conv_nth)
    moreover have "docs ! 0 = docs ! nat i \<longleftrightarrow> 0 = nat i"
      using assms(4) lt by (intro nth_eq_iff_index_eq) auto
    ultimately show False using lt by simp
  qed
  then have "Some (hd docs) \<notin> fst ` set (rank_results docs results)"
    unfolding rank_results_set by force
  moreover have "None \<in> fst ` set (rank_results docs results)"
    if "(int (length docs), v) \<in> set results" "30 < v" for v
    unfolding rank_results_set using that by (force simp: js_index_def)
  ultimately show ?thesis
    using call by blast
qed

theorem semantic_search_off_by_one_witness:
  "\<exists>res. semanticSearch (\<lambda>t. Some [(1, 90)]) (\<lambda>r. AiReturned (Some ''[{...}]'')) ''release''
     (getDocuments ex_search_store) = RankedDocs res \<and>
   Some (hd (getDocuments ex_search_store)) \<notin> fst ` set res \<and> None \<in> fst ` set res"
proof -
  have len: "length (getDocuments ex_search_store) = 1"
    by code_simp
  then obtain d where d: "getDocuments ex_search_store = [d]"
    by (cases "getDocuments ex_search_store") auto
  show ?thesis
    using semantic_search_off_by_one [of "\<lambda>r. AiReturned (Some ''[{...}]'')" "''release''" "[d]"
        "''[{...}]''" "\<lambda>t. Some [(1, 90)]" "[(1, 90)]"]
    by (simp add: d)
qed

end
