(* ===== verification/Client.thy ===== *)
theory Client
  imports Gemini
begin

text \<open>
  The client logic of the React pages that computes values rather than drawing them:
  the dashboard's tag filter, sort, statistics and delete (src/unnamed/part\_001,
  \<open>Dashboard\<close>) and the document editor's conversion between the stored tag list
  and the comma-separated form field, its save and its AI buttons
  (src/client/src/pages/document-editor.tsx).
  The documents the pages see are the server's \<open>GET /api/documents\<close> answer, a
  list of \<open>document_with_user\<close>. \<open>localeCompare\<close> is a collation key
  \<open>collate\<close> into a linear order, a parameter of the model; JavaScript's
  \<open>Array.prototype.sort\<close> is stable, as \<open>sort_key\<close> is.
\<close>

section \<open>Dashboard\<close>

text \<open>\<open>Array.from(new Set(documents.flatMap(doc => doc.tags || [])))\<close>: a set keeps
  the order of first insertion.\<close>

definition allTags :: "document_with_user list \<Rightarrow> string list" where
  "allTags docs = remdups (concat (map (\<lambda>du. js_or_nil (d_tags (fst du))) docs))"

text \<open>The filter of \<open>filteredDocuments\<close>: no selected tag keeps every document,
  otherwise a document is kept when it carries one of them (\<open>doc.tags?.includes\<close>).\<close>

definition tag_filter :: "string list \<Rightarrow> document_with_user \<Rightarrow> bool" where
  "tag_filter selectedFilters du =
     (selectedFilters = [] \<or> list_ex (\<lambda>f. List.member (js_or_nil (d_tags (fst du))) f) selectedFilters)"

text \<open>The comparator of \<open>filteredDocuments\<close>: by title, by author name, or (the
  default, \<open>"recent"\<close> and any other value) by \<open>updatedAt\<close>, newest first.\<close>

definition dashboard_sort ::
  "(string \<Rightarrow> 'k::linorder) \<Rightarrow> string \<Rightarrow> document_with_user list \<Rightarrow> document_with_user list" where
  "dashboard_sort collate sortBy docs =
     (if sortBy = ''title'' then sort_key (\<lambda>du. collate (d_title (fst du))) docs
      else if sortBy = ''author'' then sort_key (\<lambda>du. collate (u_name (snd du))) docs
      else sort_key (\<lambda>du. - int (d_updatedAt (fst du))) docs)"

definition filteredDocuments ::
  "(string \<Rightarrow> 'k::linorder) \<Rightarrow> string list \<Rightarrow> string \<Rightarrow> document_with_user list
     \<Rightarrow> document_with_user list" where
  "filteredDocuments collate selectedFilters sortBy docs =
     dashboard_sort collate sortBy (filter (tag_filter selectedFilters) docs)"

record dashboard_stats =
  totalDocs :: nat
  aiSummaries :: nat
  tagsGenerated :: nat
  teamMembers :: nat

text \<open>\<open>aiSummaries\<close> counts the documents whose summary is truthy; \<open>teamMembers\<close>
  is the size of the set of author ids.\<close>

definition stats :: "document_with_user list \<Rightarrow> dashboard_stats" where
  "stats docs =
     \<lparr>totalDocs = length docs,
      aiSummaries = length (filter (\<lambda>du. js_or_null (d_summary (fst du)) \<noteq> None) docs),
      tagsGenerated = length (allTags docs),
      teamMembers = length (remdups (map (\<lambda>du. u_id (snd du)) docs))\<rparr>"

definition toggleFilter :: "string \<Rightarrow> string list \<Rightarrow> string list" where
  "toggleFilter tag prev = (if List.member prev tag then filter (\<lambda>t. t \<noteq> tag) prev else prev @ [tag])"

section \<open>Document editor\<close>

text \<open>\<open>String.prototype.trim\<close> removes white space at both ends; on the 8-bit
  characters of the model the white space characters are tab, line feed, vertical tab,
  form feed, carriage return, space and no-break space.\<close>

definition js_is_space :: "char \<Rightarrow> bool" where
  "js_is_space c = (of_char c \<in> {9, 10, 11, 12, 13, 32, 160 :: nat})"

definition js_trim :: "string \<Rightarrow> string" where
  "js_trim s = rev (dropWhile js_is_space (rev (dropWhile js_is_space s)))"

text \<open>The form state: \<open>documentFormSchema\<close> with \<open>tags\<close> an optional string.\<close>

record doc_form =
  f_title :: string
  f_content :: string
  f_summary :: string
  f_tags :: "string option"

text \<open>\<open>document.tags?.join(", ") || ""\<close>.\<close>

definition form_tags :: "string list option \<Rightarrow> string" where
  "form_tags tags = js_join '', '' (js_or_nil tags)"

text \<open>The \<open>useEffect\<close> that resets the form when the edited document has loaded.\<close>

definition form_load :: "document \<Rightarrow> doc_form" where
  "form_load d =
     \<lparr>f_title = d_title d, f_content = d_content d,
      f_summary = (case d_summary d of None \<Rightarrow> [] | Some sm \<Rightarrow> sm),
      f_tags = Some (form_tags (d_tags d))\<rparr>"

text \<open>\<open>data.tags ? data.tags.split(",").map(tag => tag.trim()).filter(Boolean) : []\<close>.\<close>

definition parse_tags :: "string option \<Rightarrow> string list" where
  "parse_tags tags =
     (case tags of
        None \<Rightarrow> []
      | Some t \<Rightarrow> if t = [] then [] else filter (\<lambda>w. w \<noteq> []) (map js_trim (js_split CHR '','' t)))"

text \<open>The payload of \<open>saveMutation\<close>, as the server's \<open>insertDocumentSchema\<close> (POST)
  and its \<open>partial()\<close> (PUT) read it.\<close>

definition form_insert :: "doc_form \<Rightarrow> insert_document" where
  "form_insert f =
     \<lparr>ins_title = f_title f, ins_content = f_content f, ins_summary = Some (f_summary f),
      ins_tags = Some (parse_tags (f_tags f))\<rparr>"

definition form_update :: "doc_form \<Rightarrow> document_update" where
  "form_update f =
     \<lparr>upd_title = Some (f_title f), upd_content = Some (f_content f),
      upd_summary = Some (Some (f_summary f)), upd_tags = Some (Some (parse_tags (f_tags f)))\<rparr>"

text \<open>\<open>saveMutation\<close>: PUT to \<open>/api/documents/:id\<close> when the route has an id, POST
  to \<open>/api/documents\<close> otherwise; the server's answer is the mutation's result.\<close>

definition editor_save ::
  "mem_storage \<Rightarrow> auth_user \<Rightarrow> uuid option \<Rightarrow> doc_form \<Rightarrow> timestamp \<Rightarrow> stamp \<Rightarrow> stamp \<Rightarrow> stamp
     \<Rightarrow> document reply" where
  "editor_save s user documentId f now k kv ka =
     (case documentId of
        Some did \<Rightarrow> route_put_document s user did (Some (form_update f)) now kv ka
      | None \<Rightarrow> route_post_document s user (Some (form_insert f)) k kv ka)"

text \<open>The editor's \<open>Generate summary\<close> button: it refuses (a thrown error shown
  as a toast) without title and content, otherwise asks \<open>POST /api/ai/summarize\<close> and
  puts the answer into the summary field.\<close>

definition editor_generate_summary ::
  "mem_storage \<Rightarrow> (gen_request \<Rightarrow> ai_call) \<Rightarrow> doc_form \<Rightarrow> doc_form" where
  "editor_generate_summary s gen f =
     (let title = f_title f; content = f_content f in
      if title = [] \<or> content = [] then f
      else (case route_summarize s (Some title) (Some content) (gen (summary_request title content)) of
              (code, r, _) \<Rightarrow> if code = 200 \<and> r \<noteq> None then f\<lparr>f_summary := the r\<rparr> else f))"

text \<open>The editor's \<open>Generate tags\<close> button: the generated tags go into the field
  joined with \<open>", "\<close>.\<close>

definition editor_generate_tags ::
  "(string \<Rightarrow> string list option) \<Rightarrow> mem_storage \<Rightarrow> (gen_request \<Rightarrow> ai_call) \<Rightarrow> doc_form \<Rightarrow> doc_form" where
  "editor_generate_tags parse s gen f =
     (let title = f_title f; content = f_content f in
      if title = [] \<or> content = [] then f
      else (case route_generate_tags parse s (Some title) (Some content) (gen (tags_request title content)) of
              (code, r, _) \<Rightarrow> if code = 200 \<and> r \<noteq> None then f\<lparr>f_tags := Some (js_join '', '' (the r))\<rparr> else f))"

text \<open>The dashboard's \<open>handleDelete\<close>: after the user confirms, \<open>DELETE
  /api/documents/:id\<close>; without confirmation no request.\<close>

definition dashboard_delete :: "bool \<Rightarrow> mem_storage \<Rightarrow> auth_user \<Rightarrow> uuid \<Rightarrow> unit reply option" where
  "dashboard_delete confirmed s user did =
     (if confirmed then Some (route_delete_document s user did) else None)"

text \<open>A dashboard entry: a document tagged \<open>react\<close> and \<open>web\<close> by the example author.\<close>

definition ex_du :: document_with_user where
  "ex_du = (\<lparr>d_id = ''d1'', d_title = ''T'', d_content = ''C'', d_summary = None,
      d_tags = Some [''react'', ''web''], d_createdBy = ''A'', d_createdAt = 1,
      d_updatedAt = 1, d_version = 1\<rparr>, ex_author)"

section \<open>Tag lists and the tags field\<close>

lemma js_split_join:
  "\<forall>w\<in>set ws. c \<notin> set w \<Longrightarrow> ws \<noteq> [] \<Longrightarrow> js_split c (js_join [c] ws) = ws"
proof (induction ws)
  case Nil
  then show ?case by simp
next
  case (Cons w ws)
  then show ?case
    by (cases ws) (simp_all add: js_split_no_sep js_split_sep)
qed

lemma js_join_append_hd: "js_join sep ((x @ w) # ws) = x @ js_join sep (w # ws)"
  by (cases ws) simp_all

lemma js_join_sep_Cons:
  "js_join (c # sep) (w # ws) = js_join [c] (w # map (\<lambda>x. sep @ x) ws)"
  by (induction ws arbitrary: w) (simp_all add: js_join_Cons js_join_append_hd)

lemma js_trim_Cons_space: "js_is_space x \<Longrightarrow> js_trim (x # w) = js_trim w"
  by (simp add: js_trim_def)

text \<open>Joining well-formed tags with \<open>", "\<close> and parsing the field gives them back.\<close>

lemma parse_tags_join:
  assumes "\<forall>t\<in>set ts. t \<noteq> [] \<and> js_trim t = t \<and> CHR '','' \<notin> set t"
  shows "parse_tags (Some (js_join '', '' ts)) = ts"
proof (cases ts)
  case Nil
  then show ?thesis by (simp add: parse_tags_def)
next
  case (Cons t0 ts0)
  have sp: "js_is_space CHR '' ''" by (simp add: js_is_space_def)
  have nc: "\<forall>w\<in>set (t0 # map (\<lambda>x. '' '' @ x) ts0). CHR '','' \<notin> set w"
    using assms Cons by auto
  have "js_join '', '' ts = js_join [CHR '',''] (t0 # map (\<lambda>x. '' '' @ x) ts0)"
    using Cons js_join_sep_Cons [of "CHR '',''" "'' ''" t0 ts0] by simp
  then have split: "js_split CHR '','' (js_join '', '' ts) = t0 # map (\<lambda>x. '' '' @ x) ts0"
    using js_split_join [OF nc] by simp
  have trim: "map js_trim (t0 # map (\<lambda>x. '' '' @ x) ts0) = ts"
    using assms Cons sp by (simp add: js_trim_Cons_space map_idI)
  have ne: "js_join '', '' ts \<noteq> []"
    using assms Cons by (cases ts0) simp_all
  show ?thesis
    using split trim ne assms by (simp add: parse_tags_def filter_id_conv)
qed

section \<open>Dashboard lemmas\<close>

lemma tag_filter_iff:
  "tag_filter fs du \<longleftrightarrow> fs = [] \<or> (\<exists>f\<in>set fs. f \<in> set (js_or_nil (d_tags (fst du))))"
  by (simp add: tag_filter_def list_ex_iff List.member_iff)

lemma mset_dashboard_sort [simp]: "mset (dashboard_sort collate sortBy docs) = mset docs"
  by (simp add: dashboard_sort_def)

lemma set_dashboard_sort [simp]: "set (dashboard_sort collate sortBy docs) = set docs"
  by (metis mset_dashboard_sort set_mset_mset)

lemma toggleFilter_flip:
  "distinct fs \<Longrightarrow> distinct (toggleFilter t fs) \<and>
     set (toggleFilter t fs) = {x. (x \<in> set fs) \<noteq> (x = t)}"
  by (auto simp: toggleFilter_def List.member_iff)

lemma fold_toggleFilter:
  "distinct fs \<Longrightarrow> distinct (fold toggleFilter ts fs) \<and>
     set (fold toggleFilter ts fs) = {x. (x \<in> set fs) \<noteq> odd (count (mset ts) x)}"
proof (induction ts arbitrary: fs)
  case Nil
  then show ?case by simp
next
  case (Cons t ts)
  have "distinct (toggleFilter t fs)" and st: "set (toggleFilter t fs) = {x. (x \<in> set fs) \<noteq> (x = t)}"
    using toggleFilter_flip [OF Cons.prems] by simp_all
  then show ?case
    using Cons.IH [of "toggleFilter t fs"] by auto
qed

lemma sorted_getDocuments: "sorted (map (\<lambda>du. - int (d_updatedAt (fst du))) (getDocuments s))"
  by (simp add: getDocuments_def)

section \<open>Editor lemmas\<close>

lemma merge_form_load:
  assumes "\<forall>t\<in>set (js_or_nil (d_tags doc)). t \<noteq> [] \<and> js_trim t = t \<and> CHR '','' \<notin> set t"
  shows "merge_update doc (form_update (form_load doc)) =
     doc\<lparr>d_summary := Some (case d_summary doc of None \<Rightarrow> [] | Some sm \<Rightarrow> sm),
         d_tags := Some (js_or_nil (d_tags doc))\<rparr>"
  using assms
  by (simp add: merge_update_def form_update_def form_load_def form_tags_def parse_tags_join)

section \<open>Properties\<close>

text \<open>
  C21. Loading a document into the editor and parsing its tags field again gives back
  its tags, when every tag is non-empty, has no white space at its ends and no comma.
\<close>

theorem editor_tags_roundtrip:
  assumes "\<forall>t\<in>set (js_or_nil (d_tags d)). t \<noteq> [] \<and> js_trim t = t \<and> CHR '','' \<notin> set t"
  shows "parse_tags (f_tags (form_load d)) = js_or_nil (d_tags d)"
  using assms by (simp add: form_load_def form_tags_def parse_tags_join)

theorem editor_tags_roundtrip_witness:
  "parse_tags (f_tags (form_load
     \<lparr>d_id = ''d1'', d_title = ''T'', d_content = ''C'', d_summary = None,
      d_tags = Some [''react'', ''web app''], d_createdBy = ''A'', d_createdAt = 1,
      d_updatedAt = 1, d_version = 1\<rparr>)) = [''react'', ''web app'']"
proof -
  have h: "\<forall>t\<in>set [''react'', ''web app'']. t \<noteq> [] \<and> js_trim t = t \<and> CHR '','' \<notin> set t"
    by code_simp
  show ?thesis
    using editor_tags_roundtrip [of "\<lparr>d_id = ''d1'', d_title = ''T'', d_content = ''C'', d_summary = None,
      d_tags = Some [''react'', ''web app''], d_createdBy = ''A'', d_createdAt = 1,
      d_updatedAt = 1, d_version = 1\<rparr>"] h
    by simp
qed

text \<open>
  The tags field does not round-trip every tag list: a tag holding a comma comes
  back as two tags, white space at the ends of a tag is trimmed away and an empty tag
  is dropped, so opening such a document in the editor and saving it changes its tags.
\<close>

lemma editor_tags_not_preserved:
  "parse_tags (f_tags (form_load
     \<lparr>d_id = ''d1'', d_title = ''T'', d_content = ''C'', d_summary = None,
      d_tags = Some [''c,c++'', '' go'', []], d_createdBy = ''A'', d_createdAt = 1,
      d_updatedAt = 1, d_version = 1\<rparr>)) = [''c'', ''c++'', ''go'']"
  by code_simp

text \<open>
  C23. Saving the editor's form unchanged (\<open>PUT\<close> with the loaded values) is a new
  version: the server answers 200 with the same title, content and tags (when they are
  well-formed), a null summary turned into the empty string, the save time as
  \<open>updatedAt\<close> and the version number one higher.
\<close>

theorem editor_resave_new_version:
  assumes get: "getDocument s did = Some (doc, author, vs)" and perm: "may_edit author user"
    and tags: "\<forall>t\<in>set (js_or_nil (d_tags doc)). t \<noteq> [] \<and> js_trim t = t \<and> CHR '','' \<notin> set t"
  shows "\<exists>s'. editor_save s user (Some did) (form_load doc) now k kv ka =
     (200, Some (doc\<lparr>d_summary := Some (case d_summary doc of None \<Rightarrow> [] | Some sm \<Rightarrow> sm),
                    d_tags := Some (js_or_nil (d_tags doc)), d_updatedAt := now,
                    d_version := Suc (d_version doc)\<rparr>), s')"
proof -
  have jm: "jm_get (documents s) did = Some doc"
    using getDocument_Some [OF get] by simp
  show ?thesis
    using get perm jm merge_form_load [OF tags]
    by (simp add: editor_save_def route_put_document_def updateDocument_def Let_def split: prod.splits)
qed

theorem editor_resave_new_version_witness:
  "\<exists>s'. editor_save ex_route_store ex_token_A (Some ''d1'')
      (form_load (fst (the (getDocument ex_route_store ''d1'')))) 9 (''k'', 9) (''v2'', 9) (''a2'', 9) =
     (200, Some ((fst (the (getDocument ex_route_store ''d1'')))\<lparr>d_summary := Some [],
        d_tags := Some [], d_updatedAt := 9, d_version := 2\<rparr>), s')"
proof -
  let ?r = "the (getDocument ex_route_store ''d1'')"
  have g: "getDocument ex_route_store ''d1'' = Some (fst ?r, fst (snd ?r), snd (snd ?r))"
    and m: "may_edit (fst (snd ?r)) ex_token_A"
    and t: "\<forall>t\<in>set (js_or_nil (d_tags (fst ?r))). t \<noteq> [] \<and> js_trim t = t \<and> CHR '','' \<notin> set t"
    and f: "d_summary (fst ?r) = None" "d_tags (fst ?r) = Some []" "d_version (fst ?r) = 1"
    by code_simp+
  show ?thesis
    using editor_resave_new_version [OF g m t, of 9 "(''k'', 9)" "(''v2'', 9)" "(''a2'', 9)"] f
    by (simp add: numeral_2_eq_2)
qed

text \<open>
  C24. The dashboard shows exactly the documents carrying one of the selected tags (all
  of them when none is selected), each as often as the server listed it; sorted by title
  or author name in collation order, and otherwise newest update first.
\<close>

theorem dashboard_filter_sort:
  "mset (filteredDocuments collate fs sortBy docs) = mset (filter (tag_filter fs) docs) \<and>
   (du \<in> set (filteredDocuments collate fs sortBy docs) \<longleftrightarrow>
      du \<in> set docs \<and> (fs = [] \<or> (\<exists>f\<in>set fs. f \<in> set (js_or_nil (d_tags (fst du)))))) \<and>
   (sortBy = ''title'' \<longrightarrow>
      sorted (map (\<lambda>du. collate (d_title (fst du))) (filteredDocuments collate fs sortBy docs))) \<and>
   (sortBy = ''author'' \<longrightarrow>
      sorted (map (\<lambda>du. collate (u_name (snd du))) (filteredDocuments collate fs sortBy docs))) \<and>
   (sortBy \<notin> {''title'', ''author''} \<longrightarrow>
      sorted (map (\<lambda>du. - int (d_updatedAt (fst du))) (filteredDocuments collate fs sortBy docs)))"
  by (simp add: filteredDocuments_def dashboard_sort_def tag_filter_iff)

theorem dashboard_filter_sort_witness:
  "(ex_du \<in> set (filteredDocuments length [''react''] ''recent'' [ex_du]) \<longleftrightarrow> True) \<and>
   sorted (map (\<lambda>du. - int (d_updatedAt (fst du))) (filteredDocuments length [''react''] ''recent'' [ex_du]))"
  using dashboard_filter_sort [of length "[''react'']" "''recent''" "[ex_du]" ex_du]
  by (simp add: ex_du_def)

text \<open>
  With no tag selected and the default sort, the dashboard keeps the order in which
  \<open>GET /api/documents\<close> lists the documents: the server already sorts them by
  \<open>updatedAt\<close>, newest first, and both sorts are stable.
\<close>

theorem dashboard_default_keeps_server_order:
  "sortBy \<notin> {''title'', ''author''} \<Longrightarrow>
   filteredDocuments collate [] sortBy (getDocuments s) = getDocuments s"
  by (simp add: filteredDocuments_def dashboard_sort_def tag_filter_def sort_key_id_if_sorted
      sorted_getDocuments)

theorem dashboard_default_keeps_server_order_witness:
  "filteredDocuments length [] ''recent'' (getDocuments ex_search_store) = getDocuments ex_search_store"
  by (rule dashboard_default_keeps_server_order) simp

text \<open>
  C26. Whatever tags the user clicks, the selected filters hold no tag twice, and a tag
  is selected exactly when it has been clicked an odd number of times.
\<close>

theorem toggle_filters_parity:
  "distinct (fold toggleFilter clicks []) \<and>
   set (fold toggleFilter clicks []) = {t. odd (count (mset clicks) t)}"
  using fold_toggleFilter [of "[]" clicks] by simp

text \<open>
  C27. The statistics cards: the number of tags is the number of distinct tags over all
  documents, the number of team members the number of distinct authors, and neither the
  summaries nor the authors outnumber the documents.
\<close>

theorem stats_counts:
  "tagsGenerated (stats docs) = card (\<Union>du\<in>set docs. set (js_or_nil (d_tags (fst du)))) \<and>
   teamMembers (stats docs) = card ((\<lambda>du. u_id (snd du)) ` set docs) \<and>
   aiSummaries (stats docs) \<le> totalDocs (stats docs) \<and>
   teamMembers (stats docs) \<le> totalDocs (stats docs)"
proof -
  have "card ((\<lambda>du. u_id (snd du)) ` set docs) \<le> length docs"
    using card_image_le [OF finite_set, of "\<lambda>du. u_id (snd du)" docs] card_length [of docs]
    by linarith
  then show ?thesis
    by (simp add: stats_def allTags_def length_remdups_card_conv)
qed

text \<open>
  C38. Tags the model generates in the editor are saved as generated when each is
  non-empty, trimmed and comma-free: the field holds them joined with \<open>", "\<close> and the
  save request parses them back.
\<close>

theorem editor_generated_tags_saved:
  assumes "f_title f \<noteq> []" and "f_content f \<noteq> []"
    and "gen (tags_request (f_title f) (f_content f)) = AiReturned (Some raw)" and "raw \<noteq> []"
    and "parse raw = Some tags"
    and "\<forall>t\<in>set tags. t \<noteq> [] \<and> js_trim t = t \<and> CHR '','' \<notin> set t"
  shows "ins_tags (form_insert (editor_generate_tags parse s gen f)) = Some tags"
  using assms
  by (simp add: editor_generate_tags_def route_generate_tags_def text_or_def form_insert_def parse_tags_join)

theorem editor_generated_tags_saved_witness:
  "ins_tags (form_insert (editor_generate_tags (\<lambda>r. Some [''react'', ''web app'']) init_storage
      (\<lambda>r. AiReturned (Some ''[...]'')) \<lparr>f_title = ''T'', f_content = ''C'', f_summary = [], f_tags = None\<rparr>)) =
   Some [''react'', ''web app'']"
proof -
  have h: "\<forall>t\<in>set [''react'', ''web app'']. t \<noteq> [] \<and> js_trim t = t \<and> CHR '','' \<notin> set t"
    by code_simp
  show ?thesis
    using editor_generated_tags_saved [of "\<lparr>f_title = ''T'', f_content = ''C'', f_summary = [], f_tags = None\<rparr>"
        "\<lambda>r. AiReturned (Some ''[...]'')" "''[...]''" "\<lambda>r. Some [''react'', ''web app'']"
        "[''react'', ''web app'']" init_storage] h
    by simp
qed

end
