(* ===== verification/Chat.thy ===== *)
theory Chat
  imports Client Gemini
begin

text \<open>
  The Q\&A page of src/client/src/pages/qa.tsx: the question field, the chat history and
  the one \<open>askQuestionMutation\<close> in flight. The page's state is the record
  \<open>qa_page\<close>; \<open>qa_pending\<close> is the question of the mutation in flight (react-query's
  \<open>isPending\<close>), during which the input and the send button are disabled. The events
  of the page are the step relation \<open>chat_step\<close>: typing, submitting, the request
  settling (with the answer of \<open>POST /api/ai/qa\<close> from Routes.thy on some store) and
  clearing the chat. \<open>Date.now()\<close> and \<open>new Date()\<close>, read in one synchronous
  callback, are one instant \<open>now\<close>.
\<close>

datatype message_type = UserMessage | AiMessage

record chat_message =
  m_id :: string
  m_type :: message_type
  m_content :: string
  m_timestamp :: timestamp

record qa_page =
  qa_question :: string
  qa_messages :: "chat_message list"
  qa_pending :: "string option"

definition qa_init :: qa_page where
  "qa_init = \<lparr>qa_question = [], qa_messages = [], qa_pending = None\<rparr>"

text \<open>\<open>handleSubmit\<close>: the trimmed question, or nothing when it is blank.\<close>

definition handleSubmit :: "qa_page \<Rightarrow> string option" where
  "handleSubmit st = (if js_trim (qa_question st) = [] then None else Some (js_trim (qa_question st)))"

text \<open>The \<open>onSuccess\<close> callback: the question and the answer are appended as a pair
  and the field is cleared.\<close>

definition ask_onSuccess :: "string \<Rightarrow> string \<Rightarrow> timestamp \<Rightarrow> qa_page \<Rightarrow> qa_page" where
  "ask_onSuccess answer question now st =
     st\<lparr>qa_messages := qa_messages st @
          [\<lparr>m_id = js_nat_str now @ ''-user'', m_type = UserMessage, m_content = question, m_timestamp = now\<rparr>,
           \<lparr>m_id = js_nat_str now @ ''-ai'', m_type = AiMessage, m_content = answer, m_timestamp = now\<rparr>],
        qa_question := []\<rparr>"

definition clearChat :: "qa_page \<Rightarrow> qa_page" where
  "clearChat st = st\<lparr>qa_messages := []\<rparr>"

text \<open>Typing into the input, which is disabled while a request is in flight.\<close>

definition qa_type :: "string \<Rightarrow> qa_page \<Rightarrow> qa_page" where
  "qa_type q st = (if qa_pending st = None then st\<lparr>qa_question := q\<rparr> else st)"

text \<open>Submitting the form: \<open>handleSubmit\<close> then \<open>mutate\<close>, unless disabled.\<close>

definition qa_submit :: "qa_page \<Rightarrow> qa_page" where
  "qa_submit st =
     (if qa_pending st \<noteq> None then st
      else (case handleSubmit st of None \<Rightarrow> st | Some q \<Rightarrow> st\<lparr>qa_pending := Some q\<rparr>))"

text \<open>The request settles: \<open>onSuccess\<close> on status 200 with the route's answer,
  \<open>onError\<close> (a toast, no change of the page's state) otherwise.\<close>

definition qa_settle :: "mem_storage \<Rightarrow> ai_call \<Rightarrow> timestamp \<Rightarrow> qa_page \<Rightarrow> qa_page" where
  "qa_settle s call now st =
     (case qa_pending st of
        None \<Rightarrow> st
      | Some q \<Rightarrow>
          (case route_qa s (Some q) call of
             (code, answer, _) \<Rightarrow>
               (if code = 200 \<and> answer \<noteq> None
                then ask_onSuccess (the answer) q now (st\<lparr>qa_pending := None\<rparr>)
                else st\<lparr>qa_pending := None\<rparr>)))"

inductive chat_step :: "qa_page \<Rightarrow> qa_page \<Rightarrow> bool" where
  type: "chat_step st (qa_type q st)"
| submit: "chat_step st (qa_submit st)"
| settle: "chat_step st (qa_settle s call now st)"
| clear: "chat_step st (clearChat st)"

inductive chat_reachable :: "qa_page \<Rightarrow> bool" where
  init: "chat_reachable qa_init"
| step: "chat_reachable st \<Longrightarrow> chat_step st st' \<Longrightarrow> chat_reachable st'"

text \<open>The history alternates question and answer, starting with a question, and every
  question shown is non-blank and trimmed; so is the question in flight.\<close>

definition chat_wf :: "chat_message list \<Rightarrow> bool" where
  "chat_wf msgs \<longleftrightarrow>
     even (length msgs) \<and>
     (\<forall>i < length msgs. m_type (msgs ! i) = (if even i then UserMessage else AiMessage)) \<and>
     (\<forall>m \<in> set msgs. m_type m = UserMessage \<longrightarrow> m_content m \<noteq> [] \<and> js_trim (m_content m) = m_content m)"

definition chat_inv :: "qa_page \<Rightarrow> bool" where
  "chat_inv st \<longleftrightarrow> chat_wf (qa_messages st) \<and>
     (case qa_pending st of None \<Rightarrow> True | Some q \<Rightarrow> q \<noteq> [] \<and> js_trim q = q)"

text \<open>An example session: the user types a padded question, sends it, and the
  model answers.\<close>

definition ex_chat :: qa_page where
  "ex_chat = qa_settle ex_search_store (AiReturned (Some ''Hello'')) 5
     (qa_submit (qa_type '' What changed? '' qa_init))"

section \<open>Trimming\<close>

lemma dropWhile_idem [simp]: "dropWhile P (dropWhile P xs) = dropWhile P xs"
  by (induction xs) auto

lemma rev_dropWhile_rev_prefix: "\<exists>zs. xs = rev (dropWhile P (rev xs)) @ zs"
  by (metis rev_append rev_rev_ident takeWhile_dropWhile_id)

lemma js_trim_idem [simp]: "js_trim (js_trim s) = js_trim s"
proof -
  define A where "A = dropWhile js_is_space s"
  define B where "B = rev (dropWhile js_is_space (rev A))"
  have trim: "js_trim s = B"
    by (simp add: js_trim_def A_def B_def)
  have front: "dropWhile js_is_space B = B"
  proof (cases B)
    case (Cons b bs)
    obtain zs where "A = B @ zs"
      using rev_dropWhile_rev_prefix [of A js_is_space] B_def by blast
    then have "A \<noteq> []" and "hd A = b"
      using Cons by simp_all
    then have "\<not> js_is_space b"
      using hd_dropWhile [of js_is_space s] A_def by simp
    then show ?thesis
      using Cons by simp
  qed simp
  have "js_trim B = rev (dropWhile js_is_space (rev B))"
    by (simp add: js_trim_def front)
  also have "\<dots> = B"
    by (simp add: B_def)
  finally show ?thesis
    by (simp add: trim)
qed

section \<open>The chat invariant\<close>

lemma chat_wf_Nil [simp]: "chat_wf []"
  by (simp add: chat_wf_def)

lemma chat_wf_snoc_pair:
  assumes "chat_wf msgs" and "m_type mu = UserMessage" and "m_type ma = AiMessage"
    and "m_content mu \<noteq> []" and "js_trim (m_content mu) = m_content mu"
  shows "chat_wf (msgs @ [mu, ma])"
proof -
  have ev: "even (length msgs)"
    using assms(1) by (simp add: chat_wf_def)
  have "\<forall>i < length (msgs @ [mu, ma]).
          m_type ((msgs @ [mu, ma]) ! i) = (if even i then UserMessage else AiMessage)"
  proof (intro allI impI)
    fix i assume i: "i < length (msgs @ [mu, ma])"
    consider "i < length msgs" | "i = length msgs" | "i = Suc (length msgs)"
      using i by fastforce
    then show "m_type ((msgs @ [mu, ma]) ! i) = (if even i then UserMessage else AiMessage)"
      using assms ev by cases (auto simp: chat_wf_def nth_append)
  qed
  then show ?thesis
    using assms ev by (auto simp: chat_wf_def)
qed

lemma ask_onSuccess_inv:
  "chat_wf (qa_messages st) \<Longrightarrow> q \<noteq> [] \<Longrightarrow> js_trim q = q \<Longrightarrow>
   chat_inv (ask_onSuccess answer q now (st\<lparr>qa_pending := None\<rparr>))"
  by (simp add: chat_inv_def ask_onSuccess_def chat_wf_snoc_pair)

lemma chat_step_inv: "chat_step st st' \<Longrightarrow> chat_inv st \<Longrightarrow> chat_inv st'"
proof (induction rule: chat_step.induct)
  case (type st q)
  then show ?case by (simp add: qa_type_def chat_inv_def)
next
  case (submit st)
  then show ?case
    by (auto simp: qa_submit_def handleSubmit_def chat_inv_def split: option.splits)
next
  case (settle st s call now)
  show ?case
  proof (cases "qa_pending st")
    case None
    then show ?thesis using settle by (simp add: qa_settle_def)
  next
    case (Some q)
    obtain code answer s' where r: "route_qa s (Some q) call = (code, answer, s')"
      by (cases "route_qa s (Some q) call") auto
    have "chat_wf (qa_messages st)" and "q \<noteq> []" and "js_trim q = q"
      using settle Some by (simp_all add: chat_inv_def)
    then show ?thesis
      using Some r ask_onSuccess_inv [of st q]
      by (simp add: qa_settle_def chat_inv_def)
  qed
next
  case (clear st)
  then show ?case by (simp add: clearChat_def chat_inv_def)
qed

lemma chat_reachable_inv: "chat_reachable st \<Longrightarrow> chat_inv st"
proof (induction rule: chat_reachable.induct)
  case init
  then show ?case by (simp add: chat_inv_def qa_init_def)
next
  case (step st st')
  then show ?case using chat_step_inv by blast
qed

lemma ex_chat_reachable: "chat_reachable ex_chat"
proof -
  have "chat_reachable (qa_type '' What changed? '' qa_init)"
    by (rule chat_reachable.step [OF chat_reachable.init chat_step.type])
  then have "chat_reachable (qa_submit (qa_type '' What changed? '' qa_init))"
    by (rule chat_reachable.step [OF _ chat_step.submit])
  then show ?thesis
    unfolding ex_chat_def by (rule chat_reachable.step [OF _ chat_step.settle])
qed

section \<open>Properties\<close>

text \<open>
  C32. In every state the Q\&A page reaches, the chat history alternates question and
  answer, starting with a question and ending with an answer, and every question shown
  is non-blank and has no white space at its ends.
\<close>

theorem chat_history_alternates:
  assumes "chat_reachable st"
  shows "even (length (qa_messages st)) \<and>
         (\<forall>i < length (qa_messages st).
            m_type (qa_messages st ! i) = (if even i then UserMessage else AiMessage)) \<and>
         (\<forall>m \<in> set (qa_messages st). m_type m = UserMessage \<longrightarrow>
            m_content m \<noteq> [] \<and> js_trim (m_content m) = m_content m)"
  using chat_reachable_inv [OF assms] by (simp add: chat_inv_def chat_wf_def)

theorem chat_history_alternates_witness:
  "even (length (qa_messages ex_chat)) \<and>
   m_type (qa_messages ex_chat ! 0) = UserMessage \<and> m_type (qa_messages ex_chat ! 1) = AiMessage \<and>
   m_content (qa_messages ex_chat ! 0) \<noteq> []"
proof -
  have l: "length (qa_messages ex_chat) = 2"
    by code_simp
  note h = chat_history_alternates [OF ex_chat_reachable]
  have ev: "even (length (qa_messages ex_chat))"
    using h by simp
  have t0: "m_type (qa_messages ex_chat ! 0) = UserMessage"
    using conjunct1 [OF conjunct2 [OF h], rule_format, of 0] l by simp
  have t1: "m_type (qa_messages ex_chat ! 1) = AiMessage"
    using conjunct1 [OF conjunct2 [OF h], rule_format, of 1] l by simp
  have "qa_messages ex_chat ! 0 \<in> set (qa_messages ex_chat)"
    using l by simp
  then have "m_content (qa_messages ex_chat ! 0) \<noteq> []"
    using conjunct2 [OF conjunct2 [OF h]] t0 by blast
  with ev t0 t1 show ?thesis
    by simp
qed

text \<open>
  C33. When the request in flight settles: if the model call throws the route answers
  500 and the page keeps its history and the typed question; otherwise the trimmed
  question and the answer (or the route's fallback text) are appended and the field is
  cleared. Either way the page is ready for the next question.
\<close>

theorem qa_settle_outcomes:
  assumes "qa_pending st = Some q" and "q \<noteq> []"
  shows "qa_messages (qa_settle s AiThrew now st) = qa_messages st \<and>
         qa_question (qa_settle s AiThrew now st) = qa_question st \<and>
         qa_pending (qa_settle s AiThrew now st) = None \<and>
         map m_content (qa_messages (qa_settle s (AiReturned t) now st)) =
           map m_content (qa_messages st) @
             [q, text_or t ''I'm unable to provide an answer based on the available documents.''] \<and>
         qa_question (qa_settle s (AiReturned t) now st) = [] \<and>
         qa_pending (qa_settle s (AiReturned t) now st) = None"
  using assms by (simp add: qa_settle_def route_qa_def text_or_def ask_onSuccess_def)

theorem qa_settle_outcomes_witness:
  "map m_content (qa_messages ex_chat) = [''What changed?'', ''Hello'']"
proof -
  have p: "qa_pending (qa_submit (qa_type '' What changed? '' qa_init)) = Some ''What changed?''"
    and m: "qa_messages (qa_submit (qa_type '' What changed? '' qa_init)) = []"
    by code_simp+
  show ?thesis
    using qa_settle_outcomes [OF p, of ex_search_store 5 "Some ''Hello''"] m
    by (simp add: ex_chat_def text_or_def)
qed

text \<open>
  The Q\&A page never gets stuck: however the request in flight settles (any store,
  any outcome of the model call), the input is enabled again afterwards, and from every
  state a sequence of page events (settle, clear, empty the field) leads back to the
  initial state.
\<close>

lemma chat_always_recovers:
  "qa_pending (qa_settle s call now st) = None \<and> chat_step\<^sup>*\<^sup>* st qa_init"
proof -
  let ?st1 = "qa_settle s call now st"
  have free: "qa_pending ?st1 = None"
    by (auto simp: qa_settle_def ask_onSuccess_def split: option.splits prod.splits)
  have "chat_step st ?st1"
    by (rule chat_step.settle)
  moreover have "chat_step ?st1 (clearChat ?st1)"
    by (rule chat_step.clear)
  moreover have "chat_step (clearChat ?st1) (qa_type [] (clearChat ?st1))"
    by (rule chat_step.type)
  moreover have "qa_type [] (clearChat ?st1) = qa_init"
    using free by (simp add: qa_type_def clearChat_def qa_init_def)
  ultimately have "chat_step\<^sup>*\<^sup>* st qa_init"
    by (metis converse_rtranclp_into_rtranclp rtranclp.rtrancl_refl)
  with free show ?thesis ..
qed

end
