(* ===== verification/Pages.thy ===== *)
theory Pages
  imports Client Gemini
begin

text \<open>
  The remaining client logic that computes values: the document card
  (src/unnamed/part\_002, \<open>DocumentCard\<close>: who may edit, the AI buttons and the
  react-query cache they patch, the preview and date texts), the sidebar
  (\<open>Sidebar\<close>: initials, active link, recent activity), the search page
  (src/client/src/pages/search.tsx, \<open>handleSearch\<close>, its query and
  \<open>highlightText\<close>), the router (src/client/src/App.tsx) and the session hook
  \<open>useUser\<close> (src/client/src/hooks/use-auth.ts). The cache of \<open>["/api/documents"]\<close> is an optional list
  (\<open>undefined\<close> before the first fetch). \<open>toUpperCase\<close> is modelled on ASCII
  letters, as \<open>toLowerCase\<close> in Search.thy. Path matching is the router library's
  (wouter) and is a parameter \<open>matches\<close> of the model.
\<close>

section \<open>Document card\<close>

definition canEdit :: "document_with_user \<Rightarrow> auth_user \<Rightarrow> bool" where
  "canEdit du currentUser \<longleftrightarrow> u_id (snd du) = au_id currentUser \<or> au_role currentUser = ''admin''"

text \<open>The \<open>setQueryData\<close> updates of the two AI buttons: the card's document in the
  cached list gets the generated summary or tags.\<close>

definition set_cached_summary ::
  "uuid \<Rightarrow> string \<Rightarrow> document_with_user list option \<Rightarrow> document_with_user list option" where
  "set_cached_summary did summary old =
     map_option (map (\<lambda>du. if d_id (fst du) = did then (fst du\<lparr>d_summary := Some summary\<rparr>, snd du) else du)) old"

definition set_cached_tags ::
  "uuid \<Rightarrow> string list \<Rightarrow> document_with_user list option \<Rightarrow> document_with_user list option" where
  "set_cached_tags did tags old =
     map_option (map (\<lambda>du. if d_id (fst du) = did then (fst du\<lparr>d_tags := Some tags\<rparr>, snd du) else du)) old"

text \<open>The card's \<open>AI Summary\<close> button: \<open>POST /api/ai/summarize\<close> with the card's title
  and content (answered by Routes.thy and Gemini.thy), then the cache update on
  success; on an error only a toast is shown.\<close>

definition card_generate_summary ::
  "mem_storage \<Rightarrow> (gen_request \<Rightarrow> ai_call) \<Rightarrow> document_with_user \<Rightarrow> document_with_user list option
     \<Rightarrow> document_with_user list option \<times> mem_storage" where
  "card_generate_summary s gen du cache =
     (let title = d_title (fst du); content = d_content (fst du) in
      case route_summarize s (Some title) (Some content) (gen (summary_request title content)) of
        (code, r, s') \<Rightarrow>
          (if code = 200 \<and> r \<noteq> None then (set_cached_summary (d_id (fst du)) (the r) cache, s')
           else (cache, s')))"

definition card_generate_tags ::
  "(string \<Rightarrow> string list option) \<Rightarrow> mem_storage \<Rightarrow> (gen_request \<Rightarrow> ai_call) \<Rightarrow> document_with_user
     \<Rightarrow> document_with_user list option \<Rightarrow> document_with_user list option \<times> mem_storage" where
  "card_generate_tags parse s gen du cache =
     (let title = d_title (fst du); content = d_content (fst du) in
      case route_generate_tags parse s (Some title) (Some content) (gen (tags_request title content)) of
        (code, r, s') \<Rightarrow>
          (if code = 200 \<and> r \<noteq> None then (set_cached_tags (d_id (fst du)) (the r) cache, s')
           else (cache, s')))"

text \<open>\<open>document.summary || document.content.substring(0, 150) + "..."\<close>.\<close>

definition card_preview :: "document_with_user \<Rightarrow> string" where
  "card_preview du =
     (case js_or_null (d_summary (fst du)) of
        Some sm \<Rightarrow> sm
      | None \<Rightarrow> take 150 (d_content (fst du)) @ ''...'')"

text \<open>The tag badges: the first three tags, and \<open>+n more\<close> beyond three.\<close>

definition card_tags :: "document_with_user \<Rightarrow> string list \<times> nat option" where
  "card_tags du =
     (let tags = js_or_nil (d_tags (fst du)) in
      (take 3 tags, if 3 < length tags then Some (length tags - 3) else None))"

text \<open>The card's \<open>formatDate\<close>, with times in milliseconds; beyond four weeks the
  text is the locale's date format, a parameter.\<close>

definition card_formatDate :: "(timestamp \<Rightarrow> string) \<Rightarrow> timestamp \<Rightarrow> timestamp \<Rightarrow> string" where
  "card_formatDate localeDate now date =
     (let diffTime = nat \<bar>int now - int date\<bar>;
          diffDays = (diffTime + (1000 * 60 * 60 * 24 - 1)) div (1000 * 60 * 60 * 24)
      in if diffDays = 1 then ''1 day ago''
         else if diffDays < 7 then js_nat_str diffDays @ '' days ago''
         else if diffDays < 30
         then js_nat_str (diffDays div 7) @ '' week'' @ (if 1 < diffDays div 7 then ''s'' else []) @ '' ago''
         else localeDate date)"

section \<open>Sidebar\<close>

definition js_upper_char :: "char \<Rightarrow> char" where
  "js_upper_char c = (let n = of_char c :: nat in if 97 \<le> n \<and> n \<le> 122 then char_of (n - 32) else c)"

definition js_upper :: "string \<Rightarrow> string" where
  "js_upper s = map js_upper_char s"

text \<open>\<open>name.split(" ").map(n => n[0]).join("").toUpperCase()\<close>: \<open>n[0]\<close> of an
  empty piece is \<open>undefined\<close>, which \<open>join\<close> writes as the empty string.\<close>

definition getInitials :: "string \<Rightarrow> string" where
  "getInitials name = js_upper (concat (map (take 1) (js_split CHR '' '' name)))"

definition isActive :: "string \<Rightarrow> string \<Rightarrow> bool" where
  "isActive location path \<longleftrightarrow>
     (path = ''/'' \<and> location = ''/'') \<or> (path \<noteq> ''/'' \<and> prefix path location)"

text \<open>The team activity feed: the first five of \<open>GET /api/activities\<close>.\<close>

definition sidebar_activities :: "mem_storage \<Rightarrow> (activity \<times> user \<times> document option) list" where
  "sidebar_activities s = take 5 (case fst (snd (route_activities s)) of None \<Rightarrow> [] | Some acts \<Rightarrow> acts)"

text \<open>The serialised \<open>type\<close> column of an activity.\<close>

definition activity_type_text :: "activity_type \<Rightarrow> string" where
  "activity_type_text t = (case t of Created \<Rightarrow> ''created'' | Updated \<Rightarrow> ''updated'' | Deleted \<Rightarrow> ''deleted'')"

text \<open>One line of the feed:
  \<open>{activity.user.name} {activity.type} "{activity.document?.title || 'a document'}"\<close>.\<close>

definition activity_line :: "activity \<times> user \<times> document option \<Rightarrow> string" where
  "activity_line x =
     (case x of (a, u, d) \<Rightarrow>
        u_name u @ '' '' @ activity_type_text (a_type a) @ '' '' @
        [CHR 0x22] @ text_or (map_option d_title d) ''a document'' @ [CHR 0x22])"

definition sidebar_feed :: "mem_storage \<Rightarrow> string list" where
  "sidebar_feed s = map activity_line (sidebar_activities s)"

section \<open>Version history\<close>

text \<open>\<open>VersionHistoryModal\<close> reads \<open>version.createdBy?.name\<close>. In the JSON of a
  version row \<open>createdBy\<close> is the editor's id, a string, whose \<open>name\<close> is
  \<open>undefined\<close>; a document's \<open>createdBy\<close>, in contrast, is the author's record.\<close>

datatype created_by = CreatedByUser user | CreatedById uuid

definition created_by_name :: "created_by \<Rightarrow> string option" where
  "created_by_name c = (case c of CreatedByUser u \<Rightarrow> Some (u_name u) | CreatedById _ \<Rightarrow> None)"

text \<open>A row of the modal: \<open>changeDescription || `Version ${version}`\<close>, and the
  author shown, \<open>createdBy?.name || "Unknown"\<close>.\<close>

definition version_label :: "document_version \<Rightarrow> string \<times> string" where
  "version_label v =
     (text_or (v_changeDescription v) (''Version '' @ js_nat_str (v_version v)),
      text_or (created_by_name (CreatedById (v_createdBy v))) ''Unknown'')"

text \<open>The rows the modal lists: \<open>GET /api/documents/:id/versions\<close>, in its order.
  Restoring a version is a stub that only logs.\<close>

definition version_history :: "mem_storage \<Rightarrow> uuid \<Rightarrow> (string \<times> string) list" where
  "version_history s did =
     map version_label (case fst (snd (route_get_versions s did)) of None \<Rightarrow> [] | Some vs \<Rightarrow> vs)"

section \<open>Search page\<close>

text \<open>\<open>handleSearch\<close> and the \<open>queryFn\<close> it triggers: nothing happens for a blank
  query; otherwise \<open>GET /api/search\<close> is sent with the query as typed.\<close>

definition handleSearch ::
  "mem_storage \<Rightarrow> string \<Rightarrow> string \<Rightarrow> semantic_outcome \<Rightarrow> search_reply reply option" where
  "handleSearch s query searchType outcome =
     (if js_trim query = [] then None else Some (route_search s (Some query) searchType outcome))"

section \<open>Router\<close>

datatype page =
  Spinner | RegisterPage | LoginPage | DashboardPage | SearchPage | EditorPage | QAPage
| SupportPage | NotFoundPage

text \<open>\<open>Switch\<close>: the first route whose pattern matches the location, else the
  fallback route.\<close>

definition switch :: "(string \<Rightarrow> string \<Rightarrow> bool) \<Rightarrow> (string \<times> page) list \<Rightarrow> page \<Rightarrow> string \<Rightarrow> page" where
  "switch matches routes fallback location =
     (case find (\<lambda>r. matches (fst r) location) routes of Some r \<Rightarrow> snd r | None \<Rightarrow> fallback)"

definition app_routes :: "(string \<times> page) list" where
  "app_routes =
     [(''/'', DashboardPage), (''/dashboard'', DashboardPage), (''/search'', SearchPage),
      (''/document/new'', EditorPage), (''/document/edit/:id'', EditorPage), (''/qa'', QAPage),
      (''/support'', SupportPage)]"

definition router :: "(string \<Rightarrow> string \<Rightarrow> bool) \<Rightarrow> bool \<Rightarrow> auth_user option \<Rightarrow> string \<Rightarrow> page" where
  "router matches isLoading user location =
     (if isLoading then Spinner
      else if user = None then switch matches [(''/register'', RegisterPage)] LoginPage location
      else switch matches app_routes NotFoundPage location)"

section \<open>Session hook\<close>

text \<open>\<open>useUser\<close> (src/client/src/hooks/use-auth.ts): a query of \<open>GET /api/auth/me\<close>,
  enabled only with a truthy token, whose data starts as the signed-in user. The request
  carries the header \<open>Bearer <token>\<close> (set by \<open>apiRequest\<close>); on an error answer
  react-query keeps the data it had.\<close>

definition useUser :: "(string \<Rightarrow> auth_user option) \<Rightarrow> string option \<Rightarrow> auth_user option \<Rightarrow> auth_user option" where
  "useUser verify token user =
     (case token of
        None \<Rightarrow> user
      | Some t \<Rightarrow>
          if t = [] then user
          else (case authenticateToken verify (Some (''Bearer '' @ t)) of
                  AuthOk u \<Rightarrow> fst (snd (route_me init_storage u))
                | AuthFail _ \<Rightarrow> user))"

section \<open>Lemmas\<close>

lemma switch_cases: "switch matches routes fallback location \<in> insert fallback (snd ` set routes)"
proof (cases "find (\<lambda>r. matches (fst r) location) routes")
  case (Some r)
  then have "r \<in> set routes"
    by (auto simp: find_Some_iff)
  then show ?thesis
    using Some by (simp add: switch_def)
qed (simp add: switch_def)

lemma canEdit_may_edit: "canEdit (doc, author) u \<longleftrightarrow> may_edit author u"
  by (auto simp: canEdit_def may_edit_def)

text \<open>With a token the server accepts, the hook's user is the token's payload.\<close>

lemma useUser_token:
  "t \<noteq> [] \<Longrightarrow> CHR '' '' \<notin> set t \<Longrightarrow> verify t = Some p \<Longrightarrow> useUser verify (Some t) user = Some p"
proof -
  assume "t \<noteq> []" and "CHR '' '' \<notin> set t" and "verify t = Some p"
  then have "authenticateToken verify (Some (''Bearer '' @ t)) = AuthOk p"
    using authenticate_bearer_word [of t verify] by simp
  then show ?thesis
    using \<open>t \<noteq> []\<close> unfolding useUser_def by (simp add: route_me_def)
qed

text \<open>The modal names no editor: every row shows the author \<open>Unknown\<close>, because
  the version rows carry the editor's id where the modal expects a user record.\<close>

lemma version_history_authors_unknown:
  "map snd (version_history s did) = replicate (length (version_history s did)) ''Unknown''"
  by (simp add: version_history_def version_label_def created_by_name_def text_or_def
      map_replicate_const comp_def)

lemma version_history_example:
  "version_history ex_s2 ''d1'' =
     [(''Document updated'', ''Unknown''), (''Initial version'', ''Unknown'')]"
  by code_simp

lemma sidebar_feed_example:
  "sidebar_feed ex_search_store = [''Ann created '' @ [CHR 0x22] @ ''Release Notes'' @ [CHR 0x22]]"
  by code_simp

section \<open>Properties\<close>

text \<open>
  C34. The card offers Edit and Delete exactly when the server would let the user
  through: for a stored document, \<open>canEdit\<close> holds if and only if \<open>PUT\<close> and
  \<open>DELETE\<close> on it do not answer 403.
\<close>

theorem card_edit_agrees_with_server:
  assumes "getDocument s did = Some (doc, author, vs)"
  shows "(canEdit (doc, author) u \<longleftrightarrow> fst (route_put_document s u did body now kv ka) \<noteq> 403) \<and>
         (canEdit (doc, author) u \<longleftrightarrow> fst (route_delete_document s u did) \<noteq> 403)"
  using assms
  by (auto simp: canEdit_may_edit route_put_document_def route_delete_document_def Let_def
      split: option.splits prod.splits)

theorem card_edit_agrees_with_server_witness:
  "\<not> canEdit (fst (the (getDocument ex_route_store ''d1'')), fst (snd (the (getDocument ex_route_store ''d1'')))) ex_token_B \<and>
   fst (route_delete_document ex_route_store ex_token_B ''d1'') = 403"
proof -
  have g: "getDocument ex_route_store ''d1'' =
     Some (fst (the (getDocument ex_route_store ''d1'')), fst (snd (the (getDocument ex_route_store ''d1''))),
           snd (snd (the (getDocument ex_route_store ''d1''))))"
    by code_simp
  have "\<not> canEdit (fst (the (getDocument ex_route_store ''d1'')), fst (snd (the (getDocument ex_route_store ''d1'')))) ex_token_B"
    by code_simp
  then show ?thesis
    using card_edit_agrees_with_server [OF g, of ex_token_B] by simp
qed

text \<open>
  C35. The card's AI summary is not saved: when the model returns a summary for a
  listed document whose summary differs, the button changes the cached document list
  and leaves the store as it is. The cache keeps the same documents in the same order,
  each with its author; the card's document shows the new summary and the others are
  unchanged. The cache then differs from the list that the next
  \<open>GET /api/documents\<close> returns, which is still \<open>getDocuments\<close> of the unchanged store.
\<close>

theorem card_summary_not_persisted:
  assumes "du \<in> set (getDocuments s)" and "d_summary (fst du) \<noteq> Some t"
    and "d_title (fst du) \<noteq> []" and "d_content (fst du) \<noteq> []"
    and "gen (summary_request (d_title (fst du)) (d_content (fst du))) = AiReturned (Some t)" and "t \<noteq> []"
  shows "\<exists>ds'. card_generate_summary s gen du (Some (getDocuments s)) = (Some ds', s) \<and>
    map (\<lambda>x. (d_id (fst x), snd x)) ds' = map (\<lambda>x. (d_id (fst x), snd x)) (getDocuments s) \<and>
    (\<forall>x\<in>set ds'. d_id (fst x) = d_id (fst du) \<longrightarrow> d_summary (fst x) = Some t) \<and>
    (\<forall>x\<in>set ds'. d_id (fst x) \<noteq> d_id (fst du) \<longrightarrow> x \<in> set (getDocuments s)) \<and>
    ds' \<noteq> getDocuments s"
proof -
  define f where "f = (\<lambda>x::document_with_user. if d_id (fst x) = d_id (fst du)
                          then (fst x\<lparr>d_summary := Some t\<rparr>, snd x) else x)"
  have eq: "card_generate_summary s gen du (Some (getDocuments s)) = (Some (map f (getDocuments s)), s)"
    using assms(3-6) by (simp add: card_generate_summary_def route_summarize_def set_cached_summary_def f_def)
  have "d_summary (fst (f du)) = Some t"
    by (simp add: f_def)
  then have "f du \<noteq> du"
    using assms(2) by metis
  then have "map f (getDocuments s) \<noteq> getDocuments s"
    using assms(1) map_eq_self_iff by metis
  moreover have "map (\<lambda>x. (d_id (fst x), snd x)) (map f (getDocuments s)) = map (\<lambda>x. (d_id (fst x), snd x)) (getDocuments s)"
    by (simp add: f_def)
  moreover have "\<forall>x\<in>set (map f (getDocuments s)). d_id (fst x) = d_id (fst du) \<longrightarrow> d_summary (fst x) = Some t"
    by (auto simp: f_def)
  moreover have "\<forall>x\<in>set (map f (getDocuments s)). d_id (fst x) \<noteq> d_id (fst du) \<longrightarrow> x \<in> set (getDocuments s)"
    by (auto simp: f_def)
  ultimately show ?thesis
    using eq by blast
qed

theorem card_summary_not_persisted_witness:
  "\<exists>ds'. card_generate_summary ex_search_store (\<lambda>r. AiReturned (Some ''Short'')) (hd (getDocuments ex_search_store))
      (Some (getDocuments ex_search_store)) = (Some ds', ex_search_store) \<and> ds' \<noteq> getDocuments ex_search_store"
proof -
  have "hd (getDocuments ex_search_store) \<in> set (getDocuments ex_search_store)"
    and "d_summary (fst (hd (getDocuments ex_search_store))) \<noteq> Some ''Short''"
    and "d_title (fst (hd (getDocuments ex_search_store))) \<noteq> []"
    and "d_content (fst (hd (getDocuments ex_search_store))) \<noteq> []"
    by code_simp+
  then show ?thesis
    using card_summary_not_persisted [of "hd (getDocuments ex_search_store)" ex_search_store "''Short''"
        "\<lambda>r. AiReturned (Some ''Short'')"]
    by auto
qed

text \<open>
  The search page checks the trimmed query but sends the query as typed: a
  leading space makes the literal search for the tag \<open>beta\<close> find nothing, while
  \<open>beta\<close> finds the document.
\<close>

lemma search_page_sends_untrimmed_query:
  "handleSearch ex_search_store '' beta'' ''text'' Failed =
     Some (200, Some (LiteralResults []), ex_search_store) \<and>
   handleSearch ex_search_store ''beta'' ''text'' Failed =
     Some (200, Some (LiteralResults (getDocuments ex_search_store)), ex_search_store) \<and>
   getDocuments ex_search_store \<noteq> []"
  by code_simp

text \<open>
  C37. Whatever the path matching, a signed-out visitor only ever sees the register or
  the login page, a signed-in user never sees either, and while the session loads
  only the spinner is shown.
\<close>

theorem router_separates_signed_in:
  "router matches False None location \<in> {RegisterPage, LoginPage} \<and>
   router matches False (Some u) location \<notin> {RegisterPage, LoginPage, Spinner} \<and>
   router matches True user location = Spinner"
  using switch_cases [of matches "[(''/register'', RegisterPage)]" LoginPage location]
    switch_cases [of matches app_routes NotFoundPage location]
  by (auto simp: router_def app_routes_def)

end
