(* ===== verification/ChatView.thy ===== *)
theory ChatView
  imports Chat Pages
begin

text \<open>
  What the Q\&A page (src/client/src/pages/qa.tsx, \<open>QAPage\<close>) renders from its state
  of Chat.thy: the clear button, the knowledge-base card fed by the query of
  \<open>GET /api/documents\<close>, the welcome screen or the message bubbles, the thinking
  indicator and the disabled input and send button. \<open>toLocaleTimeString\<close> is the
  parameter \<open>formatTime\<close>; the signed-in user is \<open>user\<close> of the auth context.
\<close>

section \<open>The documents query\<close>

text \<open>\<open>useQuery(["/api/documents"])\<close>, enabled by a truthy token, with
  \<open>data: documents = []\<close>: the list of \<open>GET /api/documents\<close> when the token
  authenticates, else nothing.\<close>

definition qa_documents ::
  "(string \<Rightarrow> auth_user option) \<Rightarrow> string option \<Rightarrow> mem_storage \<Rightarrow> document_with_user list" where
  "qa_documents verify token s =
     (case token of
        None \<Rightarrow> []
      | Some t \<Rightarrow>
          if t = [] then []
          else (case authenticateToken verify (Some (''Bearer '' @ t)) of
                  AuthOk u \<Rightarrow> (case fst (snd (route_get_documents s)) of None \<Rightarrow> [] | Some ds \<Rightarrow> ds)
                | AuthFail _ \<Rightarrow> []))"

section \<open>Messages\<close>

text \<open>A bubble: a question with the avatar's initials, the name, the time and the text,
  or an answer with its time and its paragraphs (\<open>content.split('\n')\<close>).\<close>

datatype msg_view =
  UserBubble string string string string
| AiBubble string "string list"

text \<open>\<open>user?.name || "You"\<close>.\<close>

definition user_label :: "auth_user option \<Rightarrow> string" where
  "user_label user = (case user of None \<Rightarrow> ''You'' | Some u \<Rightarrow> if au_name u = [] then ''You'' else au_name u)"

definition message_view :: "(timestamp \<Rightarrow> string) \<Rightarrow> auth_user option \<Rightarrow> chat_message \<Rightarrow> msg_view" where
  "message_view formatTime user m =
     (if m_type m = UserMessage
      then UserBubble (getInitials (user_label user)) (user_label user) (formatTime (m_timestamp m)) (m_content m)
      else AiBubble (formatTime (m_timestamp m)) (js_split (CHR 0x0A) (m_content m)))"

section \<open>The page\<close>

text \<open>\<open>I have access to {n} document{s} in your knowledge base.\<close>\<close>

definition kb_ready_text :: "nat \<Rightarrow> string" where
  "kb_ready_text n =
     ''I have access to '' @ js_nat_str n @ '' document'' @ (if n \<noteq> 1 then ''s'' else []) @
     '' in your knowledge base.''"

record qa_view =
  qv_clear_button :: bool
  qv_kb_card :: "string option"
  qv_messages :: "msg_view list option"
  qv_thinking :: bool
  qv_input_disabled :: bool
  qv_send_disabled :: bool

text \<open>The page: the clear button when there are messages; the knowledge-base card
  when there are documents and no messages; the welcome screen (\<open>None\<close>) or the
  bubbles, followed by the thinking indicator while the request is pending (inside the
  branch of a non-empty history); the input disabled while pending, the send button
  also for a blank question.\<close>

definition qa_render ::
  "(timestamp \<Rightarrow> string) \<Rightarrow> auth_user option \<Rightarrow> document_with_user list \<Rightarrow> qa_page \<Rightarrow> qa_view" where
  "qa_render formatTime user docs st =
     \<lparr>qv_clear_button = (qa_messages st \<noteq> []),
      qv_kb_card = (if docs \<noteq> [] \<and> qa_messages st = [] then Some (kb_ready_text (length docs)) else None),
      qv_messages = (if qa_messages st = [] then None else Some (map (message_view formatTime user) (qa_messages st))),
      qv_thinking = (qa_messages st \<noteq> [] \<and> qa_pending st \<noteq> None),
      qv_input_disabled = (qa_pending st \<noteq> None),
      qv_send_disabled = (js_trim (qa_question st) = [] \<or> qa_pending st \<noteq> None)\<rparr>"

definition is_user_bubble :: "msg_view \<Rightarrow> bool" where
  "is_user_bubble v = (case v of UserBubble _ _ _ _ \<Rightarrow> True | AiBubble _ _ \<Rightarrow> False)"

section \<open>Lemmas\<close>

lemma message_view_user:
  "is_user_bubble (message_view formatTime user m) \<longleftrightarrow> m_type m = UserMessage"
  by (simp add: message_view_def is_user_bubble_def)

text \<open>The bubbles of every reachable page alternate question and answer, starting
  with a question.\<close>

lemma qa_render_alternates:
  assumes "chat_reachable st" and "qv_messages (qa_render formatTime user docs st) = Some vs"
  shows "even (length vs) \<and> (\<forall>i < length vs. is_user_bubble (vs ! i) \<longleftrightarrow> even i)"
proof -
  have wf: "chat_wf (qa_messages st)"
    using chat_reachable_inv [OF assms(1)] by (simp add: chat_inv_def)
  have vs: "vs = map (message_view formatTime user) (qa_messages st)"
    using assms(2) by (simp add: qa_render_def split: if_splits)
  show ?thesis
    using wf by (auto simp: vs chat_wf_def message_view_user)
qed

text \<open>An answer's paragraphs joined with line breaks give the answer back.\<close>

lemma ai_bubble_paragraphs:
  "m_type m = AiMessage \<Longrightarrow>
   message_view formatTime user m = AiBubble (formatTime (m_timestamp m)) ps \<Longrightarrow>
   js_join [CHR 0x0A] ps = m_content m"
  by (auto simp: message_view_def split_join_roundtrip)

text \<open>The page shows the thinking indicator exactly while a request is pending after
  the first answer; while the first question is pending the welcome screen stays and
  only the disabled input shows that something happens.\<close>

lemma qa_render_pending:
  "qv_input_disabled (qa_render formatTime user docs st) \<longleftrightarrow> qa_pending st \<noteq> None"
  "qv_thinking (qa_render formatTime user docs st) \<longleftrightarrow>
     qa_pending st \<noteq> None \<and> qa_messages st \<noteq> []"
  by (auto simp: qa_render_def)

lemma first_question_no_indicator:
  "qv_messages (qa_render formatTime user docs (qa_submit (qa_type ''What changed?'' qa_init))) = None \<and>
   \<not> qv_thinking (qa_render formatTime user docs (qa_submit (qa_type ''What changed?'' qa_init))) \<and>
   qv_input_disabled (qa_render formatTime user docs (qa_submit (qa_type ''What changed?'' qa_init)))"
  by code_simp

text \<open>Signed in, the knowledge-base card counts the documents of the store.\<close>

lemma qa_documents_signed_in:
  "t \<noteq> [] \<Longrightarrow> verify t = Some u \<Longrightarrow> CHR '' '' \<notin> set t \<Longrightarrow>
   qa_documents verify (Some t) s = getDocuments s"
proof -
  assume "t \<noteq> []" "verify t = Some u" "CHR '' '' \<notin> set t"
  then have "authenticateToken verify (Some (''Bearer '' @ t)) = AuthOk u"
    using authenticate_bearer_word [of t verify] by simp
  then show ?thesis
    using \<open>t \<noteq> []\<close> by (simp add: qa_documents_def route_get_documents_def)
qed

lemma ex_chat_view:
  "qv_messages (qa_render (\<lambda>_. ''10:00 AM'') None [] ex_chat) =
     Some [UserBubble ''Y'' ''You'' ''10:00 AM'' ''What changed?'', AiBubble ''10:00 AM'' [''Hello'']] \<and>
   kb_ready_text 1 = ''I have access to 1 document in your knowledge base.''"
  by code_simp

end
