(* ===== verification/Highlight.thy ===== *)
theory Highlight
  imports Search
begin

text \<open>
  The search page's \<open>highlightText\<close> (src/client/src/pages/search.tsx): the result's
  title, content or tag split at the case-insensitive matches of the query, and the
  matches marked. \<open>text.split(regex)\<close> is the ECMAScript algorithm of
  \<open>RegExp.prototype[@@split]\<close>, a loop over a search position that does not
  descend structurally; \<open>js_regex_split\<close> models it with
  \<open>partial_function (option)\<close>, and the scan \<open>split_ci\<close> that
  \<open>highlightText\<close> uses is proved to be what that loop returns.
\<close>

text \<open>\<open>highlightText\<close>: the text split at the case-insensitive matches of the query,
  the pieces that \<open>regex.test\<close> accepts marked. The pattern is
  \<open>new RegExp(`(${query})`, 'gi')\<close>; the model covers queries without RegExp
  metacharacters, where the pattern matches the query literally, and gives \<open>None\<close>
  for the others (an invalid pattern such as \<open>c++\<close> throws, a valid one such as
  \<open>.\<close> matches other text; RegExp semantics are not modelled).\<close>

datatype highlight = Plain string | Marked string

definition regex_literal :: "string \<Rightarrow> bool" where
  "regex_literal q = list_all (\<lambda>c. c \<notin> set (CHR 0x5C # ''^$.|?*+()[]{}'')) q"

text \<open>The reference scan of \<open>text.split(regex)\<close> with the capturing group: the pieces
  between the leftmost non-overlapping matches, each match included as its own piece.
  \<open>lq\<close> is the lower-cased query; the loop \<open>js_regex_split\<close> below is proved to
  compute it.\<close>

function split_ci :: "string \<Rightarrow> string \<Rightarrow> string list" where
  "split_ci lq s =
     (if s = [] then [[]]
      else if lq \<noteq> [] \<and> length lq \<le> length s \<and> js_lower (take (length lq) s) = lq
      then [] # take (length lq) s # split_ci lq (drop (length lq) s)
      else (case split_ci lq (tl s) of [] \<Rightarrow> [[hd s]] | p # ps \<Rightarrow> (hd s # p) # ps))"
  by pat_completeness auto
termination
  by (relation "measure (\<lambda>(lq, s). length s)") auto

declare split_ci.simps [simp del]

text \<open>The first position at or after which the query occurs in \<open>s\<close>.\<close>

definition find_ci :: "string \<Rightarrow> string \<Rightarrow> nat option" where
  "find_ci lq s = find (\<lambda>i. i + length lq \<le> length s \<and> js_lower (take (length lq) (drop i s)) = lq)
                    [0..<Suc (length s)]"

text \<open>\<open>regex.test(part)\<close> of a global pattern: it searches from \<open>lastIndex\<close>, sets
  it after the match, and resets it to 0 when there is none.\<close>

definition regex_test :: "string \<Rightarrow> nat \<Rightarrow> string \<Rightarrow> bool \<times> nat" where
  "regex_test lq lastIndex s =
     (if length s < lastIndex then (False, 0)
      else (case find_ci lq (drop lastIndex s) of
              None \<Rightarrow> (False, 0)
            | Some i \<Rightarrow> (True, lastIndex + i + length lq)))"

fun mark_parts :: "string \<Rightarrow> nat \<Rightarrow> string list \<Rightarrow> highlight list" where
  "mark_parts lq lastIndex [] = []"
| "mark_parts lq lastIndex (p # ps) =
     (let (b, lastIndex') = regex_test lq lastIndex p
      in (if b then Marked p else Plain p) # mark_parts lq lastIndex' ps)"

fun highlight_text :: "highlight \<Rightarrow> string" where
  "highlight_text (Plain t) = t"
| "highlight_text (Marked t) = t"

text \<open>\<open>RegExpBuiltinExec\<close> of the sticky splitter at position \<open>q\<close>: the literal
  pattern matches there (case-insensitively).\<close>

definition match_at :: "string \<Rightarrow> string \<Rightarrow> nat \<Rightarrow> bool" where
  "match_at lq S q \<longleftrightarrow> q + length lq \<le> length S \<and> js_lower (take (length lq) (drop q S)) = lq"

text \<open>The loop of \<open>RegExp.prototype[@@split]\<close> (ECMA-262, \<open>limit\<close> undefined):
  \<open>p\<close> is the end of the last match and \<open>q\<close> the search position. A match at \<open>q\<close>
  ending at \<open>e\<close> pushes the text from \<open>p\<close> to \<open>q\<close> and the captured match and
  continues at \<open>e\<close>; a match ending where the last one ended is skipped; without a
  match the search moves one position on.\<close>

partial_function (option) split_loop ::
  "string \<Rightarrow> string \<Rightarrow> nat \<Rightarrow> nat \<Rightarrow> string list \<Rightarrow> string list option" where
  "split_loop lq S p q A =
     (if q < length S then
        (if match_at lq S q then
           (let e = min (q + length lq) (length S) in
            if e = p then split_loop lq S p (Suc q) A
            else split_loop lq S e e (A @ [take (q - p) (drop p S), take (e - q) (drop q S)]))
         else split_loop lq S p (Suc q) A)
      else Some (A @ [drop p S]))"

text \<open>\<open>S.split(regex)\<close>: on the empty string the result is empty if the pattern
  matches it and \<open>[""]\<close> otherwise.\<close>

definition js_regex_split :: "string \<Rightarrow> string \<Rightarrow> string list option" where
  "js_regex_split lq S =
     (if S = [] then (if match_at lq S 0 then Some [] else Some [[]]) else split_loop lq S 0 0 [])"

definition highlightText :: "string \<Rightarrow> string \<Rightarrow> string \<Rightarrow> highlight list option" where
  "highlightText searchType text query =
     (if query = [] \<or> searchType = ''semantic'' then Some [Plain text]
      else if \<not> regex_literal query then None
      else map_option (mark_parts (js_lower query) 0) (js_regex_split (js_lower query) text))"

text \<open>Putting the current piece in front of the pieces of the rest of the text.\<close>

definition prepend_piece :: "string \<Rightarrow> string list \<Rightarrow> string list" where
  "prepend_piece w xs = (case xs of [] \<Rightarrow> [w] | x # xs' \<Rightarrow> (w @ x) # xs')"

lemma split_ci_not_Nil [simp]: "split_ci lq s \<noteq> []"
  by (subst split_ci.simps) (auto split: list.split)

lemma concat_split_ci: "concat (split_ci lq s) = s"
proof (induction lq s rule: split_ci.induct)
  case (1 lq s)
  show ?case
  proof (cases "s = []")
    case False
    show ?thesis
    proof (cases "lq \<noteq> [] \<and> length lq \<le> length s \<and> js_lower (take (length lq) s) = lq")
      case True
      then show ?thesis
        using 1 False by (subst split_ci.simps) simp
    next
      case nm: False
      obtain p ps where sp: "split_ci lq (tl s) = p # ps"
        by (cases "split_ci lq (tl s)") simp_all
      have "concat (split_ci lq (tl s)) = tl s"
        using 1 False nm by simp
      then show ?thesis
        using sp False by (subst split_ci.simps) (simp only: if_not_P [OF False] if_not_P [OF nm]; simp)
    qed
  qed (simp add: split_ci.simps)
qed

lemma find_ci_Some:
  "find_ci lq s = Some i \<Longrightarrow> i + length lq \<le> length s \<and> js_lower (take (length lq) (drop i s)) = lq"
  by (auto simp: find_ci_def find_Some_iff)

lemma map_highlight_text_mark_parts: "map highlight_text (mark_parts lq li ps) = ps"
  by (induction lq li ps rule: mark_parts.induct) (simp_all split: prod.split)

lemma mark_parts_Marked:
  "Marked p \<in> set (mark_parts lq li ps) \<Longrightarrow>
   \<exists>i. i + length lq \<le> length p \<and> js_lower (take (length lq) (drop i p)) = lq"
proof (induction lq li ps rule: mark_parts.induct)
  case (2 lq li q qs)
  obtain b li' where t: "regex_test lq li q = (b, li')"
    by (cases "regex_test lq li q")
  show ?case
  proof (cases "Marked p \<in> set (mark_parts lq li' qs)")
    case True
    then show ?thesis using 2 t by simp
  next
    case False
    then have "b" and "p = q"
      using 2(2) t by (auto split: if_splits)
    then obtain i where "find_ci lq (drop li q) = Some i" and "li \<le> length q"
      using t by (auto simp: regex_test_def split: if_splits option.splits)
    then have "i + length lq \<le> length q - li" and m: "js_lower (take (length lq) (drop (i + li) q)) = lq"
      using find_ci_Some [of lq "drop li q" i] by simp_all
    then have "li + i + length lq \<le> length p"
      using \<open>li \<le> length q\<close> \<open>p = q\<close> by (simp add: le_diff_conv2 ac_simps)
    then show ?thesis
      using m \<open>p = q\<close> by (intro exI [of _ "li + i"]) (simp add: add.commute)
  qed
qed simp

section \<open>The split loop\<close>

declare split_loop.simps [code]

text \<open>One round of the loop, by its four branches.\<close>

lemma split_loop_end: "\<not> q < length S \<Longrightarrow> split_loop lq S p q A = Some (A @ [drop p S])"
  by (subst split_loop.simps) simp

lemma split_loop_skip:
  "q < length S \<Longrightarrow> \<not> match_at lq S q \<Longrightarrow> split_loop lq S p q A = split_loop lq S p (Suc q) A"
  by (subst split_loop.simps) simp

lemma split_loop_empty:
  "q < length S \<Longrightarrow> match_at lq S q \<Longrightarrow> min (q + length lq) (length S) = p \<Longrightarrow>
   split_loop lq S p q A = split_loop lq S p (Suc q) A"
  by (subst split_loop.simps) simp

lemma split_loop_push:
  "q < length S \<Longrightarrow> match_at lq S q \<Longrightarrow> e = min (q + length lq) (length S) \<Longrightarrow> e \<noteq> p \<Longrightarrow>
   split_loop lq S p q A = split_loop lq S e e (A @ [take (q - p) (drop p S), take (e - q) (drop q S)])"
  by (subst split_loop.simps) (simp add: Let_def)

text \<open>The loop returns: each round either moves \<open>q\<close> on, or (after an empty match)
  closes the gap between \<open>p\<close> and \<open>q\<close>.\<close>

lemma split_loop_returns:
  "p \<le> q \<Longrightarrow> q \<le> length S \<Longrightarrow> \<exists>r. split_loop lq S p q A = Some r"
proof (induction "2 * (length S - q) + (if p < q then 1 else 0)" arbitrary: p q A rule: less_induct)
  case less
  show ?case
  proof (cases "q < length S")
    case False
    then show ?thesis by (simp add: split_loop_end)
  next
    case q: True
    have step: "\<exists>r. split_loop lq S p (Suc q) A = Some r"
    proof (rule less.hyps)
      show "2 * (length S - Suc q) + (if p < Suc q then 1 else 0) < 2 * (length S - q) + (if p < q then 1 else 0)"
        using q less.prems by auto
    qed (use q less.prems in auto)
    define e where "e = min (q + length lq) (length S)"
    show ?thesis
    proof (cases "match_at lq S q")
      case m: True
      show ?thesis
      proof (cases "e = p")
        case True
        then show ?thesis using step split_loop_empty [OF q m] by (simp add: e_def)
      next
        case False
        have "\<exists>r. split_loop lq S e e (A @ [take (q - p) (drop p S), take (e - q) (drop q S)]) = Some r"
        proof (rule less.hyps)
          show "2 * (length S - e) + (if e < e then 1 else 0) < 2 * (length S - q) + (if p < q then 1 else 0)"
            using q less.prems False by (auto simp: e_def)
        qed (auto simp: e_def)
        then show ?thesis using split_loop_push [OF q m e_def False] by simp
      qed
    next
      case False
      then show ?thesis using step split_loop_skip [OF q] by simp
    qed
  qed
qed

lemma prepend_piece_Cons [simp]: "prepend_piece w (x # xs) = (w @ x) # xs"
  by (simp add: prepend_piece_def)

lemma prepend_piece_Nil [simp]: "xs \<noteq> [] \<Longrightarrow> prepend_piece [] xs = xs"
  by (cases xs) (simp_all add: prepend_piece_def)

lemma split_ci_Nil [simp]: "split_ci lq [] = [[]]"
  by (simp add: split_ci.simps)

lemma split_ci_match:
  "lq \<noteq> [] \<Longrightarrow> match_at lq S q \<Longrightarrow>
   split_ci lq (drop q S) = [] # take (length lq) (drop q S) # split_ci lq (drop (q + length lq) S)"
  by (subst split_ci.simps) (auto simp: match_at_def add.commute)

lemma split_ci_no_match:
  "q < length S \<Longrightarrow> \<not> match_at lq S q \<Longrightarrow>
   split_ci lq (drop q S) = prepend_piece [S ! q] (split_ci lq (drop (Suc q) S))"
proof -
  assume q: "q < length S" and nm: "\<not> match_at lq S q"
  then have ne: "drop q S \<noteq> []" and hd: "hd (drop q S) = S ! q" and tl: "tl (drop q S) = drop (Suc q) S"
    by (simp_all add: hd_drop_conv_nth drop_Suc tl_drop)
  have "\<not> (lq \<noteq> [] \<and> length lq \<le> length (drop q S) \<and> js_lower (take (length lq) (drop q S)) = lq)"
    using nm q by (auto simp: match_at_def)
  then show ?thesis
    using ne hd tl
    by (subst split_ci.simps) (simp add: prepend_piece_def split: list.split)
qed

lemma prepend_piece_snoc:
  "xs \<noteq> [] \<Longrightarrow> prepend_piece (w @ [c]) xs = prepend_piece w (prepend_piece [c] xs)"
  by (cases xs) (simp_all add: prepend_piece_def)

text \<open>For a non-empty pattern, the loop returns the pieces of the scan \<open>split_ci\<close>:
  what has been pushed, then the current piece put in front of the pieces of the rest.\<close>

lemma split_loop_split_ci:
  "lq \<noteq> [] \<Longrightarrow> p \<le> q \<Longrightarrow> q \<le> length S \<Longrightarrow>
   split_loop lq S p q A = Some (A @ prepend_piece (take (q - p) (drop p S)) (split_ci lq (drop q S)))"
proof (induction "length S - q" arbitrary: p q A rule: less_induct)
  case less
  show ?case
  proof (cases "q < length S")
    case False
    then have "q = length S" using less.prems by simp
    then show ?thesis
      by (simp add: split_loop_end prepend_piece_def)
  next
    case q: True
    show ?thesis
    proof (cases "match_at lq S q")
      case m: True
      define e where "e = q + length lq"
      have e: "min (q + length lq) (length S) = e" "e \<noteq> p" "q < e" "e \<le> length S"
        using m less.prems by (auto simp: match_at_def e_def)
      have IH: "split_loop lq S e e (A @ [take (q - p) (drop p S), take (e - q) (drop q S)]) =
          Some ((A @ [take (q - p) (drop p S), take (e - q) (drop q S)]) @ prepend_piece [] (split_ci lq (drop e S)))"
        using less.hyps [of e e] less.prems e q by simp
      show ?thesis
        using IH split_loop_push [OF q m e(1)[symmetric] e(2)] split_ci_match [OF less.prems(1) m]
        by (simp add: e_def)
    next
      case nm: False
      have IH: "split_loop lq S p (Suc q) A =
          Some (A @ prepend_piece (take (Suc q - p) (drop p S)) (split_ci lq (drop (Suc q) S)))"
        using less.hyps [of "Suc q" p A] less.prems q by simp
      have "take (Suc q - p) (drop p S) = take (q - p) (drop p S) @ [S ! q]"
        using less.prems q by (simp add: take_Suc_conv_app_nth Suc_diff_le)
      then show ?thesis
        using IH split_loop_skip [OF q nm] split_ci_no_match [OF q nm]
        by (simp add: prepend_piece_snoc)
    qed
  qed
qed

lemma js_regex_split_split_ci:
  "lq \<noteq> [] \<Longrightarrow> js_regex_split lq S = Some (split_ci lq S)"
  using split_loop_split_ci [of lq 0 0 S "[]"]
  by (cases S) (auto simp: js_regex_split_def match_at_def)

lemma js_regex_split_returns: "\<exists>r. js_regex_split lq S = Some r"
  using split_loop_returns [of 0 0 S lq "[]"] by (simp add: js_regex_split_def)

section \<open>Properties of highlightText\<close>

text \<open>\<open>highlightText\<close> throws only for a non-literal pattern of a text search.\<close>

lemma highlightText_Some:
  "regex_literal query \<or> searchType = ''semantic'' \<or> query = [] \<Longrightarrow>
   \<exists>hs. highlightText searchType t query = Some hs"
  using js_regex_split_returns [of "js_lower query" t]
  by (auto simp: highlightText_def)

text \<open>What the page shows is the text: the pieces put together give it back, and every
  marked piece holds a match of the query.\<close>

lemma highlightText_pieces:
  assumes "highlightText searchType text query = Some hs"
  shows "concat (map highlight_text hs) = text \<and>
         (\<forall>p. Marked p \<in> set hs \<longrightarrow>
            (\<exists>i. i + length query \<le> length p \<and> js_lower (take (length query) (drop i p)) = js_lower query))"
  using assms mark_parts_Marked [of _ "js_lower query"]
  by (auto simp: highlightText_def js_regex_split_split_ci js_lower_def map_highlight_text_mark_parts concat_split_ci split: if_splits)

lemma highlightText_literal:
  "query \<noteq> [] \<Longrightarrow> searchType \<noteq> ''semantic'' \<Longrightarrow> regex_literal query \<Longrightarrow>
   highlightText searchType text query =
     Some (mark_parts (js_lower query) 0 (split_ci (js_lower query) text))"
  by (simp add: highlightText_def js_regex_split_split_ci js_lower_def)

lemma highlightText_example:
  "highlightText ''text'' ''React and react'' ''react'' =
     Some [Plain [], Marked ''React'', Plain '' and '', Marked ''react'', Plain []] \<and>
   highlightText ''text'' ''c++ tips'' ''c++'' = None"
proof
  have "highlightText ''text'' ''React and react'' ''react'' =
      Some (mark_parts (js_lower ''react'') 0 (split_ci (js_lower ''react'') ''React and react''))"
    by (rule highlightText_literal) code_simp+
  then show "highlightText ''text'' ''React and react'' ''react'' =
      Some [Plain [], Marked ''React'', Plain '' and '', Marked ''react'', Plain []]"
    by simp code_simp
  show "highlightText ''text'' ''c++ tips'' ''c++'' = None"
    by code_simp
qed

text \<open>
  \<open>text.split(regex)\<close> terminates: the ECMAScript split loop, whose search
  position does not descend structurally, returns on every text and pattern, and for
  a non-empty query it returns the pieces of the case-insensitive scan: the text
  between the leftmost non-overlapping matches, each match captured as its own piece.
\<close>

lemma js_regex_split_terminates:
  "(\<exists>r. js_regex_split lq S = Some r) \<and>
   (lq \<noteq> [] \<longrightarrow> js_regex_split lq S = Some (split_ci lq S))"
  using split_loop_returns [of 0 0 S lq "[]"] split_loop_split_ci [of lq 0 0 S "[]"]
  by (cases S) (auto simp: js_regex_split_def match_at_def)

lemma js_regex_split_example:
  "js_regex_split ''react'' ''React and react'' = Some (split_ci ''react'' ''React and react'') \<and>
   split_ci ''react'' ''React and react'' = [[], ''React'', '' and '', ''react'', []]"
proof
  show "js_regex_split ''react'' ''React and react'' = Some (split_ci ''react'' ''React and react'')"
    using js_regex_split_terminates [of "''react''" "''React and react''"] by simp
  show "split_ci ''react'' ''React and react'' = [[], ''React'', '' and '', ''react'', []]"
    by code_simp
qed

end
