(* ===== verification/SearchPage.thy ===== *)
theory SearchPage
  imports Pages Highlight
begin

text \<open>
  The search page (src/client/src/pages/search.tsx, \<open>SearchPage\<close>) as a state
  machine: the input, the radio group, \<open>hasSearched\<close>, the react-query cache of
  \<open>["/api/search", query, searchType]\<close> (a disabled query, fetched only by
  \<open>refetch\<close>) and the request in flight, with one step per event of the page. The
  answer of a request is \<open>GET /api/search\<close> of Routes.thy on any store; the page
  renders the cached results of its current key through \<open>highlightText\<close>.
  react-query's \<open>isLoading\<close> is that of version 5 (no data and a fetch in flight),
  the version whose mutations have \<open>isPending\<close>, as the other pages use.
\<close>

section \<open>Results as the page receives them\<close>

text \<open>\<open>response.json()\<close> of \<open>GET /api/search\<close>: each result is a document with
  its author, and for a ranked semantic result its relevance; a ranked result whose
  index was out of range is the object \<open>{ relevance }\<close> alone.\<close>

type_synonym search_item = "document_with_user option \<times> int option"

definition search_items :: "search_reply \<Rightarrow> search_item list" where
  "search_items r =
     (case r of
        LiteralResults ds \<Rightarrow> map (\<lambda>du. (Some du, None)) ds
      | SemanticResults (RankedDocs rs) \<Rightarrow> map (\<lambda>(d, rel). (d, Some rel)) rs
      | SemanticResults (FallbackDocs ds) \<Rightarrow> map (\<lambda>du. (Some du, None)) ds)"

text \<open>The \<open>queryFn\<close> of a key: \<open>[]\<close> for a blank query, else the request; a
  status other than 200 makes \<open>apiRequest\<close> throw (\<open>None\<close>).\<close>

definition search_queryFn ::
  "mem_storage \<Rightarrow> semantic_outcome \<Rightarrow> string \<times> string \<Rightarrow> search_item list option" where
  "search_queryFn st outcome k =
     (case handleSearch st (fst k) (snd k) outcome of
        None \<Rightarrow> Some []
      | Some (code, body, _) \<Rightarrow> if code = 200 then map_option search_items body else None)"

section \<open>A result card\<close>

text \<open>\<open>result.summary || result.content.substring(0, 200) + "..."\<close>.\<close>

definition snippet_text :: "document \<Rightarrow> string" where
  "snippet_text d = (case js_or_null (d_summary d) of Some sm \<Rightarrow> sm | None \<Rightarrow> take 200 (d_content d) @ ''...'')"

record result_card =
  rc_title :: "highlight list"
  rc_relevance :: "int option"
  rc_snippet :: "highlight list"
  rc_tags :: "highlight list list"
  rc_initials :: string
  rc_author :: string
  rc_updated :: string

text \<open>One card of the results: \<open>None\<close> when rendering it throws, for an object
  without a document (\<open>result.content\<close> is undefined) or a query \<open>highlightText\<close>
  refuses. The relevance badge is shown when the relevance is truthy; at most four
  tags; \<open>toLocaleDateString\<close> is the parameter \<open>localeDate\<close>.\<close>

definition result_card ::
  "(timestamp \<Rightarrow> string) \<Rightarrow> string \<Rightarrow> string \<Rightarrow> search_item \<Rightarrow> result_card option" where
  "result_card localeDate searchType query item =
     (case fst item of
        None \<Rightarrow> None
      | Some du \<Rightarrow>
          (case (highlightText searchType (d_title (fst du)) query,
                 highlightText searchType (snippet_text (fst du)) query,
                 those (map (\<lambda>t. highlightText searchType t query) (take 4 (js_or_nil (d_tags (fst du)))))) of
             (Some t, Some sn, Some tg) \<Rightarrow>
               Some \<lparr>rc_title = t,
                     rc_relevance = (case snd item of Some r \<Rightarrow> if r = 0 then None else Some r | None \<Rightarrow> None),
                     rc_snippet = sn, rc_tags = tg,
                     rc_initials = getInitials (u_name (snd du)), rc_author = u_name (snd du),
                     rc_updated = localeDate (d_updatedAt (fst du))\<rparr>
           | _ \<Rightarrow> None))"

section \<open>The page\<close>

type_synonym search_key = "string \<times> string"

record search_page =
  sp_query :: string
  sp_type :: string
  sp_hasSearched :: bool
  sp_cache :: "(search_key, search_item list) jsmap"
  sp_fetching :: "search_key option"

definition sp_init :: search_page where
  "sp_init = \<lparr>sp_query = [], sp_type = ''text'', sp_hasSearched = False, sp_cache = jm_empty,
     sp_fetching = None\<rparr>"

definition sp_key :: "search_page \<Rightarrow> search_key" where
  "sp_key s = (sp_query s, sp_type s)"

text \<open>\<open>data: results = []\<close> of the current key, and \<open>isLoading\<close>.\<close>

definition sp_results :: "search_page \<Rightarrow> search_item list" where
  "sp_results s = (case jm_get (sp_cache s) (sp_key s) of None \<Rightarrow> [] | Some rs \<Rightarrow> rs)"

definition sp_isLoading :: "search_page \<Rightarrow> bool" where
  "sp_isLoading s \<longleftrightarrow> sp_fetching s = Some (sp_key s) \<and> jm_get (sp_cache s) (sp_key s) = None"

text \<open>\<open>handleSearch\<close>: for a non-blank query, \<open>hasSearched\<close> and a refetch of the
  current key.\<close>

definition sp_submit :: "search_page \<Rightarrow> search_page" where
  "sp_submit s =
     (if js_trim (sp_query s) = [] then s
      else s\<lparr>sp_hasSearched := True, sp_fetching := Some (sp_key s)\<rparr>)"

text \<open>The button \<open>Try AI Semantic Search\<close>: \<open>setSearchType("semantic")\<close>, then
  \<open>refetch()\<close> of the same render, whose observer still holds the old key.\<close>

definition sp_try_semantic :: "search_page \<Rightarrow> search_page" where
  "sp_try_semantic s =
     s\<lparr>sp_type := ''semantic'',
       sp_fetching := (if sp_query s = [] then sp_fetching s else Some (sp_key s))\<rparr>"

text \<open>The request in flight settles: its data is cached under its key; an error
  leaves the cache as it was.\<close>

definition sp_settle :: "search_item list option \<Rightarrow> search_page \<Rightarrow> search_page" where
  "sp_settle r s =
     (case sp_fetching s of
        None \<Rightarrow> s
      | Some k \<Rightarrow>
          s\<lparr>sp_cache := (case r of None \<Rightarrow> sp_cache s | Some rs \<Rightarrow> jm_set (sp_cache s) k rs),
            sp_fetching := None\<rparr>)"

text \<open>The events of the page. The submit button is disabled while loading, which also
  blocks submitting with Enter; the retry button is shown only with no results.\<close>

inductive sp_step :: "search_page \<Rightarrow> search_page \<Rightarrow> bool" where
  type: "sp_step s (s\<lparr>sp_query := q\<rparr>)"
| select: "t \<in> {''text'', ''semantic''} \<Longrightarrow> sp_step s (s\<lparr>sp_type := t\<rparr>)"
| submit: "\<not> sp_isLoading s \<Longrightarrow> sp_step s (sp_submit s)"
| retry: "sp_hasSearched s \<Longrightarrow> \<not> sp_isLoading s \<Longrightarrow> sp_results s = [] \<Longrightarrow>
    sp_step s (sp_try_semantic s)"
| answer: "sp_fetching s = Some k \<Longrightarrow> sp_step s (sp_settle (search_queryFn st outcome k) s)"

inductive sp_reachable :: "search_page \<Rightarrow> bool" where
  init: "sp_reachable sp_init"
| step: "sp_reachable s \<Longrightarrow> sp_step s s' \<Longrightarrow> sp_reachable s'"

section \<open>Rendering\<close>

datatype search_view =
  SearchIntro
| SearchSkeleton
| SearchFound string bool "result_card list"
| SearchEmpty string

text \<open>\<open>Found {results.length} result{s} for "{query}"\<close>.\<close>

definition results_heading :: "nat \<Rightarrow> string \<Rightarrow> string" where
  "results_heading n query =
     ''Found '' @ js_nat_str n @ '' result'' @ (if n \<noteq> 1 then ''s'' else []) @
     '' for '' @ [CHR 0x22] @ query @ [CHR 0x22]"

text \<open>The page below the form: the introduction before the first search, skeletons
  while loading, the heading (with the AI badge for a semantic search) and the cards,
  or the empty state with the retry button; \<open>None\<close> when a card throws.\<close>

definition sp_render :: "(timestamp \<Rightarrow> string) \<Rightarrow> search_page \<Rightarrow> search_view option" where
  "sp_render localeDate s =
     (if \<not> sp_hasSearched s then Some SearchIntro
      else if sp_isLoading s then Some SearchSkeleton
      else if sp_results s \<noteq> [] then
        map_option (SearchFound (results_heading (length (sp_results s)) (sp_query s)) (sp_type s = ''semantic''))
          (those (map (result_card localeDate (sp_type s) (sp_query s)) (sp_results s)))
      else Some (SearchEmpty (sp_query s)))"

text \<open>The invariant of the page: the search type is one of the radio values, and
  the cached results of every text key are documents without relevance.\<close>

definition sp_inv :: "search_page \<Rightarrow> bool" where
  "sp_inv s \<longleftrightarrow> sp_type s \<in> {''text'', ''semantic''} \<and>
     (\<forall>(k, rs) \<in> set (sp_cache s). snd k \<noteq> ''semantic'' \<longrightarrow>
        (\<forall>it \<in> set rs. fst it \<noteq> None \<and> snd it = None))"

text \<open>Example runs on the example store of Search.thy, whose one document is
  \<open>Release Notes\<close> tagged \<open>beta\<close>: a text search for \<open>kubernetes\<close> finds nothing
  and the retry button is pressed; a semantic search for \<open>notes\<close> whose model
  numbers the documents from one.\<close>

definition ex_sp_text :: search_page where
  "ex_sp_text = sp_settle (search_queryFn ex_search_store Failed (''kubernetes'', ''text''))
     (sp_submit (sp_init\<lparr>sp_query := ''kubernetes''\<rparr>))"

definition ex_sp_retry :: search_page where
  "ex_sp_retry = sp_settle (search_queryFn ex_search_store (Ranked [(0, 90)]) (''kubernetes'', ''text''))
     (sp_try_semantic ex_sp_text)"

definition ex_sp_crash :: search_page where
  "ex_sp_crash = sp_settle (search_queryFn ex_search_store (Ranked [(1, 90)]) (''notes'', ''semantic''))
     (sp_submit (sp_init\<lparr>sp_query := ''notes'', sp_type := ''semantic''\<rparr>))"

definition ex_sp_found :: search_page where
  "ex_sp_found = sp_settle (search_queryFn ex_search_store Failed (''beta'', ''text''))
     (sp_submit (sp_init\<lparr>sp_query := ''beta''\<rparr>))"

section \<open>Lemmas\<close>

lemma those_map_not_None: "(\<And>x. x \<in> set xs \<Longrightarrow> f x \<noteq> None) \<Longrightarrow> those (map f xs) \<noteq> None"
  by (induction xs) (auto split: option.split)

lemma those_map_length: "those (map f xs) = Some ys \<Longrightarrow> length ys = length xs"
  by (induction xs arbitrary: ys) (auto split: option.splits)

lemma search_queryFn_literal:
  "snd k \<noteq> ''semantic'' \<Longrightarrow> search_queryFn st outcome k = Some rs \<Longrightarrow> it \<in> set rs \<Longrightarrow>
   fst it \<noteq> None \<and> snd it = None"
  by (cases k) (auto simp: search_queryFn_def handleSearch_def route_search_def search_items_def
      split: if_splits)

lemma sp_settle_cache:
  "set (sp_cache (sp_settle r s)) \<subseteq> set (sp_cache s) \<union>
     {(k, rs). sp_fetching s = Some k \<and> r = Some rs}"
  using jm_set_subset by (fastforce simp: sp_settle_def split: option.splits)

lemma sp_step_inv: "sp_step s s' \<Longrightarrow> sp_inv s \<Longrightarrow> sp_inv s'"
proof (induction rule: sp_step.induct)
  case (answer s k st outcome)
  have "sp_type (sp_settle (search_queryFn st outcome k) s) = sp_type s"
    by (simp add: sp_settle_def split: option.split)
  moreover have "fst it \<noteq> None \<and> snd it = None"
    if "(k', rs) \<in> set (sp_cache (sp_settle (search_queryFn st outcome k) s))" "snd k' \<noteq> ''semantic''"
       "it \<in> set rs" for k' rs it
    using sp_settle_cache [THEN subsetD, OF that(1)] answer.prems answer.hyps that(2,3)
      search_queryFn_literal [of k' st outcome rs it]
    by (auto simp: sp_inv_def)
  ultimately show ?case
    using answer.prems by (auto simp: sp_inv_def)
next
  case (submit s)
  then show ?case by (simp add: sp_inv_def sp_submit_def)
next
  case (retry s)
  then show ?case by (simp add: sp_inv_def sp_try_semantic_def)
qed (simp_all add: sp_inv_def)

lemma sp_reachable_inv: "sp_reachable s \<Longrightarrow> sp_inv s"
proof (induction rule: sp_reachable.induct)
  case init
  then show ?case by (simp add: sp_init_def sp_inv_def jm_empty_def)
next
  case (step s s')
  then show ?case by (blast intro: sp_step_inv)
qed

lemma sp_results_in_cache:
  "it \<in> set (sp_results s) \<Longrightarrow> \<exists>rs. (sp_key s, rs) \<in> set (sp_cache s) \<and> it \<in> set rs"
  by (auto simp: sp_results_def jm_get_def dest: sym [THEN map_of_SomeD] split: option.splits)

lemma result_card_document:
  "regex_literal query \<or> searchType = ''semantic'' \<or> query = [] \<Longrightarrow>
   result_card localeDate searchType query (Some du, rel) \<noteq> None"
proof -
  assume q: "regex_literal query \<or> searchType = ''semantic'' \<or> query = []"
  have "those (map (\<lambda>t. highlightText searchType t query) (take 4 (js_or_nil (d_tags (fst du))))) \<noteq> None"
    using highlightText_Some [OF q] by (intro those_map_not_None) auto
  then show ?thesis
    using highlightText_Some [OF q, of "d_title (fst du)"] highlightText_Some [OF q, of "snippet_text (fst du)"]
    by (auto simp: result_card_def)
qed

lemma search_queryFn_text:
  "js_trim q \<noteq> [] \<Longrightarrow> t \<noteq> ''semantic'' \<Longrightarrow>
   search_queryFn st outcome (q, t) = Some (map (\<lambda>du. (Some du, None)) (searchDocuments st q))"
  by (cases q) (auto simp: search_queryFn_def handleSearch_def route_search_def search_items_def js_trim_def)

lemma result_cards_authors:
  "those (map (result_card ld t q) (map (\<lambda>du. (Some du, None)) ds)) = Some cards \<Longrightarrow>
   map rc_author cards = map (\<lambda>du. u_name (snd du)) ds"
  by (induction ds arbitrary: cards) (auto simp: result_card_def split: option.splits prod.splits)

lemma sp_submit_fetches:
  "js_trim (sp_query s) \<noteq> [] \<Longrightarrow>
   sp_settle r (sp_submit s) =
     s\<lparr>sp_hasSearched := True,
       sp_cache := (case r of None \<Rightarrow> sp_cache s | Some rs \<Rightarrow> jm_set (sp_cache s) (sp_key s) rs),
       sp_fetching := None\<rparr>"
  by (simp add: sp_submit_def sp_settle_def split: option.split)

section \<open>Properties\<close>

text \<open>
  C20. In every reachable state of the search page, a text search for a query
  without RegExp metacharacters renders without throwing: every result cached for a
  text search is a document, which \<open>highlightText\<close> and the card can show.
\<close>

theorem search_page_text_render_total:
  "sp_reachable s \<Longrightarrow> sp_type s = ''text'' \<Longrightarrow> regex_literal (sp_query s) \<Longrightarrow>
   sp_render localeDate s \<noteq> None"
proof -
  assume r: "sp_reachable s" and t: "sp_type s = ''text''" and q: "regex_literal (sp_query s)"
  have inv: "\<forall>(k, rs) \<in> set (sp_cache s). snd k \<noteq> ''semantic'' \<longrightarrow>
      (\<forall>it \<in> set rs. fst it \<noteq> None \<and> snd it = None)"
    using sp_reachable_inv [OF r] by (simp add: sp_inv_def)
  have card: "result_card localeDate (sp_type s) (sp_query s) it \<noteq> None"
    if it: "it \<in> set (sp_results s)" for it
  proof -
    obtain rs where kr: "(sp_key s, rs) \<in> set (sp_cache s)" and i: "it \<in> set rs"
      using sp_results_in_cache [OF it] by blast
    have "fst it \<noteq> None \<and> snd it = None"
      using bspec [OF inv kr] i t by (simp add: sp_key_def)
    then obtain du where "it = (Some du, None)"
      by (cases it) auto
    then show ?thesis
      using result_card_document [of "sp_query s" "sp_type s" localeDate du None] q by simp
  qed
  have "those (map (result_card localeDate (sp_type s) (sp_query s)) (sp_results s)) \<noteq> None"
    by (rule those_map_not_None) (rule card)
  then show ?thesis
    by (auto simp: sp_render_def)
qed

text \<open>
  The retry button \<open>Try AI Semantic Search\<close> never runs a semantic search: its
  \<open>refetch\<close> belongs to the render before \<open>setSearchType\<close>, so it requests the text
  search again, and once that settles the page shows what is cached for the semantic
  key (nothing, unless a semantic search was run before).
\<close>

lemma search_retry_refetches_text:
  "sp_type s = ''text'' \<Longrightarrow> sp_query s \<noteq> [] \<Longrightarrow>
   sp_fetching (sp_try_semantic s) = Some (sp_query s, ''text'') \<and>
   sp_results (sp_settle r (sp_try_semantic s)) =
     (case jm_get (sp_cache s) (sp_query s, ''semantic'') of None \<Rightarrow> [] | Some rs \<Rightarrow> rs)"
  by (auto simp: sp_try_semantic_def sp_settle_def sp_results_def sp_key_def split: option.split)

lemma ex_sp_retry_reachable: "sp_reachable ex_sp_text \<and> sp_reachable ex_sp_retry"
proof
  let ?s1 = "sp_init\<lparr>sp_query := ''kubernetes''\<rparr>"
  have r1: "sp_reachable ?s1"
    by (rule sp_reachable.step [OF sp_reachable.init sp_step.type])
  have r2: "sp_reachable (sp_submit ?s1)"
    by (rule sp_reachable.step [OF r1 sp_step.submit]) (simp add: sp_isLoading_def sp_init_def)
  show r3: "sp_reachable ex_sp_text"
    unfolding ex_sp_text_def
    by (rule sp_reachable.step [OF r2 sp_step.answer]) code_simp
  have r4: "sp_reachable (sp_try_semantic ex_sp_text)"
    by (rule sp_reachable.step [OF r3 sp_step.retry]) code_simp+
  show "sp_reachable ex_sp_retry"
    unfolding ex_sp_retry_def
    by (rule sp_reachable.step [OF r4 sp_step.answer]) code_simp
qed

lemma ex_sp_crash_reachable: "sp_reachable ex_sp_crash"
proof -
  let ?s1 = "sp_init\<lparr>sp_query := ''notes''\<rparr>"
  have r1: "sp_reachable ?s1"
    by (rule sp_reachable.step [OF sp_reachable.init sp_step.type])
  have r2: "sp_reachable (?s1\<lparr>sp_type := ''semantic''\<rparr>)"
    by (rule sp_reachable.step [OF r1 sp_step.select]) simp
  have r3: "sp_reachable (sp_submit (?s1\<lparr>sp_type := ''semantic''\<rparr>))"
    by (rule sp_reachable.step [OF r2 sp_step.submit]) (simp add: sp_isLoading_def sp_init_def)
  show ?thesis
    unfolding ex_sp_crash_def
    by (rule sp_reachable.step [OF r3 sp_step.answer]) code_simp
qed

lemma ex_sp_views:
  "sp_render ld ex_sp_text = Some (SearchEmpty ''kubernetes'') \<and>
   sp_render ld ex_sp_retry = Some (SearchEmpty ''kubernetes'') \<and>
   sp_type ex_sp_retry = ''semantic'' \<and>
   sp_render ld ex_sp_crash = None"
  by code_simp

lemma sp_text_search_shows_results:
  assumes t: "sp_type s = ''text''" and q: "js_trim (sp_query s) \<noteq> []"
    and lit: "regex_literal (sp_query s)" and ne: "searchDocuments st (sp_query s) \<noteq> []"
  shows "\<exists>cards. sp_render ld (sp_settle (search_queryFn st outcome (sp_key s)) (sp_submit s)) =
           Some (SearchFound (results_heading (length (searchDocuments st (sp_query s))) (sp_query s)) False cards) \<and>
         map rc_author cards = map (\<lambda>du. u_name (snd du)) (searchDocuments st (sp_query s))"
proof -
  let ?ds = "searchDocuments st (sp_query s)"
  let ?its = "map (\<lambda>du. (Some du, None)) ?ds :: search_item list"
  let ?s' = "sp_settle (search_queryFn st outcome (sp_key s)) (sp_submit s)"
  have s': "?s' = s\<lparr>sp_hasSearched := True, sp_cache := jm_set (sp_cache s) (sp_key s) ?its, sp_fetching := None\<rparr>"
    using sp_submit_fetches [OF q] search_queryFn_text [OF q, of "''text''" st outcome] t
    by (simp add: sp_key_def)
  have res: "sp_results ?s' = ?its"
    unfolding s' by (simp add: sp_results_def sp_key_def)
  have "those (map (result_card ld ''text'' (sp_query s)) ?its) \<noteq> None"
    using result_card_document lit by (intro those_map_not_None) fastforce
  then obtain cards where c: "those (map (result_card ld ''text'' (sp_query s)) ?its) = Some cards"
    by blast
  have "sp_hasSearched ?s'" "\<not> sp_isLoading ?s'" "sp_query ?s' = sp_query s" "sp_type ?s' = ''text''"
    unfolding s' using t by (simp_all add: sp_isLoading_def)
  then have "sp_render ld ?s' = Some (SearchFound (results_heading (length ?ds) (sp_query s)) False cards)"
    using res c ne by (simp add: sp_render_def)
  then show ?thesis
    using result_cards_authors [OF c] by blast
qed

lemma ex_sp_found_reachable: "sp_reachable ex_sp_found"
proof -
  let ?s1 = "sp_init\<lparr>sp_query := ''beta''\<rparr>"
  have r1: "sp_reachable ?s1"
    by (rule sp_reachable.step [OF sp_reachable.init sp_step.type])
  have r2: "sp_reachable (sp_submit ?s1)"
    by (rule sp_reachable.step [OF r1 sp_step.submit]) (simp add: sp_isLoading_def sp_init_def)
  show ?thesis
    unfolding ex_sp_found_def
    by (rule sp_reachable.step [OF r2 sp_step.answer]) code_simp
qed

theorem search_page_text_render_total_witness:
  "sp_reachable ex_sp_found \<and> sp_type ex_sp_found = ''text'' \<and> regex_literal (sp_query ex_sp_found) \<and>
   sp_render (\<lambda>_. ''today'') ex_sp_found \<noteq> None"
proof -
  have h: "sp_type ex_sp_found = ''text''" "regex_literal (sp_query ex_sp_found)"
    by code_simp+
  show ?thesis
    using search_page_text_render_total [OF ex_sp_found_reachable h] ex_sp_found_reachable h by simp
qed

lemma search_retry_example:
  "sp_fetching (sp_try_semantic ex_sp_text) = Some (''kubernetes'', ''text'') \<and>
   sp_results ex_sp_retry = []"
proof -
  have h: "sp_type ex_sp_text = ''text''" "sp_query ex_sp_text = ''kubernetes''" "jm_get (sp_cache ex_sp_text) (''kubernetes'', ''semantic'') = None"
    by code_simp+
  show ?thesis
    using search_retry_refetches_text [of ex_sp_text "search_queryFn ex_search_store (Ranked [(0, 90)]) (''kubernetes'', ''text'')"] h
    by (simp add: ex_sp_retry_def)
qed

lemma ex_sp_found_view:
  "sp_render (\<lambda>_. ''today'') ex_sp_found =
     Some (SearchFound (''Found 1 result for '' @ [CHR 0x22] @ ''beta'' @ [CHR 0x22]) False
       [\<lparr>rc_title = [Plain ''Release Notes''], rc_relevance = None, rc_snippet = [Plain ''Changes...''],
         rc_tags = [[Plain [], Marked ''beta'', Plain []]], rc_initials = ''A'', rc_author = ''Ann'',
         rc_updated = ''today''\<rparr>])"
  by code_simp

end
