(* ===== verification/Views.thy ===== *)
theory Views
  imports Pages
begin

text \<open>
  What the shared components of src/unnamed/part\_002 render, over the values that
  Pages.thy computes: the sidebar's navigation, activity feed and user panel
  (\<open>Sidebar\<close>), the version-history dialog (\<open>VersionHistoryModal\<close>) with its two
  queries, and the document card (\<open>DocumentCard\<close>) with the two flags that disable
  its AI buttons while a request runs. Locale formatting (\<open>toLocaleDateString\<close>) is a
  parameter.
\<close>

section \<open>Sidebar\<close>

text \<open>The navigation links, in the order of the sidebar.\<close>

definition nav_items :: "(string \<times> string) list" where
  "nav_items = [(''Dashboard'', ''/''), (''Search'', ''/search''), (''New Document'', ''/document/new''),
     (''AI Q&A'', ''/qa''), (''Support'', ''/support'')]"

definition sidebar_nav :: "string \<Rightarrow> (string \<times> bool) list" where
  "sidebar_nav location = map (\<lambda>(label, path). (label, isActive location path)) nav_items"

text \<open>The user panel: \<open>user ? getInitials(user.name) : "?"\<close>, the name and the role.\<close>

definition sidebar_user :: "auth_user option \<Rightarrow> string \<times> string \<times> string" where
  "sidebar_user user =
     (case user of None \<Rightarrow> (''?'', [], []) | Some u \<Rightarrow> (getInitials (au_name u), au_name u, au_role u))"

record sidebar_view =
  sv_nav :: "(string \<times> bool) list"
  sv_feed :: "string list"
  sv_no_activity :: bool
  sv_user :: "string \<times> string \<times> string"

text \<open>The activities query is enabled by a truthy token; \<open>No recent activity\<close> is shown
  when it has no data or an empty list.\<close>

definition sidebar_view :: "string \<Rightarrow> auth_user option \<Rightarrow> string option \<Rightarrow> mem_storage \<Rightarrow> sidebar_view" where
  "sidebar_view location user token s =
     (let feed = (if token = None \<or> token = Some [] then [] else sidebar_feed s) in
      \<lparr>sv_nav = sidebar_nav location, sv_feed = feed, sv_no_activity = (feed = []),
       sv_user = sidebar_user user\<rparr>)"

text \<open>\<open>AuthenticatedLayout\<close> (src/client/src/App.tsx): the sidebar beside the page
  the \<open>Switch\<close> of the signed-in routes selects.\<close>

definition authenticated_layout ::
  "(string \<Rightarrow> string \<Rightarrow> bool) \<Rightarrow> string \<Rightarrow> auth_user option \<Rightarrow> string option \<Rightarrow> mem_storage
     \<Rightarrow> sidebar_view \<times> page" where
  "authenticated_layout matches location user token s =
     (sidebar_view location user token s, switch matches app_routes NotFoundPage location)"

section \<open>Version history dialog\<close>

text \<open>A row: the badge \<open>v{version}\<close>, the label, the initials of
  \<open>createdBy?.name || "U"\<close>, the author shown and the date.\<close>

record version_row =
  vr_version :: nat
  vr_label :: string
  vr_initials :: string
  vr_author :: string
  vr_date :: string

definition version_row :: "(timestamp \<Rightarrow> string) \<Rightarrow> document_version \<Rightarrow> version_row" where
  "version_row formatDate v =
     \<lparr>vr_version = v_version v, vr_label = fst (version_label v),
      vr_initials = getInitials (text_or (created_by_name (CreatedById (v_createdBy v))) ''U''),
      vr_author = snd (version_label v), vr_date = formatDate (v_createdAt v)\<rparr>"

record modal_view =
  mv_open :: bool
  mv_title :: "string option"
  mv_rows :: "version_row list"
  mv_empty :: bool

text \<open>The dialog once its queries have settled. Both are enabled by a truthy
  \<open>documentId\<close> and token; the title suffix is the document's when
  \<open>GET /api/documents/:id\<close> answers it (a 404 leaves the data undefined), the rows are
  \<open>GET /api/documents/:id/versions\<close> in its order, and \<open>No version history available\<close>
  is shown for none. The dialog is open exactly for a truthy \<open>documentId\<close>.\<close>

definition version_modal ::
  "(timestamp \<Rightarrow> string) \<Rightarrow> string option \<Rightarrow> mem_storage \<Rightarrow> uuid \<Rightarrow> modal_view" where
  "version_modal formatDate token s did =
     (let enabled = (did \<noteq> [] \<and> token \<noteq> None \<and> token \<noteq> Some []);
          vs = (if enabled then (case fst (snd (route_get_versions s did)) of None \<Rightarrow> [] | Some vs \<Rightarrow> vs) else []);
          title = (if enabled then map_option (\<lambda>dd. d_title (fst dd)) (fst (snd (route_get_document s did))) else None)
      in \<lparr>mv_open = (did \<noteq> []), mv_title = title, mv_rows = map (version_row formatDate) vs,
          mv_empty = (vs = [])\<rparr>)"

section \<open>Document card\<close>

text \<open>The card's own state: \<open>isGeneratingSummary\<close> and \<open>isGeneratingTags\<close>.\<close>

record card_state =
  cs_summary :: bool
  cs_tags :: bool

definition card_idle :: card_state where
  "card_idle = \<lparr>cs_summary = False, cs_tags = False\<rparr>"

text \<open>\<open>handleGenerateSummary\<close> and \<open>handleGenerateTags\<close> set their flag; the
  mutations' \<open>onSettled\<close> clear it, on success and on error alike.\<close>

datatype card_event = ClickSummary | ClickTags | SummarySettled | TagsSettled

fun card_step :: "card_event \<Rightarrow> card_state \<Rightarrow> card_state" where
  "card_step ClickSummary cs = (if cs_summary cs then cs else cs\<lparr>cs_summary := True\<rparr>)"
| "card_step ClickTags cs = (if cs_tags cs then cs else cs\<lparr>cs_tags := True\<rparr>)"
| "card_step SummarySettled cs = cs\<lparr>cs_summary := False\<rparr>"
| "card_step TagsSettled cs = cs\<lparr>cs_tags := False\<rparr>"

record card_view =
  cv_title :: string
  cv_menu :: bool
  cv_preview :: string
  cv_tags :: "string list"
  cv_more :: "nat option"
  cv_initials :: string
  cv_author :: string
  cv_version :: nat
  cv_summary_button :: "string \<times> bool"
  cv_tags_button :: "string \<times> bool"

text \<open>The card: the title, the Edit/Delete menu for those who may edit, the preview,
  the tag badges, the author line, the version badge and the two AI buttons with their
  label and whether they are disabled.\<close>

definition card_view :: "auth_user \<Rightarrow> document_with_user \<Rightarrow> card_state \<Rightarrow> card_view" where
  "card_view currentUser du cs =
     \<lparr>cv_title = d_title (fst du), cv_menu = canEdit du currentUser, cv_preview = card_preview du,
      cv_tags = fst (card_tags du), cv_more = snd (card_tags du),
      cv_initials = getInitials (u_name (snd du)), cv_author = u_name (snd du),
      cv_version = d_version (fst du),
      cv_summary_button = (if cs_summary cs then ''Generating...'' else ''AI Summary'', cs_summary cs),
      cv_tags_button = (if cs_tags cs then ''Generating...'' else ''Generate Tags'', cs_tags cs)\<rparr>"

section \<open>Lemmas\<close>

lemma prefix_nav_paths:
  "prefix ''/search'' l \<Longrightarrow> \<not> prefix ''/document/new'' l \<and> \<not> prefix ''/qa'' l \<and> \<not> prefix ''/support'' l"
  "prefix ''/document/new'' l \<Longrightarrow> \<not> prefix ''/qa'' l \<and> \<not> prefix ''/support'' l"
  "prefix ''/qa'' l \<Longrightarrow> \<not> prefix ''/support'' l"
  by (auto simp: prefix_def)

text \<open>
  C40. Wherever the user is, at most one link of the sidebar is highlighted: the paths
  other than \<open>/\<close> are not prefixes of one another, and \<open>/\<close> is active only at \<open>/\<close>.
\<close>

theorem sidebar_nav_one_active: "length (filter snd (sidebar_nav location)) \<le> 1"
  using prefix_nav_paths [of location]
  by (auto simp: sidebar_nav_def nav_items_def isActive_def prefix_def)

theorem sidebar_nav_one_active_witness:
  "length (filter snd (sidebar_nav ''/document/new'')) \<le> 1 \<and> length (filter snd (sidebar_nav ''/qa/x'')) \<le> 1"
  using sidebar_nav_one_active [of "''/document/new''"] sidebar_nav_one_active [of "''/qa/x''"] by simp

lemma sidebar_nav_example:
  "filter snd (sidebar_nav ''/document/new'') = [(''New Document'', True)] \<and>
   filter snd (sidebar_nav ''/document/d1'') = [] \<and>
   filter snd (sidebar_nav ''/'') = [(''Dashboard'', True)]"
  by code_simp



lemma getInitials_U: "getInitials ''U'' = ''U''"
  by (simp add: getInitials_def js_upper_def js_upper_char_def)

lemma version_row_unknown:
  "vr_author (version_row formatDate v) = ''Unknown'' \<and> vr_initials (version_row formatDate v) = ''U''"
  by (simp add: version_row_def version_label_def created_by_name_def text_or_def getInitials_U)

lemma version_modal_rows:
  "vr \<in> set (mv_rows (version_modal formatDate token s did)) \<Longrightarrow> \<exists>v. vr = version_row formatDate v"
  unfolding version_modal_def Let_def modal_view.select_convs by (simp only: set_map) blast



lemma card_step_settled [simp]:
  "\<not> cs_summary (card_step SummarySettled cs)" "\<not> cs_tags (card_step TagsSettled cs)"
  by simp_all

text \<open>A button is disabled exactly while its request runs, and the other button's
  flag is untouched by its events.\<close>

lemma card_buttons:
  "snd (cv_summary_button (card_view u du cs)) = cs_summary cs"
  "snd (cv_tags_button (card_view u du cs)) = cs_tags cs"
  "cs_tags (card_step ClickSummary cs) = cs_tags cs" "cs_tags (card_step SummarySettled cs) = cs_tags cs"
  "cs_summary (card_step ClickTags cs) = cs_summary cs" "cs_summary (card_step TagsSettled cs) = cs_summary cs"
  by (simp_all add: card_view_def)

end
