(* ===== verification/DashboardPage.thy ===== *)
theory DashboardPage
  imports Views
begin

text \<open>
  The dashboard (src/unnamed/part\_001, \<open>Dashboard\<close>) as a page state: the cached
  data of \<open>["/api/documents"]\<close>, the selected tag filters, the sort order, the document
  whose version history is open and the location. Its events toggle filters, change the
  sort, open and close the history dialog, navigate to the editor and delete a document
  after confirmation; a successful delete invalidates the documents query, whose
  refetch is taken as the next fetch of the list. The page renders the statistics, the
  filter bar, the grid of cards of Views.thy and the dialog.
\<close>

section \<open>State and events\<close>

record dashboard_page =
  db_docs :: "document_with_user list option"
  db_filters :: "string list"
  db_sortBy :: string
  db_selected :: "uuid option"
  db_location :: string

definition dashboard_init :: dashboard_page where
  "dashboard_init = \<lparr>db_docs = None, db_filters = [], db_sortBy = ''recent'', db_selected = None,
     db_location = ''/''\<rparr>"

text \<open>The documents query settles with \<open>GET /api/documents\<close>.\<close>

definition db_fetch :: "mem_storage \<Rightarrow> dashboard_page \<Rightarrow> dashboard_page" where
  "db_fetch s p = p\<lparr>db_docs := fst (snd (route_get_documents s))\<rparr>"

datatype db_event =
  ToggleTag string | SortBy string | ShowVersions uuid | CloseVersions | EditDoc uuid | NewDoc

fun db_step :: "db_event \<Rightarrow> dashboard_page \<Rightarrow> dashboard_page" where
  "db_step (ToggleTag t) p = p\<lparr>db_filters := toggleFilter t (db_filters p)\<rparr>"
| "db_step (SortBy v) p = p\<lparr>db_sortBy := v\<rparr>"
| "db_step (ShowVersions did) p = p\<lparr>db_selected := Some did\<rparr>"
| "db_step CloseVersions p = p\<lparr>db_selected := None\<rparr>"
| "db_step (EditDoc did) p = p\<lparr>db_location := ''/document/edit/'' @ did\<rparr>"
| "db_step NewDoc p = p\<lparr>db_location := ''/document/new''\<rparr>"

text \<open>\<open>handleDelete\<close> and \<open>deleteMutation\<close>: without confirmation nothing happens; on
  success the list is fetched again from the store the delete left; on an error (a
  toast) the page keeps its data.\<close>

definition db_delete ::
  "bool \<Rightarrow> mem_storage \<Rightarrow> auth_user \<Rightarrow> uuid \<Rightarrow> dashboard_page \<Rightarrow> dashboard_page \<times> mem_storage" where
  "db_delete confirmed s user did p =
     (case dashboard_delete confirmed s user did of
        None \<Rightarrow> (p, s)
      | Some (code, _, s') \<Rightarrow> (if code = 200 then db_fetch s' p else p, s'))"

section \<open>Rendering\<close>

text \<open>The badges of the tags not selected, the first five.\<close>

definition available_tags :: "document_with_user list \<Rightarrow> string list \<Rightarrow> string list" where
  "available_tags docs selected = take 5 (filter (\<lambda>t. t \<notin> set selected) (allTags docs))"

record dashboard_view =
  dv_stats :: dashboard_stats
  dv_active :: "string list"
  dv_available :: "string list"
  dv_sort :: string
  dv_grid :: "card_view list option"
  dv_modal :: "modal_view option"

text \<open>The page with \<open>documents = []\<close> before the data arrives: skeletons while the
  enabled query loads, else a card per filtered and sorted document (in the state
  \<open>cards\<close> of each card), and the dialog of the selected document.\<close>

definition dashboard_render ::
  "(string \<Rightarrow> 'k::linorder) \<Rightarrow> (timestamp \<Rightarrow> string) \<Rightarrow> string option \<Rightarrow> auth_user \<Rightarrow> (uuid \<Rightarrow> card_state)
     \<Rightarrow> mem_storage \<Rightarrow> dashboard_page \<Rightarrow> dashboard_view" where
  "dashboard_render collate formatDate token user cards s p =
     (let docs = (case db_docs p of None \<Rightarrow> [] | Some ds \<Rightarrow> ds) in
      \<lparr>dv_stats = stats docs, dv_active = db_filters p, dv_available = available_tags docs (db_filters p),
       dv_sort = db_sortBy p,
       dv_grid = (if db_docs p = None \<and> token \<noteq> None \<and> token \<noteq> Some [] then None
                  else Some (map (\<lambda>du. card_view user du (cards (d_id (fst du))))
                               (filteredDocuments collate (db_filters p) (db_sortBy p) docs))),
       dv_modal = map_option (version_modal formatDate token s) (db_selected p)\<rparr>)"

section \<open>Lemmas\<close>

lemma users_deleteDocument [simp]: "users (snd (deleteDocument s did)) = users s"
  by (auto simp: deleteDocument_def Let_def split: option.split)

lemma keyed_values_delete:
  "keyed m key \<Longrightarrow> jm_values (jm_delete m k) = filter (\<lambda>v. key v \<noteq> k) (jm_values m)"
  by (induction m) (auto simp: jm_values_def jm_delete_def keyed_def)

lemma map_filter_filter_fst:
  "(\<And>x y. f x = Some y \<Longrightarrow> fst y = x) \<Longrightarrow>
   List.map_filter f (filter P xs) = filter (\<lambda>y. P (fst y)) (List.map_filter f xs)"
  by (induction xs) (auto simp: map_filter_def split: option.split)

text \<open>Deleting a document removes exactly it from the listing, in the listing's order.\<close>

lemma getDocuments_after_delete:
  assumes "store_typed s" and "deleteDocument s did = (True, s')"
  shows "getDocuments s' = filter (\<lambda>du. d_id (fst du) \<noteq> did) (getDocuments s)"
proof -
  have docs: "jm_values (documents s') = filter (\<lambda>d. d_id d \<noteq> did) (jm_values (documents s))"
    using deleteDocument_True [OF assms(2)] assms(1)
    by (simp add: keyed_values_delete store_typed_def)
  have u: "getUser s' = getUser s"
    using users_deleteDocument [of s did] assms(2) by (simp add: getUser_def fun_eq_iff)
  show ?thesis
    unfolding getDocuments_def docs u
    by (subst map_filter_filter_fst) (auto simp: filter_sort)
qed

lemma db_delete_200:
  "route_delete_document s user did = (200, r, s') \<Longrightarrow>
   db_delete True s user did p = (p\<lparr>db_docs := Some (getDocuments s')\<rparr>, s')"
  by (simp add: db_delete_def dashboard_delete_def db_fetch_def route_get_documents_def)

lemma route_delete_200_deletes:
  "route_delete_document s user did = (200, r, s') \<Longrightarrow> deleteDocument s did = (True, s')"
  by (auto simp: route_delete_document_def split: option.splits if_splits prod.splits)

text \<open>
  C8. In every reachable store, a confirmed delete that the server accepts
  (\<open>DELETE /api/documents/:id\<close> answers 200) leaves the dashboard listing, after the
  invalidated query is fetched again, the documents it listed before, in their order,
  without the deleted one.
\<close>

theorem dashboard_delete_refetches:
  assumes "reachable s" and "route_delete_document s user did = (200, r, s')"
  shows "db_docs (fst (db_delete True s user did p)) = Some (filter (\<lambda>du. d_id (fst du) \<noteq> did) (getDocuments s))"
  using getDocuments_after_delete [OF reachable_typed [OF assms(1)] route_delete_200_deletes [OF assms(2)]]
    db_delete_200 [OF assms(2)] by simp

theorem dashboard_delete_refetches_witness:
  "db_docs (fst (db_delete True ex_route_store ex_token_A ''d1'' dashboard_init)) = Some []"
proof -
  let ?r = "route_delete_document ex_route_store ex_token_A ''d1''"
  have st: "fst ?r = 200"
    by (simp add: ex_route_unfold route_delete_document_def deleteDocument_def)
  have e: "?r = (200, fst (snd ?r), snd (snd ?r))"
    using st by (metis prod.collapse)
  have "filter (\<lambda>du. d_id (fst du) \<noteq> ''d1'') (getDocuments ex_route_store) = []"
    by code_simp
  then show ?thesis
    using dashboard_delete_refetches [OF ex_route_reachable e, of dashboard_init] by simp
qed

lemma dashboard_no_confirm: "db_delete False s user did p = (p, s)"
  by (simp add: db_delete_def dashboard_delete_def)

lemma available_tags_bounds:
  "length (available_tags docs sel) \<le> 5 \<and> set (available_tags docs sel) \<inter> set sel = {} \<and>
   set (available_tags docs sel) \<subseteq> set (allTags docs)"
  by (auto simp: available_tags_def dest: in_set_takeD)

lemma dashboard_delete_example:
  "db_delete True ex_route_store ex_token_A ''d1'' (db_fetch ex_route_store dashboard_init) =
     (dashboard_init\<lparr>db_docs := Some []\<rparr>, snd (snd (route_delete_document ex_route_store ex_token_A ''d1''))) \<and>
   length (the (db_docs (db_fetch ex_route_store dashboard_init))) = 1 \<and>
   totalDocs (dv_stats (dashboard_render (\<lambda>_. 0::nat) (\<lambda>_. []) (Some ''t'') ex_token_A (\<lambda>_. card_idle) ex_route_store
      (fst (db_delete True ex_route_store ex_token_A ''d1'' (db_fetch ex_route_store dashboard_init))))) = 0"
  by code_simp

end
