(* ===== verification/EditorPage.thy ===== *)
theory EditorPage
  imports Client
begin

text \<open>
  The document editor (src/client/src/pages/document-editor.tsx, \<open>DocumentEditor\<close>)
  as a state machine around the form and requests of Client.thy: the route's document
  id, the form, the query of \<open>GET /api/documents/:id\<close> and the form reset it
  triggers, the two AI mutations and the save mutation, each recorded with the values
  it was started with, and the location the page navigates to. A request's answer is
  the route of Routes.thy on the store it reaches. Clicking a button records the
  request; its settling applies \<open>onSuccess\<close>, \<open>onError\<close> and \<open>onSettled\<close>.
\<close>

section \<open>State\<close>

record editor_page =
  ep_documentId :: "uuid option"
  ep_form :: doc_form
  ep_document :: "document option"
  ep_loading :: bool
  ep_summary_req :: "(string \<times> string) option"
  ep_tags_req :: "(string \<times> string) option"
  ep_save :: "doc_form option"
  ep_location :: string

text \<open>\<open>defaultValues\<close> of \<open>useForm\<close>.\<close>

definition form_defaults :: doc_form where
  "form_defaults = \<lparr>f_title = [], f_content = [], f_summary = [], f_tags = Some []\<rparr>"

text \<open>Mounting the page at \<open>/document/new\<close> (no id) or \<open>/document/edit/:id\<close>; the
  document query is enabled, and so loading, when editing with a truthy token.\<close>

definition editor_open :: "string option \<Rightarrow> uuid option \<Rightarrow> editor_page" where
  "editor_open token did =
     \<lparr>ep_documentId = did, ep_form = form_defaults, ep_document = None,
      ep_loading = (did \<noteq> None \<and> token \<noteq> None \<and> token \<noteq> Some []),
      ep_summary_req = None, ep_tags_req = None, ep_save = None,
      ep_location = (case did of None \<Rightarrow> ''/document/new'' | Some d \<Rightarrow> ''/document/edit/'' @ d)\<rparr>"

definition editor_isEditing :: "editor_page \<Rightarrow> bool" where
  "editor_isEditing ep \<longleftrightarrow> ep_documentId ep \<noteq> None"

text \<open>The document query settles: with the document, the effect resets the form to it;
  on an error (404) the data stays undefined and the form keeps its defaults.\<close>

definition editor_loaded :: "mem_storage \<Rightarrow> editor_page \<Rightarrow> editor_page" where
  "editor_loaded s ep =
     (case ep_documentId ep of
        None \<Rightarrow> ep
      | Some did \<Rightarrow>
          (case fst (snd (route_get_document s did)) of
             None \<Rightarrow> ep\<lparr>ep_loading := False\<rparr>
           | Some dd \<Rightarrow> ep\<lparr>ep_loading := False, ep_document := Some (fst dd), ep_form := form_load (fst dd)\<rparr>))"

section \<open>The AI buttons\<close>

text \<open>\<open>handleGenerateSummary\<close>: the flag is set and \<open>mutate\<close> reads the title and
  content of the form at once.\<close>

definition editor_click_summary :: "editor_page \<Rightarrow> editor_page" where
  "editor_click_summary ep =
     (if ep_summary_req ep \<noteq> None then ep
      else ep\<lparr>ep_summary_req := Some (f_title (ep_form ep), f_content (ep_form ep))\<rparr>)"

definition editor_click_tags :: "editor_page \<Rightarrow> editor_page" where
  "editor_click_tags ep =
     (if ep_tags_req ep \<noteq> None then ep
      else ep\<lparr>ep_tags_req := Some (f_title (ep_form ep), f_content (ep_form ep))\<rparr>)"

text \<open>The summary mutation settles: it threw before any request for a missing title or
  content; otherwise \<open>onSuccess\<close> sets the summary field of the form as it is now.
  \<open>onSettled\<close> clears the flag.\<close>

definition editor_settle_summary ::
  "mem_storage \<Rightarrow> (gen_request \<Rightarrow> ai_call) \<Rightarrow> editor_page \<Rightarrow> editor_page" where
  "editor_settle_summary s gen ep =
     (case ep_summary_req ep of
        None \<Rightarrow> ep
      | Some (title, content) \<Rightarrow>
          (let ep' = ep\<lparr>ep_summary_req := None\<rparr> in
           if title = [] \<or> content = [] then ep'
           else (case route_summarize s (Some title) (Some content) (gen (summary_request title content)) of
                   (code, r, _) \<Rightarrow>
                     if code = 200 \<and> r \<noteq> None then ep'\<lparr>ep_form := (ep_form ep)\<lparr>f_summary := the r\<rparr>\<rparr>
                     else ep')))"

definition editor_settle_tags ::
  "(string \<Rightarrow> string list option) \<Rightarrow> mem_storage \<Rightarrow> (gen_request \<Rightarrow> ai_call) \<Rightarrow> editor_page \<Rightarrow> editor_page" where
  "editor_settle_tags parse s gen ep =
     (case ep_tags_req ep of
        None \<Rightarrow> ep
      | Some (title, content) \<Rightarrow>
          (let ep' = ep\<lparr>ep_tags_req := None\<rparr> in
           if title = [] \<or> content = [] then ep'
           else (case route_generate_tags parse s (Some title) (Some content) (gen (tags_request title content)) of
                   (code, r, _) \<Rightarrow>
                     if code = 200 \<and> r \<noteq> None then ep'\<lparr>ep_form := (ep_form ep)\<lparr>f_tags := Some (js_join '', '' (the r))\<rparr>\<rparr>
                     else ep')))"

section \<open>Saving\<close>

text \<open>\<open>form.handleSubmit(onSubmit)\<close>: the schema accepts every string, so the form is
  sent as it is; the button is disabled while a save is pending.\<close>

definition editor_submit :: "editor_page \<Rightarrow> editor_page" where
  "editor_submit ep = (if ep_save ep \<noteq> None then ep else ep\<lparr>ep_save := Some (ep_form ep)\<rparr>)"

text \<open>The save settles: \<open>PUT\<close> when editing, else \<open>POST\<close>; on success the page
  navigates to \<open>/\<close>, on an error (a toast) it stays with the form as it is.\<close>

definition editor_settle_save ::
  "mem_storage \<Rightarrow> auth_user \<Rightarrow> timestamp \<Rightarrow> stamp \<Rightarrow> stamp \<Rightarrow> stamp \<Rightarrow> editor_page \<Rightarrow> editor_page \<times> mem_storage" where
  "editor_settle_save s user now k kv ka ep =
     (case ep_save ep of
        None \<Rightarrow> (ep, s)
      | Some f \<Rightarrow>
          (case editor_save s user (ep_documentId ep) f now k kv ka of
             (code, _, s') \<Rightarrow>
               (if code = 200 then ep\<lparr>ep_save := None, ep_location := ''/''\<rparr> else ep\<lparr>ep_save := None\<rparr>, s')))"

section \<open>Rendering\<close>

text \<open>The skeleton while the document loads; otherwise the heading and the form with
  the three buttons, each with its label and whether it is disabled.\<close>

datatype editor_view =
  EditorSkeleton
| EditorForm string doc_form "string \<times> bool" "string \<times> bool" "string \<times> bool"

definition editor_render :: "editor_page \<Rightarrow> editor_view" where
  "editor_render ep =
     (if editor_isEditing ep \<and> ep_loading ep then EditorSkeleton
      else EditorForm (if editor_isEditing ep then ''Edit Document'' else ''Create New Document'') (ep_form ep)
        (if ep_summary_req ep \<noteq> None then ''Generating...'' else ''Generate Summary'', ep_summary_req ep \<noteq> None)
        (if ep_tags_req ep \<noteq> None then ''Generating...'' else ''Generate Tags'', ep_tags_req ep \<noteq> None)
        (if ep_save ep \<noteq> None then ''Saving...''
         else if editor_isEditing ep then ''Update Document'' else ''Create Document'', ep_save ep \<noteq> None))"

section \<open>Events\<close>

text \<open>The events of the page: the query settling, typing (the form is not shown while
  loading), the buttons (not while disabled), the requests settling on any store, and
  leaving through Back or Cancel.\<close>

inductive editor_step :: "editor_page \<Rightarrow> editor_page \<Rightarrow> bool" where
  load: "ep_loading ep \<Longrightarrow> editor_step ep (editor_loaded s ep)"
| edit: "editor_render ep \<noteq> EditorSkeleton \<Longrightarrow> editor_step ep (ep\<lparr>ep_form := f\<rparr>)"
| click_summary: "editor_render ep \<noteq> EditorSkeleton \<Longrightarrow> editor_step ep (editor_click_summary ep)"
| click_tags: "editor_render ep \<noteq> EditorSkeleton \<Longrightarrow> editor_step ep (editor_click_tags ep)"
| settle_summary: "editor_step ep (editor_settle_summary s gen ep)"
| settle_tags: "editor_step ep (editor_settle_tags parse s gen ep)"
| submit: "editor_render ep \<noteq> EditorSkeleton \<Longrightarrow> editor_step ep (editor_submit ep)"
| settle_save: "editor_step ep (fst (editor_settle_save s user now k kv ka ep))"
| leave: "editor_step ep (ep\<lparr>ep_location := ''/''\<rparr>)"

inductive editor_reachable :: "string option \<Rightarrow> uuid option \<Rightarrow> editor_page \<Rightarrow> bool" where
  init: "editor_reachable token did (editor_open token did)"
| step: "editor_reachable token did ep \<Longrightarrow> editor_step ep ep' \<Longrightarrow> editor_reachable token did ep'"

text \<open>While the document loads, the page shows the skeleton, has sent nothing and
  keeps its defaults; the route's id never changes.\<close>

definition editor_inv :: "uuid option \<Rightarrow> editor_page \<Rightarrow> bool" where
  "editor_inv did ep \<longleftrightarrow> ep_documentId ep = did \<and>
     (ep_loading ep \<longrightarrow> editor_isEditing ep \<and> ep_form ep = form_defaults \<and> ep_document ep = None \<and>
        ep_summary_req ep = None \<and> ep_tags_req ep = None \<and> ep_save ep = None)"

text \<open>Editing the document \<open>zz\<close>, which the example store does not hold.\<close>

definition ex_editor_missing :: editor_page where
  "ex_editor_missing = editor_submit ((editor_loaded ex_search_store (editor_open (Some ''t'') (Some ''zz'')))
     \<lparr>ep_form := form_defaults\<lparr>f_title := ''Draft''\<rparr>\<rparr>)"

section \<open>Lemmas\<close>

lemma editor_render_skeleton:
  "editor_render ep = EditorSkeleton \<longleftrightarrow> editor_isEditing ep \<and> ep_loading ep"
  by (simp add: editor_render_def)

lemma editor_loaded_not_loading: "ep_documentId ep \<noteq> None \<Longrightarrow> \<not> ep_loading (editor_loaded s ep)"
  by (auto simp: editor_loaded_def split: option.split)

lemma editor_settle_save_fst:
  "fst (editor_settle_save s user now k kv ka ep) = ep \<or>
   fst (editor_settle_save s user now k kv ka ep) = ep\<lparr>ep_save := None, ep_location := ''/''\<rparr> \<or>
   fst (editor_settle_save s user now k kv ka ep) = ep\<lparr>ep_save := None\<rparr>"
  by (auto simp: editor_settle_save_def split: option.split prod.split)

lemma editor_step_inv: "editor_step ep ep' \<Longrightarrow> editor_inv did ep \<Longrightarrow> editor_inv did ep'"
proof (induction rule: editor_step.induct)
  case (load ep s)
  then show ?case
    using editor_loaded_not_loading [of ep s]
    by (auto simp: editor_inv_def editor_isEditing_def editor_loaded_def split: option.splits)
next
  case (settle_summary ep s gen)
  then show ?case
    by (auto simp: editor_inv_def editor_settle_summary_def Let_def split: option.splits prod.splits)
next
  case (settle_tags ep parse s gen)
  then show ?case
    by (auto simp: editor_inv_def editor_settle_tags_def Let_def split: option.splits prod.splits)
next
  case (settle_save ep s user now k kv ka)
  then show ?case
    using editor_settle_save_fst [of s user now k kv ka ep] by (auto simp: editor_inv_def editor_isEditing_def)
qed (auto simp: editor_inv_def editor_render_skeleton editor_click_summary_def editor_click_tags_def
       editor_submit_def editor_isEditing_def)

lemma editor_reachable_inv: "editor_reachable token did ep \<Longrightarrow> editor_inv did ep"
proof (induction rule: editor_reachable.induct)
  case (init token did)
  then show ?case by (simp add: editor_inv_def editor_open_def editor_isEditing_def)
next
  case (step token did ep ep')
  then show ?case by (blast intro: editor_step_inv)
qed

text \<open>Clicking \<open>Generate Summary\<close> and letting it settle with no typing in between is
  the atomic button of Client.thy.\<close>

lemma editor_summary_refines:
  "ep_summary_req ep = None \<Longrightarrow>
   ep_form (editor_settle_summary s gen (editor_click_summary ep)) = editor_generate_summary s gen (ep_form ep) \<and>
   ep_summary_req (editor_settle_summary s gen (editor_click_summary ep)) = None"
  by (simp add: editor_settle_summary_def editor_click_summary_def editor_generate_summary_def Let_def
      split: prod.split)

lemma editor_tags_refines:
  "ep_tags_req ep = None \<Longrightarrow>
   ep_form (editor_settle_tags parse s gen (editor_click_tags ep)) = editor_generate_tags parse s gen (ep_form ep) \<and>
   ep_tags_req (editor_settle_tags parse s gen (editor_click_tags ep)) = None"
  by (simp add: editor_settle_tags_def editor_click_tags_def editor_generate_tags_def Let_def
      split: prod.split)

section \<open>Properties\<close>

text \<open>
  C30. Typing while the AI summary is generated: the request carries the title and
  content of the moment of the click, and when it settles the summary field gets what
  was generated for them while every other field keeps what was typed in between; a
  refused or failed request leaves the typed form as it is.
\<close>

theorem editor_summary_interleaved:
  "ep_summary_req ep = None \<Longrightarrow>
   ep_form (editor_settle_summary s gen ((editor_click_summary ep)\<lparr>ep_form := f\<rparr>)) =
     f\<lparr>f_summary := f_summary (editor_generate_summary s gen (ep_form ep\<lparr>f_summary := f_summary f\<rparr>))\<rparr>"
  by (simp add: editor_settle_summary_def editor_click_summary_def editor_generate_summary_def Let_def
      split: prod.split)

theorem editor_summary_interleaved_witness:
  "ep_form (editor_settle_summary ex_search_store (\<lambda>_. AiReturned (Some ''Short'')) ((editor_click_summary
      ((editor_open None None)\<lparr>ep_form := form_defaults\<lparr>f_title := ''T'', f_content := ''C''\<rparr>\<rparr>))
      \<lparr>ep_form := form_defaults\<lparr>f_title := ''T2'', f_content := ''C2''\<rparr>\<rparr>)) =
   form_defaults\<lparr>f_title := ''T2'', f_content := ''C2'', f_summary := ''Short''\<rparr>"
proof -
  have "ep_summary_req ((editor_open None None)\<lparr>ep_form := form_defaults\<lparr>f_title := ''T'', f_content := ''C''\<rparr>\<rparr>) = None"
    by (simp add: editor_open_def)
  from editor_summary_interleaved [OF this, of ex_search_store "\<lambda>_. AiReturned (Some ''Short'')"
      "form_defaults\<lparr>f_title := ''T2'', f_content := ''C2''\<rparr>"]
  show ?thesis
    by (simp add: editor_open_def editor_generate_summary_def route_summarize_def text_or_def form_defaults_def)
qed

lemma ex_editor_missing_save:
  "editor_render (editor_loaded ex_search_store (editor_open (Some ''t'') (Some ''zz''))) =
     EditorForm ''Edit Document'' form_defaults (''Generate Summary'', False) (''Generate Tags'', False)
       (''Update Document'', False) \<and>
   editor_settle_save ex_search_store \<lparr>au_id = ''A'', au_email = ''a@example.org'', au_name = ''Ann'', au_role = ''user''\<rparr>
       5 (''d9'', 5) (''v9'', 5) (''a9'', 5) ex_editor_missing =
     (ex_editor_missing\<lparr>ep_save := None\<rparr>, ex_search_store) \<and>
   ep_location ex_editor_missing = ''/document/edit/zz'' \<and>
   f_title (ep_form ex_editor_missing) = ''Draft''"
  by code_simp

end
