(* ===== verification/StorageApi.thy ===== *)
theory StorageApi
  imports Routes
begin

text \<open>
  The interface \<open>IStorage\<close> (src/unnamed/part\_004) that the routes are written
  against, as a record of operations over a store type \<open>'s\<close>; \<open>MemStorage\<close> is its
  instance \<open>mem_istorage\<close>. \<open>istorage_contract\<close> states what a caller may rely on
  from any implementation, relative to an invariant of its stores: a deleted document
  and its versions are gone, an update answers the next version of the stored
  document and is then what is read, and a created document is read back with its
  author. \<open>MemStorage\<close> meets it on every reachable store.
\<close>

section \<open>The interface\<close>

record 's istorage =
  is_getUser :: "'s \<Rightarrow> uuid \<Rightarrow> user option"
  is_getUserByEmail :: "'s \<Rightarrow> string \<Rightarrow> user option"
  is_createUser :: "'s \<Rightarrow> insert_user \<Rightarrow> stamp \<Rightarrow> user \<times> 's"
  is_getDocuments :: "'s \<Rightarrow> document_with_user list"
  is_getDocument :: "'s \<Rightarrow> uuid \<Rightarrow> document_with_details option"
  is_createDocument :: "'s \<Rightarrow> insert_document \<Rightarrow> uuid \<Rightarrow> stamp \<Rightarrow> stamp \<Rightarrow> stamp \<Rightarrow> document \<times> 's"
  is_updateDocument ::
    "'s \<Rightarrow> uuid \<Rightarrow> document_update \<Rightarrow> uuid \<Rightarrow> timestamp \<Rightarrow> stamp \<Rightarrow> stamp \<Rightarrow> document option \<times> 's"
  is_deleteDocument :: "'s \<Rightarrow> uuid \<Rightarrow> bool \<times> 's"
  is_searchDocuments :: "'s \<Rightarrow> string \<Rightarrow> document_with_user list"
  is_getDocumentVersions :: "'s \<Rightarrow> uuid \<Rightarrow> document_version list"
  is_createDocumentVersion :: "'s \<Rightarrow> insert_document_version \<Rightarrow> stamp \<Rightarrow> document_version \<times> 's"
  is_getRecentActivities :: "'s \<Rightarrow> nat \<Rightarrow> (activity \<times> user \<times> document option) list"
  is_createActivity :: "'s \<Rightarrow> insert_activity \<Rightarrow> stamp \<Rightarrow> activity \<times> 's"

text \<open>\<open>class MemStorage implements IStorage\<close>.\<close>

definition mem_istorage :: "mem_storage istorage" where
  "mem_istorage =
     \<lparr>is_getUser = getUser, is_getUserByEmail = getUserByEmail, is_createUser = createUser,
      is_getDocuments = getDocuments, is_getDocument = getDocument, is_createDocument = createDocument,
      is_updateDocument = updateDocument, is_deleteDocument = deleteDocument,
      is_searchDocuments = searchDocuments, is_getDocumentVersions = getDocumentVersions,
      is_createDocumentVersion = createDocumentVersion, is_getRecentActivities = getRecentActivities,
      is_createActivity = createActivity\<rparr>"

section \<open>The contract\<close>

definition istorage_contract :: "('s \<Rightarrow> bool) \<Rightarrow> 's istorage \<Rightarrow> bool" where
  "istorage_contract ok api \<longleftrightarrow>
     (\<forall>s did s'. ok s \<longrightarrow> is_deleteDocument api s did = (True, s') \<longrightarrow>
        is_getDocument api s' did = None \<and> is_getDocumentVersions api s' did = []) \<and>
     (\<forall>s did upd ed t kv ka d' s' d u vs. ok s \<longrightarrow>
        is_updateDocument api s did upd ed t kv ka = (Some d', s') \<longrightarrow>
        is_getDocument api s did = Some (d, u, vs) \<longrightarrow>
        d_version d' = Suc (d_version d) \<and> (\<exists>vs'. is_getDocument api s' did = Some (d', u, vs'))) \<and>
     (\<forall>s ins ed did t kv ka d s' u. ok s \<longrightarrow>
        is_createDocument api s ins ed (did, t) kv ka = (d, s') \<longrightarrow> is_getUser api s ed = Some u \<longrightarrow>
        d_id d = did \<and> d_version d = 1 \<and> (\<exists>vs. is_getDocument api s' did = Some (d, u, vs)))"

section \<open>MemStorage meets it\<close>

lemma mem_contract_delete:
  "deleteDocument s did = (True, s') \<Longrightarrow> getDocument s' did = None \<and> getDocumentVersions s' did = []"
  using getDocument_None_after_delete versions_gone_after_delete by blast

lemma mem_contract_update:
  assumes "updateDocument s did upd ed t kv ka = (Some d', s')" and "getDocument s did = Some (d, u, vs)"
  shows "d_version d' = Suc (d_version d) \<and> (\<exists>vs'. getDocument s' did = Some (d', u, vs'))"
proof -
  have g: "jm_get (documents s) did = Some d" "getUser s (d_createdBy d) = Some u"
    using getDocument_Some [OF assms(2)] by simp_all
  obtain vid tv aid ta where k: "kv = (vid, tv)" "ka = (aid, ta)" by (cases kv, cases ka)
  let ?d = "(merge_update d upd)\<lparr>d_updatedAt := t, d_version := d_version d + 1\<rparr>"
  obtain ver act where eq: "updateDocument s did upd ed t kv ka =
      (Some ?d, s\<lparr>documents := jm_set (documents s) did ?d,
                 documentVersions := jm_set (documentVersions s) vid ver,
                 activities := jm_set (activities s) aid act\<rparr>)"
    using updateDocument_eq [OF g(1) refl] k by blast
  have e: "d' = ?d \<and> s' = s\<lparr>documents := jm_set (documents s) did ?d,
                 documentVersions := jm_set (documentVersions s) vid ver,
                 activities := jm_set (activities s) aid act\<rparr>"
    using assms(1) unfolding eq by (metis option.inject prod.inject)
  have "d_createdBy ?d = d_createdBy d"
    by (simp add: merge_update_def)
  then show ?thesis
    using g(2) e by (simp add: getDocument_def getUser_def)
qed

lemma mem_contract_create:
  assumes "createDocument s ins ed (did, t) kv ka = (d, s')" and "getUser s ed = Some u"
  shows "d_id d = did \<and> d_version d = 1 \<and> (\<exists>vs. getDocument s' did = Some (d, u, vs))"
proof -
  obtain vid tv aid ta where k: "kv = (vid, tv)" "ka = (aid, ta)" by (cases kv, cases ka)
  let ?d = "\<lparr>d_id = did, d_title = ins_title ins, d_content = ins_content ins,
             d_summary = js_or_null (ins_summary ins), d_tags = Some (js_or_nil (ins_tags ins)),
             d_createdBy = ed, d_createdAt = t, d_updatedAt = t, d_version = 1\<rparr>"
  obtain ver act where eq: "createDocument s ins ed (did, t) kv ka =
      (?d, s\<lparr>documents := jm_set (documents s) did ?d,
             documentVersions := jm_set (documentVersions s) vid ver,
             activities := jm_set (activities s) aid act\<rparr>)"
    using createDocument_eq [of ?d did ins ed t s vid tv aid ta] k by blast
  then show ?thesis
    using assms by (auto simp: getDocument_def getUser_def)
qed

text \<open>
  C29. \<open>MemStorage\<close> implements the contract of \<open>IStorage\<close> on every reachable store:
  a successful delete leaves neither the document nor a version of it, an update of a
  stored document returns its next version and is what is then read, with the same
  author, and a created document is read back with its author, as version one.
\<close>

theorem mem_istorage_contract: "istorage_contract reachable mem_istorage"
  unfolding istorage_contract_def mem_istorage_def
  using mem_contract_delete mem_contract_update mem_contract_create by simp

theorem mem_istorage_contract_witness:
  "getDocument (snd (deleteDocument ex_route_store ''d1'')) ''d1'' = None \<and>
   getDocumentVersions (snd (deleteDocument ex_route_store ''d1'')) ''d1'' = []"
proof -
  have "jm_get (documents ex_route_store) ''d1'' \<noteq> None"
    by (simp add: ex_route_unfold)
  then have d: "deleteDocument ex_route_store ''d1'' = (True, snd (deleteDocument ex_route_store ''d1''))"
    using deleteDocument_found by (metis prod.collapse)
  have "istorage_contract reachable mem_istorage"
    by (rule mem_istorage_contract)
  then have "\<forall>s did s'. reachable s \<longrightarrow> deleteDocument s did = (True, s') \<longrightarrow>
      getDocument s' did = None \<and> getDocumentVersions s' did = []"
    by (simp add: istorage_contract_def mem_istorage_def)
  then show ?thesis
    using ex_route_reachable d by metis
qed

end
