(* ===== verification/Spec2Isabelle.thy ===== *)
theory Spec2Isabelle
  imports ChatView SearchPage DashboardPage EditorPage StorageApi
begin

text \<open>
  \<^bold>\<open>A verification development of the AI knowledge hub (CodeMaster-K/AI-PCKH).\<close>

  \<^bold>\<open>The program.\<close> An Express server keeps users, documents, document versions and
  activities in an in-memory store (\<open>MemStorage\<close>, src/unnamed/part\_004) over four
  JavaScript \<open>Map\<close>s; its HTTP API (\<open>registerRoutes\<close>, src/unnamed/part\_003)
  authenticates requests with a JWT (src/server/services/auth.ts), enforces the
  author-or-admin rule on PUT and DELETE, and delegates summaries, tags, semantic
  ranking and question answering to a generative model (src/server/services/gemini.ts).
  The React client (src/client, src/unnamed/part\_000 to part\_002) lists, filters and
  edits documents, searches, and chats with the Q\&A assistant through that API.

  \<^bold>\<open>Theories, bottom up.\<close>
  \<^item> Prelude: type names (\<open>uuid\<close>, \<open>timestamp\<close>, \<open>stamp\<close> = a fresh UUID with the
    current time), the coercions \<open>x || null\<close> and \<open>x || []\<close>, generic list and
    sorting lemmas, the theorem collections.
  \<^item> JsMap: a \<open>Map\<close> as an insertion-ordered association list, with \<open>get\<close>,
    \<open>set\<close>, \<open>delete\<close>, \<open>values()\<close> and the delete-while-iterating-a-snapshot loop of
    \<open>deleteDocument\<close>; refinement to HOL maps through \<open>map_of\<close> and the loop proved
    equal to a filter.
  \<^item> Schema: the tables and insert types of src/shared/schema.ts as records;
    \<open>Partial<InsertDocument>\<close> tells an omitted field from an explicit \<open>null\<close>.
  \<^item> Storage: every method of \<open>MemStorage\<close> as a function from the store record
    \<open>mem_storage\<close> (its four maps) to the result and the new store;
    \<open>crypto.randomUUID()\<close> and \<open>new Date()\<close> are arguments. Each handler awaits only
    the in-memory store, so it runs to completion within one drain of the microtask
    queue and is modelled as one atomic step.
  \<^item> StoreInv: runs of the store as the step relation \<open>store_step\<close> (each
    mutating method with fresh identifiers) and \<open>reachable\<close>; the invariant
    \<open>store_inv\<close> (keys distinct, no orphan rows, per document the versions
    \<open>1..N\<close> with a snapshot at \<open>N\<close> and \<open>N\<close> activities) proved by rule induction,
    one preservation lemma per method.
  \<^item> StoreTyping: the typing of the tables (every record stored under its own id,
    versions at least 1), preserved by every step, and the agreement of the document
    list with reading a document by id.
  \<^item> Search: \<open>searchDocuments\<close> (ASCII \<open>toLowerCase\<close>, \<open>includes\<close>) and the
    post-processing of \<open>performSemanticSearch\<close> given what the model returned.
  \<^item> Auth: the token payload and \<open>generateToken\<close> over an abstract signature,
    \<open>authenticateToken\<close> (the bearer word of the header, an abstract verifier) and
    \<open>requireAdmin\<close>; \<open>split\<close> and \<open>join\<close>.
  \<^item> Routes: each route handler as a function to (status, payload, store); register
    and login answer the session \<open>{ token, user }\<close>.
  \<^item> StorageApi: the interface \<open>IStorage\<close> as a record of operations over a store
    type, \<open>MemStorage\<close> as its instance, and the contract a caller relies on (a deleted
    document and its versions are gone, an update is the next version and is read back,
    a created document is read back with its author), met on every reachable store.
  \<^item> Gemini: the four service functions with their prompts and requests over an
    abstract model \<open>gen\<close> and an abstract \<open>JSON.parse\<close>, and their composition
    with the routes.
  \<^item> Client: the dashboard's filter, sort, statistics, filter toggling and delete,
    and the document editor's form load, tag parsing, save and AI buttons, composed
    with the routes and the model service.
  \<^item> Chat: the Q\&A page as a state record and the step relation \<open>chat_step\<close>
    (type, submit, settle through \<open>POST /api/ai/qa\<close>, clear) with its invariant
    and its progress.
  \<^item> Pages: the document card (permission check, AI buttons and the cache they
    patch, preview, tags, dates), the version-history rows, the sidebar (initials,
    active link, activity feed), the search page's request, the router and the
    \<open>useUser\<close> session hook.
  \<^item> Highlight: the search page's \<open>highlightText\<close>: \<open>text.split(regex)\<close> as the
    ECMAScript split loop \<open>js_regex_split\<close> over a literal pattern, proved to return
    and to equal the scan \<open>split_ci\<close>, and the stateful \<open>regex.test\<close> that marks
    the pieces.
  \<^item> SearchPage: the search page (search.tsx) as the record \<open>search_page\<close> (input,
    search type, \<open>hasSearched\<close>, the react-query cache keyed by query and type, the
    request in flight) with the step relation \<open>sp_step\<close> (typing, the radio group,
    \<open>handleSearch\<close>, the retry button, the answer of \<open>GET /api/search\<close> on any
    store) and the rendering \<open>sp_render\<close> of the results area and its cards.
  \<^item> ChatView: what the Q\&A page renders from its state: the clear button, the
    knowledge-base card of \<open>GET /api/documents\<close>, the welcome screen or the bubbles
    (answers split into paragraphs), the thinking indicator and the disabled controls.
  \<^item> Views: the sidebar's navigation, feed and user panel, the version-history dialog
    with its two queries, the document card's rendering with the two flags that
    disable its AI buttons (src/unnamed/part\_002), and the signed-in layout.
  \<^item> EditorPage: the document editor as the record \<open>editor_page\<close> (route id, form,
    document query, the AI and save mutations each recorded with the values it was
    started with, location) with the step relation \<open>editor_step\<close>, its invariant
    (nothing is sent while the document loads) and its rendering; clicking and settling
    a button refines the atomic buttons of Client.
  \<^item> DashboardPage: the dashboard's state (documents data, tag filters, sort, open
    history dialog, location), its events, the confirmed delete whose refetch lists the
    previous documents without the deleted one, and its rendering (statistics, filter
    bar with at most five available tags, grid of cards, dialog).

  \<^bold>\<open>What is proved\<close> (claims C1 to C40, each right after its statement in words).
  Store invariants over all reachable states: versions numbered \<open>N..1\<close> newest first
  (C1), the newest version a snapshot of the coerced current fields (C2), while an
  update setting the summary to \<open>""\<close> returns that summary and stores \<open>null\<close> in its new
  row (C3), no orphans after deletes (C4), as many activities as versions (C5); the
  effect of \<open>updateDocument\<close> (C6, C7). Typing: every table keyed by its records' ids in
  every reachable state, and a listed document is what reading its id returns (C10).
  Search: literal search is case-insensitive and characterised (C9); the semantic
  ranking keeps exactly the relevances above 30, sorted, each with the document at its
  index (C11); the fallback after a failed model call is the literal search without
  its tag clause (C12). Routes: only author or admin may change a document (C13),
  errors leave the store unchanged (C14), delete cascades (C15), anyone may register
  as admin and then edit every document (C16), distinct e-mails (C17), a document
  posted under a token whose user is not stored is unreachable (C18), registration
  accepts an address that login refuses (C36), the token of a registration
  authenticates its holder (C39). Authentication (C19). \<open>MemStorage\<close> meets the
  contract of \<open>IStorage\<close> (C29). Model collaborator: the Q\&A request holds every
  listed document (C28); a model that answers in the prompt's numbering from one never
  finds the first document and gets no document for the last (C31). Client: the
  editor's tag round trip (C21; the lemma \<open>editor_tags_not_preserved\<close> shows where it
  fails), an unchanged save is a new version (C23), the dashboard's filter and sort
  (C24), filter toggling (C26), statistics (C27), tags generated in the editor are
  saved as generated (C38). Pages: after a confirmed delete the dashboard lists its
  previous documents without the deleted one (C8); in every reachable state a text
  search for a literal query renders without throwing (C20); the version-history
  dialog numbers the versions newest first (C22) and names every editor
  \<open>Unknown\<close> (C25); typing while the AI summary is generated keeps what was typed
  (C30); the Q\&A history alternates question and answer (C32) and settles on success
  and failure (C33); the card's permission agrees with the server (C34) and its AI
  summary changes the cached list only (C35); signed-in and signed-out pages are
  separated (C37); at most one sidebar link is highlighted (C40).

  Beyond the claims: \<open>includes\<close> agrees with a splitting specification (Search); the
  split loop of \<open>highlightText\<close> returns on every input and equals the scan
  \<open>split_ci\<close> (Highlight); the AI routes compose with the service functions (Gemini);
  the retry button of the search page, as modelled with the refetch of the render
  before the type change, reruns the text search (SearchPage); nothing is sent while
  the editor loads, and clicking then settling a button with no typing in between is
  the atomic button of Client (EditorPage); the bubbles of a reachable Q\&A page
  alternate question and answer and the first pending question shows no thinking
  indicator (ChatView); the Q\&A page always gets its input back and can return to its
  initial state (Chat); a reachable search can crash the results page when the model
  numbers documents from one (SearchPage).

  \<^bold>\<open>Bounds and termination.\<close> No loop of the program can run forever: every loop but
  one is over a finite list and is structural recursion or a library combinator, and
  no fuel is used. The one loop that is not structural,
  \<open>RegExp.prototype[@@split]\<close> behind \<open>text.split(regex)\<close>, is the
  \<open>partial_function (option)\<close> \<open>split_loop\<close>, where not returning would be
  \<open>None\<close>; that it returns on every input is proved by induction on twice the
  distance of the search position to the end, plus one while the last match end lags
  behind it (the lemma \<open>js_regex_split_terminates\<close> of Highlight). Its
  reference \<open>split_ci\<close> is a \<open>function\<close> whose termination is proved by the length of the remaining text. Version numbers, timestamps and counts are
  natural numbers; JavaScript numbers are exact on them below \<open>2^53\<close>, far beyond
  what a run of the in-memory store reaches. Relevance scores and indices from the model
  are integers.

  \<^bold>\<open>Not modelled.\<close> Markup, styling, toasts and the router library's navigation
  of the React pages (what each page shows is modelled as a value, not as HTML); the
  support page (part\_000, static markup) and the README that ends part\_002 (prose), the restore button of the version-history
  modal (a stub that only logs), and \<open>highlightText\<close> for queries holding RegExp metacharacters (RegExp
  semantics; such a query is refused by the model); the token and password
  libraries (\<open>jsonwebtoken\<close>, \<open>bcryptjs\<close>), zod's e-mail check (a parameter; the
  other checks of the schemas are written out or the shape of a request body stands for them) and the generative model itself, which are parameters;
  Unicode case mapping and white space beyond the 8-bit characters; the wall clock,
  whose readings are arguments.
\<close>

end
